theory Spec2Isabelle
  imports Complex_Main
begin

unbundle bit_operations_syntax

section \<open>Session manager: resource detection\<close>

text \<open>
  The embedding follows \<^verbatim>\<open>connection.ts\<close> (class \<^verbatim>\<open>Connection\<close>) and
  \<^verbatim>\<open>runtime.ts\<close> (class \<^verbatim>\<open>Runtime\<close>). Thrown JavaScript errors are values:
  a function that can throw returns \<open>error + 'a\<close>, with \<open>Inl\<close> carrying the
  rendered error (what \<^verbatim>\<open>String(error)\<close> gives).
\<close>

type_synonym error = string

text \<open>
  What \<^verbatim>\<open>detectResources\<close> reads from the host. A property that is absent,
  \<^verbatim>\<open>undefined\<close> or not a number is \<open>None\<close>. JavaScript numbers are taken as
  reals: the tier boundaries and the comparisons are modelled exactly, the rounding error of
  the double products \<^verbatim>\<open>deviceMemory * 0.8\<close> and \<^verbatim>\<open>deviceMemory * 0.5\<close> is not.
  \<open>gpuSupported\<close> is what the awaited \<^verbatim>\<open>detectGPU()\<close> answers (it never throws).
\<close>

record host =
  hardwareConcurrency :: "nat option"
  jsHeapSizeLimit :: "real option"
  deviceMemory :: "real option"
  gpuSupported :: bool

record resources =
  cpuMilli :: nat
  memoryGB :: real
  gpu :: bool

text \<open>JavaScript truthiness of \<^verbatim>\<open>number | undefined\<close>: defined and not zero.\<close>

definition truthy :: "real option \<Rightarrow> bool" where
  "truthy v = (case v of None \<Rightarrow> False | Some x \<Rightarrow> x \<noteq> 0)"

text \<open>\<^verbatim>\<open>Math.round\<close>: the nearest integer, halves rounded up.\<close>

definition Math_round :: "real \<Rightarrow> real" where
  "Math_round x = of_int \<lfloor>x + 1 / 2\<rfloor>"

text \<open>Method 1 of \<^verbatim>\<open>detectResources\<close>: \<^verbatim>\<open>performance.memory.jsHeapSizeLimit\<close>.\<close>

definition heapMemoryGB :: "host \<Rightarrow> real option" where
  "heapMemoryGB h =
     (if truthy (jsHeapSizeLimit h)
      then Some (Math_round ((the (jsHeapSizeLimit h) / (1024 * 1024 * 1024)) * 10) / 10)
      else None)"

text \<open>The tiers of method 2, \<^verbatim>\<open>navigator.deviceMemory\<close>, in the order of the source.\<close>

definition deviceTier :: "real \<Rightarrow> real" where
  "deviceTier d =
     (if d \<le> 2 then max (1 / 2) (d * (8 / 10))
      else if d \<le> 4 then 2
      else if d \<le> 8 then min 4 (max 2 (d * (1 / 2)))
      else 4)"

definition estimateMemoryGB :: "host \<Rightarrow> real option" where
  "estimateMemoryGB h =
     (let m1 = heapMemoryGB h in
      if \<not> truthy m1 \<and> deviceMemory h \<noteq> None
      then (if truthy (deviceMemory h) \<and> the (deviceMemory h) > 0
            then Some (deviceTier (the (deviceMemory h)))
            else m1)
      else m1)"

definition cpuError :: error where
  "cpuError = ''Error: Unable to detect CPU cores - hardwareConcurrency not available''"

definition memoryError :: error where
  "memoryError = ''Error: Unable to detect available memory - memory APIs not available. Please use a modern browser (Chrome/Edge recommended for accurate memory detection via performance.memory).''"

definition detectResources :: "host \<Rightarrow> error + resources" where
  "detectResources h =
     (case hardwareConcurrency h of
        None \<Rightarrow> Inl cpuError
      | Some cpuCores \<Rightarrow>
          if cpuCores = 0 \<or> cpuCores < 1 then Inl cpuError
          else (let m = estimateMemoryGB h in
                if \<not> truthy m \<or> the m < 1 / 10 then Inl memoryError
                else Inr \<lparr>cpuMilli = cpuCores * 1000, memoryGB = the m,
                          gpu = gpuSupported h\<rparr>))"

section \<open>Session manager: construction and the durable browser identifier\<close>

text \<open>
  The part of the host a \<^verbatim>\<open>Connection\<close> constructor touches: \<^verbatim>\<open>localStorage\<close>
  (its items, and whether \<^verbatim>\<open>getItem\<close> or \<^verbatim>\<open>setItem\<close> throw, as they do in
  some privacy modes or when the quota is exceeded) and \<^verbatim>\<open>Math.random\<close>, given as the
  sequence of the values \<^verbatim>\<open>(Math.random() * 16) | 0\<close> it will produce.
\<close>

record world =
  storageItems :: "string \<rightharpoonup> string"
  getItemThrows :: bool
  setItemThrows :: bool
  random :: "nat \<Rightarrow> nat"
  drawn :: nat

definition getItem :: "world \<Rightarrow> string \<Rightarrow> error + string option" where
  "getItem w k = (if getItemThrows w then Inl ''Error: localStorage unavailable''
                  else Inr (storageItems w k))"

definition setItem :: "world \<Rightarrow> string \<Rightarrow> string \<Rightarrow> error + world" where
  "setItem w k v = (if setItemThrows w then Inl ''Error: localStorage unavailable''
                    else Inr (w\<lparr>storageItems := (storageItems w)(k \<mapsto> v)\<rparr>))"

definition Math_random16 :: "world \<Rightarrow> nat \<times> world" where
  "Math_random16 w = (random w (drawn w) mod 16, w\<lparr>drawn := Suc (drawn w)\<rparr>)"

definition hexDigit :: "nat \<Rightarrow> char" where
  "hexDigit v = ''0123456789abcdef'' ! v"

text \<open>
  \<^verbatim>\<open>generateUUID\<close>: every \<^verbatim>\<open>x\<close> and \<^verbatim>\<open>y\<close> of the template is replaced, left to
  right, by one hexadecimal digit drawn from \<^verbatim>\<open>Math.random\<close>.
\<close>

fun replaceXY :: "string \<Rightarrow> world \<Rightarrow> string \<times> world" where
  "replaceXY [] w = ([], w)"
| "replaceXY (c # cs) w =
     (if c = CHR ''x'' \<or> c = CHR ''y''
      then (let (r, w1) = Math_random16 w;
                v = (if c = CHR ''x'' then r else (r AND 3) OR 8);
                (rest, w2) = replaceXY cs w1
            in (hexDigit v # rest, w2))
      else (let (rest, w2) = replaceXY cs w in (c # rest, w2)))"

definition generateUUID :: "world \<Rightarrow> string \<times> world" where
  "generateUUID w = replaceXY ''xxxxxxxx-xxxx-4xxx-yxxx-xxxxxxxxxxxx'' w"

definition STORAGE_KEY :: string where
  "STORAGE_KEY = ''kuack-browser-id''"

text \<open>
  The body of the \<^verbatim>\<open>try\<close> block of \<^verbatim>\<open>getOrCreateBrowserId\<close>. A throw
  carries the world as it is at that point (the random values drawn stay drawn).
\<close>

definition getOrCreateBrowserId_try :: "world \<Rightarrow> (error \<times> world) + (string \<times> world)" where
  "getOrCreateBrowserId_try w =
     (case getItem w STORAGE_KEY of
        Inl err \<Rightarrow> Inl (err, w)
      | Inr existingId \<Rightarrow>
          if existingId \<noteq> None \<and> the existingId \<noteq> []
          then Inr (the existingId, w)
          else (let (newId, w1) = generateUUID w in
                case setItem w1 STORAGE_KEY newId of
                  Inl err \<Rightarrow> Inl (err, w1)
                | Inr w2 \<Rightarrow> Inr (newId, w2)))"

text \<open>The \<^verbatim>\<open>catch\<close> block generates a further identifier and returns it.\<close>

definition getOrCreateBrowserId :: "world \<Rightarrow> error + string \<times> world" where
  "getOrCreateBrowserId w =
     (case getOrCreateBrowserId_try w of
        Inr r \<Rightarrow> Inr r
      | Inl (err, w1) \<Rightarrow> Inr (generateUUID w1))"

definition replacePrefix :: "string \<Rightarrow> string \<Rightarrow> string \<Rightarrow> string" where
  "replacePrefix old new url = new @ drop (length old) url"

definition startsWith :: "string \<Rightarrow> string \<Rightarrow> bool" where
  "startsWith url p = (take (length p) url = p)"

definition convertToWebSocketUrl :: "string \<Rightarrow> string" where
  "convertToWebSocketUrl url =
     (let wsUrl = (if startsWith url ''http:'' then replacePrefix ''http:'' ''ws:'' url
                   else if startsWith url ''https:'' then replacePrefix ''https:'' ''wss:'' url
                   else url)
      in if wsUrl \<noteq> [] \<and> last wsUrl = CHR ''/'' then butlast wsUrl else wsUrl)"

section \<open>Session manager: the connection state machine\<close>

datatype ConnectionState = Disconnected | Connecting | Connected | Reconnecting

datatype readyState = CONNECTING | OPEN | CLOSING | CLOSED

text \<open>How a call of the asynchronous \<^verbatim>\<open>connect\<close> ended.\<close>

datatype outcome = Resolved | Rejected error

text \<open>
  A \<^verbatim>\<open>WebSocket\<close> the instance has created: its \<^verbatim>\<open>readyState\<close>; whether the
  promise of the call of \<^verbatim>\<open>connect\<close> that created it is still pending (then the
  ten-second timeout of that call is armed, and the socket's \<^verbatim>\<open>onopen\<close> or
  \<^verbatim>\<open>onerror\<close> settles the call); and whether an \<^verbatim>\<open>onclose\<close> handler has been
  assigned to it. A socket is known by its position in the list of the sockets created.
\<close>

record websocket =
  ws_state :: readyState
  openPending :: bool
  hasOnclose :: bool

text \<open>
  The fields of the class, followed by the bookkeeping of the event loop (the sockets
  created so far, the calls of \<^verbatim>\<open>connect\<close> suspended at the \<^verbatim>\<open>await\<close> inside
  \<^verbatim>\<open>register\<close>, the pending \<^verbatim>\<open>setTimeout\<close> callbacks of \<^verbatim>\<open>handleDisconnect\<close>)
  and by what an observer sees: the states passed to the state-change callback, every
  delay handed to \<^verbatim>\<open>setTimeout\<close> by \<^verbatim>\<open>handleDisconnect\<close>, and the outcome of every
  call of \<^verbatim>\<open>connect\<close>. The field \<open>socket\<close> is \<open>None\<close> for \<^verbatim>\<open>null\<close>, otherwise the
  socket it refers to.
\<close>

record connection =
  uuid :: string
  browserId :: string
  serverUrl :: string
  token :: string
  socket :: "nat option"
  reconnectDelay :: nat
  maxReconnectDelay :: nat
  heartbeatInterval :: nat
  heartbeatTimer :: bool
  isConnecting :: bool
  shouldReconnect :: bool
  hasConnectedOnce :: bool
  currentState :: ConnectionState
  detectedResources :: "resources option"
  sockets :: "websocket list"
  awaitingRegister :: "resources list"
  timers :: "nat list"
  stateLog :: "ConnectionState list"
  scheduled :: "nat list"
  results :: "outcome list"

definition CLOSE_CODE_DUPLICATE_BROWSER :: nat where
  "CLOSE_CODE_DUPLICATE_BROWSER = 4001"

text \<open>
  The constructor. \<open>initConnection\<close> is the object it builds, with the field initialisers
  of the class, from the two identifiers it obtains.
\<close>

definition initConnection :: "string \<Rightarrow> string \<Rightarrow> string \<Rightarrow> string \<Rightarrow> nat \<Rightarrow> connection" where
  "initConnection u b url tok interval =
     \<lparr>uuid = u, browserId = b, serverUrl = convertToWebSocketUrl url, token = tok,
      socket = None, reconnectDelay = 200, maxReconnectDelay = 3000,
      heartbeatInterval = interval, heartbeatTimer = False, isConnecting = False,
      shouldReconnect = True, hasConnectedOnce = False,
      currentState = Disconnected, detectedResources = None,
      sockets = [], awaitingRegister = [], timers = [],
      stateLog = [], scheduled = [], results = []\<rparr>"

definition new_Connection :: "string \<Rightarrow> string \<Rightarrow> nat \<Rightarrow> world \<Rightarrow> error + connection \<times> world" where
  "new_Connection url tok interval w =
     (let (u, w1) = generateUUID w in
      case getOrCreateBrowserId w1 of
        Inl err \<Rightarrow> Inl err
      | Inr (b, w2) \<Rightarrow> Inr (initConnection u b url tok interval, w2))"

definition setState :: "ConnectionState \<Rightarrow> connection \<Rightarrow> connection" where
  "setState s c =
     (if currentState c \<noteq> s then c\<lparr>currentState := s, stateLog := stateLog c @ [s]\<rparr> else c)"

text \<open>\<^verbatim>\<open>this.socket && this.socket.readyState === WebSocket.OPEN\<close>\<close>

definition socketIsOpen :: "connection \<Rightarrow> bool" where
  "socketIsOpen c =
     (case socket c of
        None \<Rightarrow> False
      | Some i \<Rightarrow> i < length (sockets c) \<and> ws_state (sockets c ! i) = OPEN)"

text \<open>
  \<^verbatim>\<open>if (this.socket) this.socket.close()\<close>: a socket that is not closed yet starts
  closing.
\<close>

definition closeSocket :: "connection \<Rightarrow> connection" where
  "closeSocket c =
     (case socket c of
        None \<Rightarrow> c
      | Some i \<Rightarrow>
          if i < length (sockets c) \<and> ws_state (sockets c ! i) \<noteq> CLOSED
          then c\<lparr>sockets := (sockets c)[i := (sockets c ! i)\<lparr>ws_state := CLOSING\<rparr>]\<rparr>
          else c)"

text \<open>
  \<^verbatim>\<open>handleDisconnect\<close> clears the heartbeat and hands the current delay to
  \<^verbatim>\<open>setTimeout\<close>; the callback is \<open>timerFired\<close> below.
\<close>

definition handleDisconnect :: "connection \<Rightarrow> connection" where
  "handleDisconnect c =
     c\<lparr>heartbeatTimer := False,
       timers := timers c @ [reconnectDelay c],
       scheduled := scheduled c @ [reconnectDelay c]\<rparr>"

text \<open>The \<^verbatim>\<open>catch\<close> block of \<^verbatim>\<open>connect\<close>.\<close>

definition connect_catch :: "error \<Rightarrow> connection \<Rightarrow> connection" where
  "connect_catch err c =
     (let c1 = c\<lparr>socket := None, isConnecting := False\<rparr> in
      if shouldReconnect c1 \<and> hasConnectedOnce c1
      then (handleDisconnect c1)\<lparr>results := results c1 @ [Resolved]\<rparr>
      else c1\<lparr>results := results c1 @ [Rejected err]\<rparr>)"

text \<open>
  \<^verbatim>\<open>connect\<close> up to its first \<^verbatim>\<open>await\<close>: the guard, the flags, the state change,
  the new socket, which the field now refers to. The call then waits for that socket to
  open, to fail or for its timeout. (The \<^verbatim>\<open>WebSocket\<close> constructor is taken to return a
  socket.)
\<close>

definition connect :: "connection \<Rightarrow> connection" where
  "connect c =
     (if isConnecting c \<or> socketIsOpen c
      then c\<lparr>results := results c @ [Resolved]\<rparr>
      else (setState Connecting (c\<lparr>isConnecting := True, shouldReconnect := True\<rparr>))
             \<lparr>socket := Some (length (sockets c)),
               sockets := sockets c @ [\<lparr>ws_state = CONNECTING, openPending = True,
                                         hasOnclose = False\<rparr>]\<rparr>)"

text \<open>
  The rendered \<^verbatim>\<open>TypeError\<close> of \<^verbatim>\<open>this.socket.onmessage = ...\<close> when the field is
  \<^verbatim>\<open>null\<close>, as V8 words it.
\<close>

definition nullSocketError :: error where
  "nullSocketError =
     ''TypeError: Cannot set properties of null (setting '' @ [CHR 0x27] @ ''onmessage''
       @ [CHR 0x27] @ '')''"

text \<open>
  The open event of socket \<open>i\<close>, which the browser delivers to a connecting socket: the
  socket is open, and its \<^verbatim>\<open>onopen\<close> sets \<^verbatim>\<open>hasConnectedOnce\<close> and resolves the
  promise of the call that created it, which does nothing if that promise is settled.
  Otherwise the call continues up to the \<^verbatim>\<open>await\<close> of \<^verbatim>\<open>detectGPU\<close> inside
  \<^verbatim>\<open>register\<close>: the handlers are assigned to the socket \<^verbatim>\<open>this.socket\<close> refers to
  by then, which need not be socket \<open>i\<close> (a \<^verbatim>\<open>TypeError\<close> if the field is \<^verbatim>\<open>null\<close>),
  then \<^verbatim>\<open>detectResources\<close> reads the host \<open>h\<close> and may throw.
\<close>

definition socketOpened :: "nat \<Rightarrow> host \<Rightarrow> connection \<Rightarrow> connection" where
  "socketOpened i h c =
     (if \<not> (i < length (sockets c) \<and> ws_state (sockets c ! i) = CONNECTING) then c
      else (let s = sockets c ! i;
                c1 = c\<lparr>sockets := (sockets c)[i := s\<lparr>ws_state := OPEN, openPending := False\<rparr>],
                       hasConnectedOnce := True\<rparr> in
            if \<not> openPending s then c1
            else (case socket c1 of
                    None \<Rightarrow> connect_catch nullSocketError c1
                  | Some j \<Rightarrow>
                      (let c2 = c1\<lparr>sockets := (sockets c1)[j := (sockets c1 ! j)\<lparr>hasOnclose := True\<rparr>]\<rparr> in
                       case detectResources h of
                         Inl err \<Rightarrow> connect_catch err c2
                       | Inr r \<Rightarrow> c2\<lparr>awaitingRegister := awaitingRegister c2 @ [r]\<rparr>))))"

text \<open>
  The error event of socket \<open>i\<close> (the close event that follows it is \<open>socketClosed\<close>):
  its \<^verbatim>\<open>onerror\<close> rejects the promise of the call that created it, if still pending.
\<close>

definition socketError :: "nat \<Rightarrow> connection \<Rightarrow> connection" where
  "socketError i c =
     (if \<not> (i < length (sockets c) \<and> ws_state (sockets c ! i) \<noteq> CLOSED) then c
      else if \<not> openPending (sockets c ! i) then c
      else connect_catch (''Error: WebSocket connection failed to '' @ serverUrl c)
             (c\<lparr>sockets := (sockets c)[i := (sockets c ! i)\<lparr>openPending := False\<rparr>]\<rparr>))"

text \<open>
  The ten-second timeout of the call that created socket \<open>i\<close>, armed as long as the
  promise is pending: it closes the socket \<^verbatim>\<open>this.socket\<close> refers to and rejects.
\<close>

definition openTimeout :: "nat \<Rightarrow> connection \<Rightarrow> connection" where
  "openTimeout i c =
     (if \<not> (i < length (sockets c) \<and> openPending (sockets c ! i)) then c
      else (let c1 = closeSocket c in
            connect_catch (''Error: Connection timeout after 10 seconds to '' @ serverUrl c)
              (c1\<lparr>sockets := (sockets c1)[i := (sockets c1 ! i)\<lparr>openPending := False\<rparr>]\<rparr>)))"

text \<open>
  The rest of \<^verbatim>\<open>register\<close> and of \<^verbatim>\<open>connect\<close> once \<^verbatim>\<open>detectGPU\<close> has answered:
  the resources are stored, \<^verbatim>\<open>sendMessage\<close> throws unless the socket
  \<^verbatim>\<open>this.socket\<close> refers to is open, the heartbeat starts and the state becomes
  \<^verbatim>\<open>connected\<close>.
\<close>

definition gpuDetected :: "connection \<Rightarrow> connection" where
  "gpuDetected c =
     (case awaitingRegister c of
        [] \<Rightarrow> c
      | r # rs \<Rightarrow>
          (let c1 = c\<lparr>awaitingRegister := rs, detectedResources := Some r\<rparr> in
           if \<not> socketIsOpen c1 then connect_catch ''Error: Not connected'' c1
           else (setState Connected (c1\<lparr>heartbeatTimer := True, isConnecting := False\<rparr>))
                  \<lparr>results := results c1 @ [Resolved]\<rparr>))"

text \<open>
  The close event of socket \<open>i\<close> with the given code, delivered once: the socket is
  closed, and its \<^verbatim>\<open>onclose\<close> handler runs if one has been assigned to it.
\<close>

definition socketClosed :: "nat \<Rightarrow> nat \<Rightarrow> connection \<Rightarrow> connection" where
  "socketClosed i code c =
     (if \<not> (i < length (sockets c) \<and> ws_state (sockets c ! i) \<noteq> CLOSED) then c
      else (let c0 = c\<lparr>sockets := (sockets c)[i := (sockets c ! i)\<lparr>ws_state := CLOSED\<rparr>]\<rparr> in
            if \<not> hasOnclose (sockets c ! i) then c0
            else (let c1 = c0\<lparr>socket := None, isConnecting := False, heartbeatTimer := False\<rparr> in
                  if code = CLOSE_CODE_DUPLICATE_BROWSER
                  then setState Disconnected (c1\<lparr>shouldReconnect := False\<rparr>)
                  else if shouldReconnect c1
                  then handleDisconnect (setState Reconnecting c1)
                  else setState Disconnected c1)))"

text \<open>The \<^verbatim>\<open>setTimeout\<close> callback of \<^verbatim>\<open>handleDisconnect\<close>; the oldest timer fires first.\<close>

definition timerFired :: "connection \<Rightarrow> connection" where
  "timerFired c =
     (case timers c of
        [] \<Rightarrow> c
      | d # ds \<Rightarrow>
          (let c1 = c\<lparr>timers := ds\<rparr> in
           if shouldReconnect c1
           then connect (c1\<lparr>reconnectDelay :=
                              min (reconnectDelay c1 * 2) (maxReconnectDelay c1)\<rparr>)
           else c1))"

definition disconnect :: "connection \<Rightarrow> connection" where
  "disconnect c =
     (closeSocket (setState Disconnected (c\<lparr>shouldReconnect := False, hasConnectedOnce := False\<rparr>)))
       \<lparr>heartbeatTimer := False, socket := None\<rparr>"

text \<open>
  What can happen to a connection: the two calls of its interface, and what the browser
  delivers: the open, error and close events of a socket, the timeout of the call that
  created a socket, the answer of \<^verbatim>\<open>detectGPU\<close>, and the oldest reconnect timer.
\<close>

datatype event =
    CallConnect
  | CallDisconnect
  | SocketOpened nat host
  | SocketError nat
  | OpenTimeout nat
  | GpuDetected
  | SocketClosed nat nat
  | TimerFired

fun step :: "connection \<Rightarrow> event \<Rightarrow> connection" where
  "step c CallConnect = connect c"
| "step c CallDisconnect = disconnect c"
| "step c (SocketOpened i h) = socketOpened i h c"
| "step c (SocketError i) = socketError i c"
| "step c (OpenTimeout i) = openTimeout i c"
| "step c GpuDetected = gpuDetected c"
| "step c (SocketClosed i code) = socketClosed i code c"
| "step c TimerFired = timerFired c"

definition run :: "connection \<Rightarrow> event list \<Rightarrow> connection" where
  "run c es = foldl step c es"

subsection \<open>Properties of connection states used below\<close>

text \<open>
  The delay is between its floor and the cap, and the delays handed to
  \<^verbatim>\<open>setTimeout\<close> so far are in ascending order and none exceeds the current delay.
\<close>

definition delay_inv :: "connection \<Rightarrow> bool" where
  "delay_inv c = (200 \<le> reconnectDelay c \<and> reconnectDelay c \<le> maxReconnectDelay c
     \<and> sorted (scheduled c) \<and> list_all (\<lambda>d. 200 \<le> d \<and> d \<le> reconnectDelay c) (scheduled c))"

text \<open>Reconnection is off, the state is \<^verbatim>\<open>disconnected\<close> and there is no socket.\<close>

definition stopped :: "connection \<Rightarrow> bool" where
  "stopped c = (\<not> shouldReconnect c \<and> currentState c = Disconnected \<and> socket c = None)"

text \<open>
  The call of \<^verbatim>\<open>connect\<close> that created socket \<open>i\<close> is waiting for it to open.
\<close>

definition waitingFor :: "nat \<Rightarrow> connection \<Rightarrow> bool" where
  "waitingFor i c = (i < length (sockets c) \<and> openPending (sockets c ! i)
                       \<and> ws_state (sockets c ! i) \<noteq> CLOSED)"

text \<open>
  While the instance is connected, or its field refers to an open socket,
  \<^verbatim>\<open>hasConnectedOnce\<close> is set.
\<close>

definition connected_inv :: "connection \<Rightarrow> bool" where
  "connected_inv c = ((currentState c = Connected \<or> socketIsOpen c) \<longrightarrow> hasConnectedOnce c)"

text \<open>
  Two hosts for the examples: the one the repository's tests set up (four cores, 8 GB of
  device memory, no heap ceiling), and one on which no memory source is available.
\<close>

definition testHost :: host where
  "testHost = \<lparr>hardwareConcurrency = Some 4, jsHeapSizeLimit = None,
                deviceMemory = Some 8, gpuSupported = False\<rparr>"

definition noMemoryHost :: host where
  "noMemoryHost = \<lparr>hardwareConcurrency = Some 4, jsHeapSizeLimit = None,
                    deviceMemory = None, gpuSupported = False\<rparr>"

definition testConnection :: connection where
  "testConnection = initConnection ''3a18f6d4-b290-47e5-83a1-8f6d4b2907e5''
                      ''5c3a18f6-d4b2-4907-a5c3-a18f6d4b2907'' ''http://localhost:8080/'' ''test-token'' 15000"

section \<open>Execution engine: data model and effects\<close>

text \<open>
  Two revisions of \<^verbatim>\<open>runtime.ts\<close> are modelled. The later one checks that the
  container carries an explicit module path, knows two execution modes (WASI and
  wasm-bindgen) and masks the token in the URLs it logs; it is embedded under the names of
  the source. The earlier one has the discovery block instead (it fetches
  \<^verbatim>\<open>pkg/package.json\<close>) and always runs the bindgen executor; its \<^verbatim>\<open>executePod\<close>
  is embedded as \<open>executePod_discovery\<close>.
\<close>

record WasmSpec =
  wasm_path :: "string option"
  wasm_variant :: "string option"
  wasm_image :: "string option"
  wasm_type :: "string option"

record ContainerSpec =
  container_name :: string
  container_image :: string
  command :: "string list option"
  args :: "string list option"
  env :: "(string \<times> string) list option"
  wasm :: "WasmSpec option"

record PodSpec =
  metadata_name :: string
  metadata_namespace :: string
  containers :: "ContainerSpec list"

datatype Phase = Pending | Running | Succeeded | Failed

record PodStatus =
  phase :: Phase
  message :: string

text \<open>
  Everything \<^verbatim>\<open>Runtime\<close> does to the outside, in the order it happens: a call of the
  status callback, a call of the log callback, a line on the (original) console with its
  arguments joined by a space, and a call of \<^verbatim>\<open>fetch\<close> with its URL.
\<close>

datatype effect = Status PodStatus | Log string | Console string | Fetch string

text \<open>
  A computation that has effects and may throw: the effects up to the return or the
  throw, and the result.
\<close>

type_synonym 'a io = "effect list \<times> (error + 'a)"

definition io_return :: "'a \<Rightarrow> 'a io" where
  "io_return x = ([], Inr x)"

definition io_throw :: "error \<Rightarrow> 'a io" where
  "io_throw e = ([], Inl e)"

definition emit :: "effect \<Rightarrow> unit io" where
  "emit ef = ([ef], Inr ())"

definition io_bind :: "'a io \<Rightarrow> ('a \<Rightarrow> 'b io) \<Rightarrow> 'b io" where
  "io_bind m f =
     (case snd m of
        Inl e \<Rightarrow> (fst m, Inl e)
      | Inr a \<Rightarrow> (fst m @ fst (f a), snd (f a)))"

text \<open>\<^verbatim>\<open>try { m } catch (e) { h e }\<close>\<close>

definition io_catch :: "'a io \<Rightarrow> (error \<Rightarrow> 'a io) \<Rightarrow> 'a io" where
  "io_catch m h =
     (case snd m of
        Inl e \<Rightarrow> (fst m @ fst (h e), snd (h e))
      | Inr a \<Rightarrow> m)"

text \<open>\<^verbatim>\<open>for (const x of xs) f(x)\<close>, stopping at the first throw.\<close>

fun io_each :: "('a \<Rightarrow> unit io) \<Rightarrow> 'a list \<Rightarrow> unit io" where
  "io_each f [] = io_return ()"
| "io_each f (x # xs) = io_bind (f x) (\<lambda>_. io_each f xs)"

text \<open>
  The callbacks are the caller's: a call returns (\<open>None\<close>) or throws (\<open>Some e\<close>).
  They do not call back into the \<^verbatim>\<open>Runtime\<close>.
\<close>

type_synonym status_callback = "PodStatus \<Rightarrow> error option"
type_synonym log_callback = "string \<Rightarrow> error option"

definition call_onStatus :: "status_callback \<Rightarrow> Phase \<Rightarrow> string \<Rightarrow> unit io" where
  "call_onStatus onStatus p m =
     ([Status \<lparr>phase = p, message = m\<rparr>],
      case onStatus \<lparr>phase = p, message = m\<rparr> of None \<Rightarrow> Inr () | Some e \<Rightarrow> Inl e)"

definition call_onLog :: "log_callback \<Rightarrow> string \<Rightarrow> unit io" where
  "call_onLog onLog l = ([Log l], case onLog l of None \<Rightarrow> Inr () | Some e \<Rightarrow> Inl e)"

definition statuses :: "effect list \<Rightarrow> PodStatus list" where
  "statuses tr = concat (map (\<lambda>ef. case ef of Status s \<Rightarrow> [s] | _ \<Rightarrow> []) tr)"

definition logs :: "effect list \<Rightarrow> string list" where
  "logs tr = concat (map (\<lambda>ef. case ef of Log s \<Rightarrow> [s] | _ \<Rightarrow> []) tr)"

definition consoleLines :: "effect list \<Rightarrow> string list" where
  "consoleLines tr = concat (map (\<lambda>ef. case ef of Console s \<Rightarrow> [s] | _ \<Rightarrow> []) tr)"

definition fetches :: "effect list \<Rightarrow> string list" where
  "fetches tr = concat (map (\<lambda>ef. case ef of Fetch s \<Rightarrow> [s] | _ \<Rightarrow> []) tr)"

text \<open>JavaScript truthiness of \<^verbatim>\<open>string | undefined\<close>: defined and not empty.\<close>

definition truthyStr :: "string option \<Rightarrow> bool" where
  "truthyStr v = (case v of None \<Rightarrow> False | Some s \<Rightarrow> s \<noteq> [])"

text \<open>
  Numbers in template strings: \<^verbatim>\<open>String(n)\<close> of an integer is its decimal numeral.
\<close>

definition digitChar :: "nat \<Rightarrow> char" where
  "digitChar d = ''0123456789'' ! d"

fun showNat :: "nat \<Rightarrow> string" where
  "showNat n = (if 10 \<le> n then showNat (n div 10) @ [digitChar (n mod 10)] else [digitChar n])"

definition showInt :: "int \<Rightarrow> string" where
  "showInt i = (if 0 \<le> i then showNat (nat i) else CHR ''-'' # showNat (nat (- i)))"

text \<open>\<^verbatim>\<open>s.includes(p)\<close>, \<^verbatim>\<open>s.endsWith(p)\<close>\<close>

definition str_includes :: "string \<Rightarrow> string \<Rightarrow> bool" where
  "str_includes s p = list_ex (\<lambda>i. take (length p) (drop i s) = p) [0 ..< Suc (length s)]"

definition endsWith :: "string \<Rightarrow> string \<Rightarrow> bool" where
  "endsWith s p = (length p \<le> length s \<and> drop (length s - length p) s = p)"

text \<open>\<^verbatim>\<open>s.replace(/<old>$/, new)\<close> for a literal \<open>old\<close>: the suffix is replaced if it is there.\<close>

definition replaceSuffix :: "string \<Rightarrow> string \<Rightarrow> string \<Rightarrow> string" where
  "replaceSuffix old new s =
     (if endsWith s old then take (length s - length old) s @ new else s)"

subsection \<open>URLs\<close>

text \<open>
  A parsed \<^verbatim>\<open>URL\<close>: what precedes the query, and the list behind
  \<^verbatim>\<open>searchParams\<close>. Strings are byte strings (UTF-8).
\<close>

record URL =
  url_base :: string
  searchParams :: "(string \<times> string) list"

text \<open>
  \<^verbatim>\<open>searchParams.set\<close>: the first pair of that name takes the value and the others of
  that name are removed; without such a pair one is appended.
\<close>

fun params_set :: "string \<Rightarrow> string \<Rightarrow> (string \<times> string) list \<Rightarrow> (string \<times> string) list" where
  "params_set k v [] = [(k, v)]"
| "params_set k v (p # ps) =
     (if fst p = k then (k, v) # filter (\<lambda>q. fst q \<noteq> k) ps else p # params_set k v ps)"

definition params_has :: "string \<Rightarrow> (string \<times> string) list \<Rightarrow> bool" where
  "params_has k ps = (map_of ps k \<noteq> None)"

definition params_get :: "string \<Rightarrow> (string \<times> string) list \<Rightarrow> string option" where
  "params_get k ps = map_of ps k"

definition searchParams_set :: "string \<Rightarrow> string \<Rightarrow> URL \<Rightarrow> URL" where
  "searchParams_set k v u = u\<lparr>searchParams := params_set k v (searchParams u)\<rparr>"

text \<open>The \<^verbatim>\<open>application/x-www-form-urlencoded\<close> serialiser of the URL standard.\<close>

definition hexUpper :: "nat \<Rightarrow> char" where
  "hexUpper v = ''0123456789ABCDEF'' ! v"

definition isUnreserved :: "char \<Rightarrow> bool" where
  "isUnreserved c =
     (let n = (of_char c :: nat) in
      (48 \<le> n \<and> n \<le> 57) \<or> (65 \<le> n \<and> n \<le> 90) \<or> (97 \<le> n \<and> n \<le> 122)
      \<or> c = CHR ''*'' \<or> c = CHR ''-'' \<or> c = CHR ''.'' \<or> c = CHR ''_'')"

definition encodeByte :: "char \<Rightarrow> string" where
  "encodeByte c =
     (if isUnreserved c then [c]
      else if c = CHR '' '' then ''+''
      else [CHR ''%'', hexUpper ((of_char c :: nat) div 16), hexUpper ((of_char c :: nat) mod 16)])"

definition urlencode :: "string \<Rightarrow> string" where
  "urlencode s = concat (map encodeByte s)"

fun joinWith :: "string \<Rightarrow> string list \<Rightarrow> string" where
  "joinWith sep [] = []"
| "joinWith sep [x] = x"
| "joinWith sep (x # y # ys) = x @ sep @ joinWith sep (y # ys)"

definition URL_toString :: "URL \<Rightarrow> string" where
  "URL_toString u =
     url_base u @
     (if searchParams u = [] then []
      else ''?'' @ joinWith ''&'' (map (\<lambda>(k, v). urlencode k @ ''='' @ urlencode v) (searchParams u)))"

subsection \<open>The runtime and its platform\<close>

record response =
  ok :: bool
  status :: nat
  statusText :: string
  body_text :: "error + string"
  body_bytes :: "error + nat list"

text \<open>
  The platform: the URL parser (\<open>None\<close> when \<^verbatim>\<open>new URL\<close> throws its
  \<^verbatim>\<open>TypeError\<close>), \<^verbatim>\<open>window.location.origin\<close> if there is a window, and the network
  behind \<^verbatim>\<open>fetch\<close> (\<open>Inl\<close> when the promise rejects). \<open>JSON_main\<close> is
  \<^verbatim>\<open>JSON.parse(text).main\<close> where that is a string: \<open>Inl\<close> when parsing or the property
  access throws, \<open>Inr None\<close> when \<^verbatim>\<open>main\<close> is missing or not a string.
\<close>

record platform =
  URL_parse :: "string \<Rightarrow> URL option"
  URL_resolve :: "string \<Rightarrow> string \<Rightarrow> URL option"
  window_origin :: "string option"
  fetch :: "string \<Rightarrow> error + response"
  JSON_main :: "string \<Rightarrow> error + string option"

record runtime =
  runningPods :: "string set"
  executedPodCount :: nat
  registryProxyUrl :: string
  rt_token :: string

definition new_Runtime :: "string \<Rightarrow> string \<Rightarrow> runtime" where
  "new_Runtime url tok =
     \<lparr>runningPods = {}, executedPodCount = 0, registryProxyUrl = url, rt_token = tok\<rparr>"

text \<open>
  \<^verbatim>\<open>sanitizeUrlForLogging\<close> works on a copy, \<^verbatim>\<open>new URL(url.toString())\<close>, which is taken
  to parse back to the same base and parameters; the URL given to \<^verbatim>\<open>fetch\<close> is untouched.
\<close>

definition sanitizeUrlForLogging :: "URL \<Rightarrow> string" where
  "sanitizeUrlForLogging u =
     (let sanitizedUrl = u in
      URL_toString (if params_has ''token'' (searchParams sanitizedUrl)
                    then searchParams_set ''token'' ''***'' sanitizedUrl
                    else sanitizedUrl))"

definition invalidUrl :: error where
  "invalidUrl = ''TypeError: Invalid URL''"

definition buildRegistryUrl :: "runtime \<Rightarrow> platform \<Rightarrow> URL io" where
  "buildRegistryUrl rt pf =
     (case URL_parse pf (registryProxyUrl rt) of
        Some u \<Rightarrow> io_return u
      | None \<Rightarrow>
          (case window_origin pf of
             Some origin \<Rightarrow>
               (case URL_resolve pf (registryProxyUrl rt) origin of
                  Some u \<Rightarrow> io_return u
                | None \<Rightarrow> io_throw invalidUrl)
           | None \<Rightarrow> io_throw invalidUrl))"

definition do_fetch :: "platform \<Rightarrow> URL \<Rightarrow> response io" where
  "do_fetch pf u = ([Fetch (URL_toString u)], fetch pf (URL_toString u))"

text \<open>
  The error text of a failed download that reads the body: the status text, followed by
  the body when it can be read and is not empty.
\<close>

definition errorTextOf :: "response \<Rightarrow> string" where
  "errorTextOf r =
     (case body_text r of
        Inl e \<Rightarrow> statusText r
      | Inr t \<Rightarrow> if t \<noteq> [] then statusText r @ '': '' @ t else statusText r)"

definition withToken :: "runtime \<Rightarrow> URL \<Rightarrow> URL" where
  "withToken rt u = (if rt_token rt \<noteq> [] then searchParams_set ''token'' (rt_token rt) u else u)"

definition withVariant :: "string option \<Rightarrow> URL \<Rightarrow> URL" where
  "withVariant v u = (if truthyStr v then searchParams_set ''variant'' (the v) u else u)"

text \<open>
  The three downloads. \<open>logUrl\<close> is how the URL is rendered for the console:
  \<open>sanitizeUrlForLogging\<close> in the later revision, \<open>URL_toString\<close> in the earlier one.
\<close>

definition downloadFile_with ::
  "(URL \<Rightarrow> string) \<Rightarrow> runtime \<Rightarrow> platform \<Rightarrow> string \<Rightarrow> string \<Rightarrow> string option \<Rightarrow> string io" where
  "downloadFile_with logUrl rt pf imageRef path variant =
     io_bind (buildRegistryUrl rt pf) (\<lambda>u0.
       let url = withVariant variant (withToken rt
                   (searchParams_set ''path'' path (searchParams_set ''image'' imageRef u0))) in
       io_bind (emit (Console (''[Runtime] Downloading file '' @ path @ '' from '' @ logUrl url))) (\<lambda>_.
       io_bind (do_fetch pf url) (\<lambda>r.
         if \<not> ok r
         then io_throw (''Error: Failed to download file '' @ path @ '': '' @ showNat (status r) @ '' '' @ errorTextOf r)
         else (case body_text r of Inl e \<Rightarrow> io_throw e | Inr t \<Rightarrow> io_return t))))"

definition imageRefOf :: "ContainerSpec \<Rightarrow> string" where
  "imageRefOf container =
     (case wasm container of
        None \<Rightarrow> container_image container
      | Some ws \<Rightarrow> (case wasm_image ws of None \<Rightarrow> container_image container | Some i \<Rightarrow> i))"

definition pathOf :: "ContainerSpec \<Rightarrow> string option" where
  "pathOf container = (case wasm container of None \<Rightarrow> None | Some ws \<Rightarrow> wasm_path ws)"

definition variantOf :: "ContainerSpec \<Rightarrow> string option" where
  "variantOf container = (case wasm container of None \<Rightarrow> None | Some ws \<Rightarrow> wasm_variant ws)"

definition downloadWASM_with ::
  "(URL \<Rightarrow> string) \<Rightarrow> runtime \<Rightarrow> platform \<Rightarrow> ContainerSpec \<Rightarrow> nat list io" where
  "downloadWASM_with logUrl rt pf container =
     io_bind (buildRegistryUrl rt pf) (\<lambda>u0.
       let u1 = searchParams_set ''image'' (imageRefOf container) u0;
           u2 = (if truthyStr (pathOf container)
                 then searchParams_set ''path'' (the (pathOf container)) u1 else u1);
           url = withVariant (variantOf container) (withToken rt u2) in
       io_bind (emit (Console (''[Runtime] Downloading WASM from '' @ logUrl url))) (\<lambda>_.
       io_bind (do_fetch pf url) (\<lambda>r.
         if \<not> ok r
         then io_throw (''Error: Failed to download WASM: '' @ showNat (status r) @ '' '' @ errorTextOf r)
         else (case body_bytes r of Inl e \<Rightarrow> io_throw e | Inr b \<Rightarrow> io_return b))))"

definition downloadJS_with ::
  "(URL \<Rightarrow> string) \<Rightarrow> runtime \<Rightarrow> platform \<Rightarrow> string \<Rightarrow> string \<Rightarrow> string option \<Rightarrow> string io" where
  "downloadJS_with logUrl rt pf wasmPath imageRef variant =
     (let jsPath = replaceSuffix ''_bg.wasm'' ''.js'' wasmPath in
      io_bind (buildRegistryUrl rt pf) (\<lambda>u0.
        let url = withVariant variant (withToken rt
                    (searchParams_set ''path'' jsPath (searchParams_set ''image'' imageRef u0))) in
        io_bind (emit (Console (''[Runtime] Downloading JS glue code from '' @ logUrl url))) (\<lambda>_.
        io_bind (do_fetch pf url) (\<lambda>r.
          if \<not> ok r
          then io_throw (''Error: Failed to download JS: '' @ showNat (status r) @ '' '' @ statusText r)
          else (case body_text r of Inl e \<Rightarrow> io_throw e | Inr t \<Rightarrow> io_return t)))))"

definition downloadFile :: "runtime \<Rightarrow> platform \<Rightarrow> string \<Rightarrow> string \<Rightarrow> string option \<Rightarrow> string io" where
  "downloadFile = downloadFile_with sanitizeUrlForLogging"

definition downloadWASM :: "runtime \<Rightarrow> platform \<Rightarrow> ContainerSpec \<Rightarrow> nat list io" where
  "downloadWASM = downloadWASM_with sanitizeUrlForLogging"

definition downloadJS :: "runtime \<Rightarrow> platform \<Rightarrow> string \<Rightarrow> string \<Rightarrow> string option \<Rightarrow> string io" where
  "downloadJS = downloadJS_with sanitizeUrlForLogging"

subsection \<open>The executors\<close>

text \<open>
  An \<^verbatim>\<open>AbortSignal\<close> as an executor reads it: \<^verbatim>\<open>signal.aborted\<close> when the
  executor starts, and whether the controller is aborted while the executor is suspended
  at an \<^verbatim>\<open>await\<close>. The flag never goes back.
\<close>

record AbortSignal =
  abortedAtStart :: bool
  abortedAfterAwait :: bool

definition aborted_later :: "AbortSignal \<Rightarrow> bool" where
  "aborted_later signal = (abortedAtStart signal \<or> abortedAfterAwait signal)"

text \<open>
  What a WASI module does when it is run: \<^verbatim>\<open>WebAssembly.instantiate\<close> may reject;
  \<^verbatim>\<open>wasi.start\<close> writes texts to file descriptors 1 and 2, and then returns the exit
  code or throws (a trap).
\<close>

record wasi_module =
  instantiate_error :: "error option"
  start_writes :: "string list"
  start_result :: "error + int"

text \<open>
  What a wasm-bindgen module does: the dynamic import may reject; the default initialiser
  prints console lines and may reject; \<^verbatim>\<open>main\<close>, if exported, prints console lines,
  then rejects or returns (\<open>None\<close> for \<^verbatim>\<open>undefined\<close>, otherwise the rendered value).
\<close>

record bindgen_module =
  import_error :: "error option"
  init_console :: "string list"
  init_error :: "error option"
  has_main :: bool
  main_console :: "string list"
  main_result :: "error + string option"

text \<open>
  The sandbox: which behaviour module bytes have, given what the executor passes in, and
  whether \<^verbatim>\<open>deletePod\<close> aborts the pod while its executor is suspended.
\<close>

record sandbox =
  wasi_of :: "nat list \<Rightarrow> string list \<Rightarrow> string list \<Rightarrow> wasi_module"
  bindgen_of :: "string \<Rightarrow> nat list \<Rightarrow> (string \<rightharpoonup> string) \<Rightarrow> bindgen_module"
  deleted :: bool

definition io_of_option :: "error option \<Rightarrow> unit io" where
  "io_of_option r = (case r of Some e \<Rightarrow> io_throw e | None \<Rightarrow> io_return ())"

definition executionAborted :: error where
  "executionAborted = ''Error: Execution aborted''"

definition executeWASI ::
  "sandbox \<Rightarrow> nat list \<Rightarrow> string list \<Rightarrow> string list \<Rightarrow> (string \<times> string) list \<Rightarrow>
   log_callback \<Rightarrow> AbortSignal \<Rightarrow> unit io" where
  "executeWASI sb wasmBytes cmd arguments environ onLog signal =
     io_bind (emit (Console ''[Runtime] Initializing WASI...'')) (\<lambda>_.
       let argsList = cmd @ arguments;
           envObj = map (\<lambda>(n, v). n @ ''='' @ v) environ;
           m = wasi_of sb wasmBytes argsList envObj in
       io_catch
         (if abortedAtStart signal then io_throw executionAborted
          else io_bind (io_of_option (instantiate_error m)) (\<lambda>_.
               io_bind (emit (Console ''[Runtime] Running WASI module...'')) (\<lambda>_.
               if aborted_later signal then io_throw executionAborted
               else io_bind (io_each (call_onLog onLog) (start_writes m)) (\<lambda>_.
                    io_bind (case start_result m of Inl e \<Rightarrow> io_throw e | Inr n \<Rightarrow> io_return n) (\<lambda>exitCode.
                    io_bind (call_onLog onLog (''WASI execution completed with exit code: ''
                                                @ showInt exitCode)) (\<lambda>_.
                    if exitCode \<noteq> 0
                    then io_throw (''Error: Process exited with code '' @ showInt exitCode)
                    else io_return ()))))))
         (\<lambda>err. if aborted_later signal then io_throw executionAborted else io_throw err))"

text \<open>
  While \<^verbatim>\<open>executeWASM\<close> runs, every console call goes to the original console and
  then, unless it echoes a status-report failure, to the log callback, whose errors are
  swallowed.
\<close>

definition interceptLog :: "log_callback \<Rightarrow> string \<Rightarrow> unit io" where
  "interceptLog onLog logMessage =
     io_bind (emit (Console logMessage)) (\<lambda>_.
       if str_includes logMessage ''[Agent] Failed to report pod status'' then io_return ()
       else io_catch (call_onLog onLog logMessage) (\<lambda>_. io_return ()))"

definition executeWASM ::
  "sandbox \<Rightarrow> nat list \<Rightarrow> string \<Rightarrow> string list \<Rightarrow> string list \<Rightarrow> (string \<times> string) list \<Rightarrow>
   log_callback \<Rightarrow> AbortSignal \<Rightarrow> unit io" where
  "executeWASM sb wasmBytes jsCode cmd arguments environ onLog signal =
     (let m = bindgen_of sb jsCode wasmBytes (map_of (rev environ)) in
      io_bind (interceptLog onLog ''[Runtime] Loading wasm-bindgen JS module...'') (\<lambda>_.
      if abortedAtStart signal then io_throw executionAborted
      else io_bind (io_of_option (import_error m)) (\<lambda>_.
           io_bind (interceptLog onLog ''[Runtime] Initializing wasm-bindgen module...'') (\<lambda>_.
           io_bind (io_each (interceptLog onLog) (init_console m)) (\<lambda>_.
           io_bind (io_of_option (init_error m)) (\<lambda>_.
           io_bind (interceptLog onLog ''[Runtime] Running WASM module...'') (\<lambda>_.
           if aborted_later signal then io_throw executionAborted
           else io_bind
                  (if has_main m
                   then io_bind (io_each (interceptLog onLog) (main_console m)) (\<lambda>_.
                          case main_result m of
                            Inl e \<Rightarrow> io_throw e
                          | Inr None \<Rightarrow> io_return ()
                          | Inr (Some r) \<Rightarrow>
                              call_onLog onLog (''WASM execution completed with result: '' @ r))
                   else call_onLog onLog
                          ''WASM module initialized successfully (no main function found)'') (\<lambda>_.
                interceptLog onLog ''[Runtime] WASM execution completed''))))))))"

subsection \<open>Executing a pod, later revision\<close>

definition typeOf :: "ContainerSpec \<Rightarrow> string option" where
  "typeOf container = (case wasm container of None \<Rightarrow> None | Some ws \<Rightarrow> wasm_type ws)"

definition orEmpty :: "'a list option \<Rightarrow> 'a list" where
  "orEmpty v = (case v of None \<Rightarrow> [] | Some xs \<Rightarrow> xs)"

definition podKeyOf :: "string \<Rightarrow> string \<Rightarrow> string" where
  "podKeyOf ns n = ns @ ''/'' @ n"

definition freshSignal :: "sandbox \<Rightarrow> AbortSignal" where
  "freshSignal sb = \<lparr>abortedAtStart = False, abortedAfterAwait = deleted sb\<rparr>"

text \<open>The body of the \<^verbatim>\<open>try\<close> block of \<^verbatim>\<open>executePod\<close>.\<close>

definition executePod_try ::
  "runtime \<Rightarrow> platform \<Rightarrow> sandbox \<Rightarrow> PodSpec \<Rightarrow> status_callback \<Rightarrow> log_callback \<Rightarrow> unit io" where
  "executePod_try rt pf sb podSpec onStatus onLog =
     (case containers podSpec of
        [] \<Rightarrow> io_throw ''Error: No containers specified''
      | container # _ \<Rightarrow>
          if \<not> truthyStr (pathOf container)
          then io_throw ''Error: Missing WASM configuration (path) in PodSpec. Node should have resolved this.''
          else
            (let wasmType = (if truthyStr (typeOf container) then the (typeOf container) else ''wasi'');
                 isWasi = (wasmType = ''wasi'');
                 wasmPath = the (pathOf container) in
             io_bind (emit (Console (''[Runtime] Configuration: Type='' @ wasmType @ '', Path='' @ wasmPath))) (\<lambda>_.
             io_bind (downloadWASM rt pf container) (\<lambda>wasmBytes.
             io_bind
               (if \<not> isWasi
                then io_catch (downloadJS rt pf wasmPath (imageRefOf container) (variantOf container))
                       (\<lambda>err. io_bind (emit (Console (''[Runtime] Failed to download JS glue for bindgen module: '' @ err)))
                                 (\<lambda>_. io_throw (''Error: Failed to download JS glue for bindgen module: '' @ err)))
                else io_return []) (\<lambda>jsCode.
             io_bind (call_onStatus onStatus Running
                        (if isWasi then ''Executing WASI module'' else ''Executing WASM module (bindgen)'')) (\<lambda>_.
             io_bind
               (if isWasi
                then executeWASI sb wasmBytes (orEmpty (command container)) (orEmpty (args container))
                       (orEmpty (env container)) onLog (freshSignal sb)
                else executeWASM sb wasmBytes jsCode (orEmpty (command container))
                       (orEmpty (args container)) (orEmpty (env container)) onLog (freshSignal sb)) (\<lambda>_.
             call_onStatus onStatus Succeeded ''WASM execution completed'')))))))"

text \<open>The \<^verbatim>\<open>catch\<close> block shared by both revisions.\<close>

definition executePod_catch :: "status_callback \<Rightarrow> error \<Rightarrow> unit io" where
  "executePod_catch onStatus err =
     io_bind (emit (Console (''[Runtime] Pod execution failed: '' @ err))) (\<lambda>_.
       call_onStatus onStatus Failed (''Execution error: '' @ err))"

text \<open>
  \<^verbatim>\<open>executePod\<close>: what it does and how its promise settles. The first status is
  reported before the \<^verbatim>\<open>try\<close> block is entered.
\<close>

definition executePod ::
  "runtime \<Rightarrow> platform \<Rightarrow> sandbox \<Rightarrow> PodSpec \<Rightarrow> status_callback \<Rightarrow> log_callback \<Rightarrow> unit io" where
  "executePod rt pf sb podSpec onStatus onLog =
     (let podKey = podKeyOf (metadata_namespace podSpec) (metadata_name podSpec) in
      io_bind (emit (Console (''[Runtime] Executing pod: '' @ podKey))) (\<lambda>_.
      io_bind (call_onStatus onStatus Pending ''Downloading WASM module'') (\<lambda>_.
      io_catch (executePod_try rt pf sb podSpec onStatus onLog) (executePod_catch onStatus))))"

text \<open>
  The runtime after \<^verbatim>\<open>executePod\<close>: the counter is incremented, and the
  \<^verbatim>\<open>finally\<close> block has removed the pod's key unless the first status callback threw.
\<close>

definition executePod_runtime :: "runtime \<Rightarrow> PodSpec \<Rightarrow> status_callback \<Rightarrow> runtime" where
  "executePod_runtime rt podSpec onStatus =
     (let podKey = podKeyOf (metadata_namespace podSpec) (metadata_name podSpec);
          rt1 = rt\<lparr>executedPodCount := Suc (executedPodCount rt)\<rparr> in
      if onStatus \<lparr>phase = Pending, message = ''Downloading WASM module''\<rparr> \<noteq> None then rt1
      else rt1\<lparr>runningPods := runningPods rt1 - {podKey}\<rparr>)"

definition deletePod :: "runtime \<Rightarrow> string \<Rightarrow> string \<Rightarrow> unit io \<times> runtime" where
  "deletePod rt ns n =
     (let podKey = podKeyOf ns n in
      if podKey \<in> runningPods rt
      then (emit (Console (''[Runtime] Terminating pod: '' @ podKey)),
            rt\<lparr>runningPods := runningPods rt - {podKey}\<rparr>)
      else (io_return (), rt))"

subsection \<open>Executing a pod, earlier revision with the discovery block\<close>

definition setPath :: "string \<Rightarrow> ContainerSpec \<Rightarrow> ContainerSpec" where
  "setPath p container =
     container\<lparr>wasm := Some
       ((case wasm container of
           None \<Rightarrow> \<lparr>wasm_path = None, wasm_variant = None, wasm_image = None, wasm_type = None\<rparr>
         | Some ws \<Rightarrow> ws)\<lparr>wasm_path := Some p\<rparr>)\<rparr>"

text \<open>
  \<^verbatim>\<open>imageRef.match(/\/([^/:]+)(?::.+)?$/)\<close>, group 1: at the leftmost slash from
  which the pattern matches, the longest run of characters other than slash and colon,
  which must be non-empty and be followed by the end of the string or by a colon and at
  least one more character, none of them a line terminator.
\<close>

definition isNameChar :: "char \<Rightarrow> bool" where
  "isNameChar c = (c \<noteq> CHR ''/'' \<and> c \<noteq> CHR '':'')"

text \<open>
  The dot of a regular expression refuses the line terminators: LF, CR and the
  separators U+2028 and U+2029, which in the byte strings used here are the sequences
  \<^verbatim>\<open>E2 80 A8\<close> and \<^verbatim>\<open>E2 80 A9\<close>.
\<close>

fun hasLineTerminator :: "string \<Rightarrow> bool" where
  "hasLineTerminator [] = False"
| "hasLineTerminator (c # cs) =
     (c = CHR 0x0A \<or> c = CHR 0x0D
      \<or> (c = CHR 0xE2 \<and> (take 2 cs = [CHR 0x80, CHR 0xA8] \<or> take 2 cs = [CHR 0x80, CHR 0xA9]))
      \<or> hasLineTerminator cs)"

definition matchAfterSlash :: "string \<Rightarrow> string option" where
  "matchAfterSlash rest =
     (let n = takeWhile isNameChar rest; after = dropWhile isNameChar rest in
      if n \<noteq> [] \<and> (after = [] \<or> (hd after = CHR '':'' \<and> tl after \<noteq> []
                                     \<and> \<not> hasLineTerminator (tl after)))
      then Some n else None)"

fun imageNameMatch :: "string \<Rightarrow> string option" where
  "imageNameMatch [] = None"
| "imageNameMatch (c # cs) =
     (if c = CHR ''/'' \<and> matchAfterSlash cs \<noteq> None then matchAfterSlash cs
      else imageNameMatch cs)"

definition downloadFile_unsanitized ::
  "runtime \<Rightarrow> platform \<Rightarrow> string \<Rightarrow> string \<Rightarrow> string option \<Rightarrow> string io" where
  "downloadFile_unsanitized = downloadFile_with URL_toString"

definition downloadWASM_unsanitized :: "runtime \<Rightarrow> platform \<Rightarrow> ContainerSpec \<Rightarrow> nat list io" where
  "downloadWASM_unsanitized = downloadWASM_with URL_toString"

definition downloadJS_unsanitized ::
  "runtime \<Rightarrow> platform \<Rightarrow> string \<Rightarrow> string \<Rightarrow> string option \<Rightarrow> string io" where
  "downloadJS_unsanitized = downloadJS_with URL_toString"

text \<open>
  The discovery block: an inner \<^verbatim>\<open>try\<close> that fetches and reads the manifest, and
  its \<^verbatim>\<open>catch\<close> with the fallback. It yields the container as the rest of
  \<^verbatim>\<open>executePod\<close> sees it.
\<close>

definition discoverPath :: "runtime \<Rightarrow> platform \<Rightarrow> ContainerSpec \<Rightarrow> ContainerSpec io" where
  "discoverPath rt pf container =
     io_catch
       (let imageRef = imageRefOf container in
        io_bind (emit (Console (''[Runtime] Discovering WASM path from pkg/package.json for '' @ imageRef))) (\<lambda>_.
        io_bind (downloadFile_unsanitized rt pf imageRef ''pkg/package.json'' (variantOf container)) (\<lambda>pkgJsonStr.
          case JSON_main pf pkgJsonStr of
            Inl e \<Rightarrow> io_throw e
          | Inr mainJs \<Rightarrow>
              if truthyStr mainJs
              then (let wasmFilename = replaceSuffix ''.js'' ''_bg.wasm'' (the mainJs);
                        wasmPath = ''pkg/'' @ wasmFilename in
                    io_bind (emit (Console (''[Runtime] Discovered WASM path: '' @ wasmPath)))
                      (\<lambda>_. io_return (setPath wasmPath container)))
              else io_return container)))
       (\<lambda>err.
          io_bind (emit (Console (''[Runtime] Failed to discover WASM path: '' @ err))) (\<lambda>_.
            if \<not> truthyStr (pathOf container)
            then (case imageNameMatch (imageRefOf container) of
                    Some n \<Rightarrow>
                      (let snakeName = map (\<lambda>c. if c = CHR ''-'' then CHR ''_'' else c) n;
                           fallbackPath = ''pkg/'' @ snakeName @ ''_bg.wasm'' in
                       io_bind (emit (Console (''[Runtime] Using fallback WASM path derived from image name: '' @ fallbackPath)))
                         (\<lambda>_. io_return (setPath fallbackPath container)))
                  | None \<Rightarrow> io_return container)
            else io_return container))"

definition executePod_discovery_try ::
  "runtime \<Rightarrow> platform \<Rightarrow> sandbox \<Rightarrow> PodSpec \<Rightarrow> status_callback \<Rightarrow> log_callback \<Rightarrow> unit io" where
  "executePod_discovery_try rt pf sb podSpec onStatus onLog =
     (case containers podSpec of
        [] \<Rightarrow> io_throw ''Error: No containers specified''
      | container0 # _ \<Rightarrow>
          io_bind (discoverPath rt pf container0) (\<lambda>container.
          io_bind (downloadWASM_unsanitized rt pf container) (\<lambda>wasmBytes.
          let imageRef = imageRefOf container;
              wasmPath = (if truthyStr (pathOf container) then the (pathOf container) else []) in
          io_bind (downloadJS_unsanitized rt pf wasmPath imageRef (variantOf container)) (\<lambda>jsCode.
          io_bind (call_onStatus onStatus Running ''Executing WASM module'') (\<lambda>_.
          io_bind (executeWASM sb wasmBytes jsCode (orEmpty (command container))
                     (orEmpty (args container)) (orEmpty (env container)) onLog (freshSignal sb)) (\<lambda>_.
          call_onStatus onStatus Succeeded ''WASM execution completed''))))))"

definition executePod_discovery ::
  "runtime \<Rightarrow> platform \<Rightarrow> sandbox \<Rightarrow> PodSpec \<Rightarrow> status_callback \<Rightarrow> log_callback \<Rightarrow> unit io" where
  "executePod_discovery rt pf sb podSpec onStatus onLog =
     (let podKey = podKeyOf (metadata_namespace podSpec) (metadata_name podSpec) in
      io_bind (emit (Console (''[Runtime] Executing pod: '' @ podKey))) (\<lambda>_.
      io_bind (call_onStatus onStatus Pending ''Downloading WASM module'') (\<lambda>_.
      io_catch (executePod_discovery_try rt pf sb podSpec onStatus onLog)
        (executePod_catch onStatus))))"

subsection \<open>Notions used to state the properties of the execution engine\<close>

text \<open>
  The frame both revisions of \<^verbatim>\<open>executePod\<close> put around the body of their
  \<^verbatim>\<open>try\<close> block.
\<close>

definition pod_skeleton :: "string \<Rightarrow> status_callback \<Rightarrow> unit io \<Rightarrow> unit io" where
  "pod_skeleton podKey onStatus body =
     io_bind (emit (Console (''[Runtime] Executing pod: '' @ podKey))) (\<lambda>_.
     io_bind (call_onStatus onStatus Pending ''Downloading WASM module'') (\<lambda>_.
     io_catch body (executePod_catch onStatus)))"

text \<open>
  \<^verbatim>\<open>isWasi\<close> of the later \<^verbatim>\<open>executePod\<close>; a pod is run in bindgen mode when its
  first container has a path and is not in WASI mode.
\<close>

definition wasiMode :: "ContainerSpec \<Rightarrow> bool" where
  "wasiMode container =
     ((if truthyStr (typeOf container) then the (typeOf container) else ''wasi'') = ''wasi'')"

definition bindgenPod :: "PodSpec \<Rightarrow> bool" where
  "bindgenPod podSpec =
     (case containers podSpec of [] \<Rightarrow> False
      | c # _ \<Rightarrow> truthyStr (pathOf c) \<and> \<not> wasiMode c)"

text \<open>
  A glue download is attempted when \<^verbatim>\<open>downloadJS\<close> gets as far as its console line,
  which it does whenever the registry URL can be built.
\<close>

definition isGlueLine :: "effect \<Rightarrow> bool" where
  "isGlueLine ef =
     (case ef of Console s \<Rightarrow> startsWith s ''[Runtime] Downloading JS glue code from ''
      | _ \<Rightarrow> False)"

definition glueAttempted :: "effect list \<Rightarrow> bool" where
  "glueAttempted tr = list_ex isGlueLine tr"

definition wasiRunEffect :: "effect \<Rightarrow> bool" where
  "wasiRunEffect ef = (\<not> isGlueLine ef \<and>
     (case ef of Status s \<Rightarrow> phase s = Running \<longrightarrow> message s = ''Executing WASI module''
      | _ \<Rightarrow> True))"

definition notFetch :: "effect \<Rightarrow> bool" where
  "notFetch ef = (case ef of Fetch u \<Rightarrow> False | _ \<Rightarrow> True)"

text \<open>
  A computation as seen by someone who reads the console and the callbacks but not the
  network: its effects other than the requests, and its result.
\<close>

definition hideFetches :: "'a io \<Rightarrow> 'a io" where
  "hideFetches m = (filter notFetch (fst m), snd m)"

text \<open>
  The URL object each download builds from the parsed registry URL \<open>u0\<close>: the image, the
  path if one is set, the token if the runtime has one, the variant if one is given.
\<close>

definition requestUrl :: "runtime \<Rightarrow> URL \<Rightarrow> string \<Rightarrow> string option \<Rightarrow> string option \<Rightarrow> URL" where
  "requestUrl rt u0 imageRef pathParam variant =
     withVariant variant (withToken rt
       ((case pathParam of None \<Rightarrow> id | Some p \<Rightarrow> searchParams_set ''path'' p)
          (searchParams_set ''image'' imageRef u0)))"

text \<open>What \<^verbatim>\<open>sanitizeUrlForLogging\<close> does to the parameters.\<close>

definition sanitizedParams :: "(string \<times> string) list \<Rightarrow> (string \<times> string) list" where
  "sanitizedParams ps = (if params_has ''token'' ps then params_set ''token'' ''***'' ps else ps)"

text \<open>A parameter list with the value of one parameter blanked.\<close>

definition maskParam :: "string \<Rightarrow> string \<times> string \<Rightarrow> string \<times> string" where
  "maskParam k p = (if fst p = k then (k, []) else p)"

subsection \<open>Notions used to state the properties of the discovery block\<close>

text \<open>
  What the discovery block learns from the manifest: the \<^verbatim>\<open>main\<close> entry when the
  manifest is downloaded, parses and declares a non-empty string; and whether the inner
  \<^verbatim>\<open>try\<close> throws (the download fails, or reading the manifest throws).
\<close>

definition manifestMain :: "runtime \<Rightarrow> platform \<Rightarrow> ContainerSpec \<Rightarrow> string option" where
  "manifestMain rt pf container =
     (case snd (downloadFile_unsanitized rt pf (imageRefOf container) ''pkg/package.json''
                  (variantOf container)) of
        Inl e \<Rightarrow> None
      | Inr txt \<Rightarrow>
          (case JSON_main pf txt of
             Inl e \<Rightarrow> None
           | Inr mainJs \<Rightarrow> if truthyStr mainJs then mainJs else None))"

definition discoveryThrows :: "runtime \<Rightarrow> platform \<Rightarrow> ContainerSpec \<Rightarrow> bool" where
  "discoveryThrows rt pf container =
     (case snd (downloadFile_unsanitized rt pf (imageRefOf container) ''pkg/package.json''
                  (variantOf container)) of
        Inl e \<Rightarrow> True
      | Inr txt \<Rightarrow> (case JSON_main pf txt of Inl e \<Rightarrow> True | Inr mainJs \<Rightarrow> False))"

text \<open>The fallback path for an image name: dashes become underscores.\<close>

definition fallbackPath :: "string \<Rightarrow> string" where
  "fallbackPath n = ''pkg/'' @ map (\<lambda>c. if c = CHR ''-'' then CHR ''_'' else c) n @ ''_bg.wasm''"

text \<open>An effect that, if it is a request to the registry, is for one of two URLs.\<close>

definition fetchesOnly :: "string \<Rightarrow> string \<Rightarrow> effect \<Rightarrow> bool" where
  "fetchesOnly a b ef = (case ef of Fetch u \<Rightarrow> u = a \<or> u = b | _ \<Rightarrow> True)"

subsection \<open>Example inputs, after the repository's tests\<close>

definition returns :: "'a \<Rightarrow> error option" where
  "returns x = None"

definition failingStatus :: status_callback where
  "failingStatus st = Some ''Error: status sink failed''"

definition testRuntime :: runtime where
  "testRuntime = new_Runtime ''https://registry.example.com/proxy'' ''test-token''"

definition registryUrl :: URL where
  "registryUrl = \<lparr>url_base = ''https://registry.example.com/proxy'', searchParams = []\<rparr>"

definition moduleResponse :: response where
  "moduleResponse = \<lparr>ok = True, status = 200, statusText = ''OK'',
                      body_text = Inr ''export default function() {}'',
                      body_bytes = Inr [0, 97, 115, 109]\<rparr>"

text \<open>
  A registry that answers every request with the same module, and a manifest whose
  \<^verbatim>\<open>main\<close> is \<^verbatim>\<open>test.js\<close>.
\<close>

definition testPlatform :: platform where
  "testPlatform = \<lparr>URL_parse = (\<lambda>s. Some \<lparr>url_base = s, searchParams = []\<rparr>),
                    URL_resolve = (\<lambda>s b. None), window_origin = None,
                    fetch = (\<lambda>u. Inr moduleResponse),
                    JSON_main = (\<lambda>t. Inr (Some ''test.js''))\<rparr>"

text \<open>A sandbox whose WASI modules write one line and exit with the given code.\<close>

definition testSandbox :: "int \<Rightarrow> sandbox" where
  "testSandbox n =
     \<lparr>wasi_of = (\<lambda>b a e. \<lparr>instantiate_error = None, start_writes = [''hello''],
                            start_result = Inr n\<rparr>),
      bindgen_of = (\<lambda>j b e. \<lparr>import_error = None, init_console = [], init_error = None,
                               has_main = True, main_console = [], main_result = Inr None\<rparr>),
      deleted = False\<rparr>"

definition wasiContainer :: ContainerSpec where
  "wasiContainer = \<lparr>container_name = ''runner'', container_image = ''test-image:latest'',
                     command = None, args = None, env = None,
                     wasm = Some \<lparr>wasm_path = Some ''app.wasm'', wasm_variant = None,
                                  wasm_image = None, wasm_type = None\<rparr>\<rparr>"

definition bindgenContainer :: ContainerSpec where
  "bindgenContainer = \<lparr>container_name = ''runner'', container_image = ''test-image:latest'',
                        command = None, args = None, env = None,
                        wasm = Some \<lparr>wasm_path = Some ''pkg/app_bg.wasm'', wasm_variant = None,
                                     wasm_image = None, wasm_type = Some ''wasm-bindgen''\<rparr>\<rparr>"

definition hintedContainer :: ContainerSpec where
  "hintedContainer = \<lparr>container_name = ''test-container'', container_image = ''test-image:latest'',
                       command = Some [''/bin/sh''], args = Some [''-c'', ''echo hello''],
                       env = Some [(''ENV_VAR'', ''test-value'')],
                       wasm = Some \<lparr>wasm_path = Some ''/custom/module.wasm'',
                                    wasm_variant = Some ''browser'',
                                    wasm_image = None, wasm_type = None\<rparr>\<rparr>"

definition testPod :: "ContainerSpec list \<Rightarrow> PodSpec" where
  "testPod cs = \<lparr>metadata_name = ''test-pod'', metadata_namespace = ''default'', containers = cs\<rparr>"

text \<open>The same platform with a network on which every request fails.\<close>

definition offlinePlatform :: platform where
  "offlinePlatform = testPlatform\<lparr>fetch := (\<lambda>u. Inl ''TypeError: Failed to fetch'')\<rparr>"

text \<open>
  A registry that refuses every request and repeats the requested URL in the body of its
  answer.
\<close>

definition echoPlatform :: platform where
  "echoPlatform = testPlatform\<lparr>fetch := (\<lambda>u.
     Inr \<lparr>ok = False, status = 403, statusText = ''Forbidden'',
          body_text = Inr (''access denied for '' @ u),
          body_bytes = Inr []\<rparr>)\<rparr>"

section \<open>Theorems\<close>

subsection \<open>C8: memory tiers of the device-memory estimate\<close>

lemma no_heap_estimate:
  "\<not> truthy (jsHeapSizeLimit h) \<Longrightarrow> deviceMemory h = Some d \<Longrightarrow> 0 < d \<Longrightarrow>
   estimateMemoryGB h = Some (deviceTier d)"
  by (simp add: estimateMemoryGB_def heapMemoryGB_def truthy_def)

lemma deviceTier_ge_half: "1 / 2 \<le> deviceTier d"
  by (auto simp: deviceTier_def max_def min_def)

text \<open>
  C8, as stated, fails: for a device memory of 0.5 GB the code reports 0.5 GiB
  (the floor \<^verbatim>\<open>Math.max(0.5, deviceMemory * 0.8)\<close>), not 80% of 0.5 = 0.4.
\<close>

theorem C8_counterexample:
  "map_sum id memoryGB
     (detectResources \<lparr>hardwareConcurrency = Some 4, jsHeapSizeLimit = None,
                       deviceMemory = Some (1 / 2), gpuSupported = False\<rparr>)
   = Inr (1 / 2)
   \<and> (1 / 2 :: real) \<noteq> (8 / 10) * (1 / 2)"
  by (simp add: detectResources_def estimateMemoryGB_def heapMemoryGB_def truthy_def
      deviceTier_def)

text \<open>
  C8, amended: with the CPU count detected, no usable heap ceiling and a device memory
  \<open>D > 0\<close>, the reported memory is \<open>max 0.5 (0.8 D)\<close> for \<open>D \<le> 2\<close> (so 80% of \<open>D\<close> exactly
  when \<open>D \<ge> 0.625\<close>), 2 for \<open>2 < D \<le> 4\<close>, \<open>0.5 D\<close> clamped to \<open>[2, 4]\<close> for \<open>4 < D \<le> 8\<close>,
  and 4 for \<open>D > 8\<close>; with neither a usable heap ceiling nor a device memory the call throws.
\<close>

theorem C8_memory_tiers:
  "(hardwareConcurrency h = Some c \<and> 0 < c \<and> \<not> truthy (jsHeapSizeLimit h)
      \<and> deviceMemory h = Some D \<and> 0 < D \<longrightarrow>
      (\<exists>r. detectResources h = Inr r \<and> cpuMilli r = c * 1000 \<and>
         (D \<le> 2 \<longrightarrow> memoryGB r = max (1 / 2) ((8 / 10) * D)) \<and>
         (5 / 8 \<le> D \<and> D \<le> 2 \<longrightarrow> memoryGB r = (8 / 10) * D) \<and>
         (2 < D \<and> D \<le> 4 \<longrightarrow> memoryGB r = 2) \<and>
         (4 < D \<and> D \<le> 8 \<longrightarrow> memoryGB r = min 4 (max 2 ((1 / 2) * D))) \<and>
         (8 < D \<longrightarrow> memoryGB r = 4)))
   \<and> (\<not> truthy (jsHeapSizeLimit h) \<and> \<not> truthy (deviceMemory h) \<longrightarrow>
        (\<exists>e. detectResources h = Inl e))"
proof (intro conjI impI)
  assume a: "hardwareConcurrency h = Some c \<and> 0 < c \<and> \<not> truthy (jsHeapSizeLimit h)
      \<and> deviceMemory h = Some D \<and> 0 < D"
  then have est: "estimateMemoryGB h = Some (deviceTier D)"
    by (simp add: no_heap_estimate)
  have pos: "deviceTier D \<noteq> 0" "\<not> deviceTier D < 1 / 10"
    using deviceTier_ge_half [of D] by auto
  let ?r = "\<lparr>cpuMilli = c * 1000, memoryGB = deviceTier D, gpu = gpuSupported h\<rparr>"
  have run: "detectResources h = Inr ?r"
    using a est pos by (simp add: detectResources_def truthy_def)
  have tiers: "(D \<le> 2 \<longrightarrow> deviceTier D = max (1 / 2) ((8 / 10) * D))
      \<and> (5 / 8 \<le> D \<and> D \<le> 2 \<longrightarrow> deviceTier D = (8 / 10) * D)
      \<and> (2 < D \<and> D \<le> 4 \<longrightarrow> deviceTier D = 2)
      \<and> (4 < D \<and> D \<le> 8 \<longrightarrow> deviceTier D = min 4 (max 2 ((1 / 2) * D)))
      \<and> (8 < D \<longrightarrow> deviceTier D = 4)"
    by (auto simp: deviceTier_def max_def min_def mult.commute)
  show "\<exists>r. detectResources h = Inr r \<and> cpuMilli r = c * 1000 \<and>
         (D \<le> 2 \<longrightarrow> memoryGB r = max (1 / 2) ((8 / 10) * D)) \<and>
         (5 / 8 \<le> D \<and> D \<le> 2 \<longrightarrow> memoryGB r = (8 / 10) * D) \<and>
         (2 < D \<and> D \<le> 4 \<longrightarrow> memoryGB r = 2) \<and>
         (4 < D \<and> D \<le> 8 \<longrightarrow> memoryGB r = min 4 (max 2 ((1 / 2) * D))) \<and>
         (8 < D \<longrightarrow> memoryGB r = 4)"
    using run tiers by (intro exI [of _ ?r]) simp
next
  assume b: "\<not> truthy (jsHeapSizeLimit h) \<and> \<not> truthy (deviceMemory h)"
  then have "estimateMemoryGB h = None"
    by (auto simp: estimateMemoryGB_def heapMemoryGB_def truthy_def)
  then show "\<exists>e. detectResources h = Inl e"
    by (auto simp: detectResources_def truthy_def split: option.splits)
qed

theorem C8_memory_tiers_witness:
  "(\<exists>r. detectResources \<lparr>hardwareConcurrency = Some 4, jsHeapSizeLimit = None,
                          deviceMemory = Some 6, gpuSupported = True\<rparr> = Inr r
        \<and> cpuMilli r = 4000 \<and> memoryGB r = 3)
   \<and> (\<exists>e. detectResources \<lparr>hardwareConcurrency = Some 4, jsHeapSizeLimit = None,
                             deviceMemory = None, gpuSupported = True\<rparr> = Inl e)"
  using C8_memory_tiers [of "\<lparr>hardwareConcurrency = Some 4, jsHeapSizeLimit = None,
                          deviceMemory = Some 6, gpuSupported = True\<rparr>" 4 6]
    C8_memory_tiers [of "\<lparr>hardwareConcurrency = Some 4, jsHeapSizeLimit = None,
                          deviceMemory = None, gpuSupported = True\<rparr>" 4 6]
  by (auto simp: truthy_def)

subsection \<open>C10: the durable browser identifier\<close>










lemma new_Connection_init:
  "new_Connection url tok hb w = Inr (c, w') \<Longrightarrow> \<exists>u b. c = initConnection u b url tok hb"
  by (auto simp: new_Connection_def split: prod.splits sum.splits)



subsection \<open>C5, C6, C7: the connection state machine\<close>

lemmas conn_defs = connect_def disconnect_def socketOpened_def socketError_def openTimeout_def
  gpuDetected_def socketClosed_def timerFired_def connect_catch_def handleDisconnect_def
  setState_def closeSocket_def

lemma step_maxReconnectDelay: "maxReconnectDelay (step c e) = maxReconnectDelay c"
  by (cases e) (auto simp: conn_defs Let_def split: list.splits sum.splits option.splits)

lemma step_reconnectDelay:
  "reconnectDelay (step c e) =
     (if e = TimerFired \<and> timers c \<noteq> [] \<and> shouldReconnect c
      then min (reconnectDelay c * 2) (maxReconnectDelay c) else reconnectDelay c)"
  by (cases e) (auto simp: conn_defs Let_def split: list.splits sum.splits option.splits)

lemma step_scheduled:
  "scheduled (step c e) = scheduled c \<or> scheduled (step c e) = scheduled c @ [reconnectDelay c]"
  by (cases e) (auto simp: conn_defs Let_def split: list.splits sum.splits option.splits)

lemma delay_inv_step: "delay_inv c \<Longrightarrow> delay_inv (step c e)"
proof -
  assume i: "delay_inv c"
  have d: "reconnectDelay c \<le> reconnectDelay (step c e)"
    "reconnectDelay (step c e) \<le> maxReconnectDelay c" "200 \<le> reconnectDelay (step c e)"
    using i by (auto simp: step_reconnectDelay delay_inv_def)
  show ?thesis
    using step_scheduled [of c e] i d
    by (fastforce simp: delay_inv_def step_maxReconnectDelay sorted_append list_all_iff)
qed

lemma delay_inv_run: "delay_inv c \<Longrightarrow> delay_inv (run c es)"
  unfolding run_def by (induction es arbitrary: c) (auto simp: delay_inv_step)

lemma run_maxReconnectDelay: "maxReconnectDelay (run c es) = maxReconnectDelay c"
  unfolding run_def by (induction es arbitrary: c) (auto simp: step_maxReconnectDelay)

text \<open>
  C5: in every run of a freshly constructed connection, the delays handed to
  \<^verbatim>\<open>setTimeout\<close> by \<^verbatim>\<open>handleDisconnect\<close> are in ascending order and none exceeds the
  cap of 3000 ms; the current delay never exceeds the cap and no event lowers it; only a
  firing reconnect timer (with reconnection still wanted) changes it, to the minimum of
  its double and the cap; in particular a completed reconnection leaves it as it is.
\<close>

theorem C5_backoff:
  "sorted (scheduled (run (initConnection u b url tok hb) es))
     \<and> list_all (\<lambda>d. d \<le> 3000) (scheduled (run (initConnection u b url tok hb) es))
     \<and> reconnectDelay (run (initConnection u b url tok hb) es) \<le> 3000
     \<and> reconnectDelay (run (initConnection u b url tok hb) es)
         \<le> reconnectDelay (step (run (initConnection u b url tok hb) es) e)
     \<and> reconnectDelay (step (run (initConnection u b url tok hb) es) e) =
         (if e = TimerFired \<and> timers (run (initConnection u b url tok hb) es) \<noteq> []
             \<and> shouldReconnect (run (initConnection u b url tok hb) es)
          then min (reconnectDelay (run (initConnection u b url tok hb) es) * 2) 3000
          else reconnectDelay (run (initConnection u b url tok hb) es))
     \<and> reconnectDelay (step (run (initConnection u b url tok hb) es) GpuDetected)
         = reconnectDelay (run (initConnection u b url tok hb) es)"
proof -
  let ?c = "run (initConnection u b url tok hb) es"
  have "delay_inv (initConnection u b url tok hb)"
    by (simp add: delay_inv_def initConnection_def)
  then have i: "delay_inv ?c" by (rule delay_inv_run)
  have m: "maxReconnectDelay ?c = 3000"
    by (simp add: run_maxReconnectDelay initConnection_def)
  have "list_all (\<lambda>d. d \<le> 3000) (scheduled ?c)"
    using i m by (auto simp: delay_inv_def list_all_iff)
  then show ?thesis
    using i m step_reconnectDelay [of ?c e] step_reconnectDelay [of ?c GpuDetected]
    by (auto simp del: step.simps simp add: delay_inv_def)
qed

lemma stopped_step:
  "stopped c \<Longrightarrow> e \<noteq> CallConnect \<Longrightarrow>
   stopped (step c e) \<and> stateLog (step c e) = stateLog c \<and> scheduled (step c e) = scheduled c
   \<and> length (sockets (step c e)) = length (sockets c)"
  by (cases e) (auto simp: stopped_def conn_defs socketIsOpen_def Let_def
      split: list.splits sum.splits option.splits)

lemma stopped_run:
  "stopped c \<Longrightarrow> CallConnect \<notin> set es \<Longrightarrow>
   stopped (run c es) \<and> stateLog (run c es) = stateLog c \<and> scheduled (run c es) = scheduled c
   \<and> length (sockets (run c es)) = length (sockets c)"
  unfolding run_def
proof (induction es arbitrary: c)
  case Nil
  then show ?case by simp
next
  case (Cons e es)
  from Cons.prems have s: "stopped (step c e) \<and> stateLog (step c e) = stateLog c
     \<and> scheduled (step c e) = scheduled c \<and> length (sockets (step c e)) = length (sockets c)"
    using stopped_step [of c e] by auto
  from Cons.IH [of "step c e"] s Cons.prems show ?case by auto
qed

lemma duplicate_close:
  "i < length (sockets c) \<Longrightarrow> ws_state (sockets c ! i) \<noteq> CLOSED \<Longrightarrow> hasOnclose (sockets c ! i) \<Longrightarrow>
   stopped (socketClosed i CLOSE_CODE_DUPLICATE_BROWSER c)
   \<and> stateLog (socketClosed i CLOSE_CODE_DUPLICATE_BROWSER c)
       = stateLog c @ (if currentState c = Disconnected then [] else [Disconnected])
   \<and> scheduled (socketClosed i CLOSE_CODE_DUPLICATE_BROWSER c) = scheduled c
   \<and> length (sockets (socketClosed i CLOSE_CODE_DUPLICATE_BROWSER c)) = length (sockets c)"
  by (auto simp: stopped_def socketClosed_def setState_def Let_def)

text \<open>
  C6, amended: a close event with code 4001, on a socket that carries the
  \<^verbatim>\<open>onclose\<close> handler, turns reconnection off and sets the state to
  \<^verbatim>\<open>disconnected\<close>; whatever the browser delivers afterwards (timers, events of any
  socket, late answers to a suspended \<^verbatim>\<open>connect\<close>) and whatever \<^verbatim>\<open>disconnect\<close> calls
  follow, as long as \<^verbatim>\<open>connect\<close> is not called again, no further state is reported (so
  never \<^verbatim>\<open>reconnecting\<close>), the state stays \<^verbatim>\<open>disconnected\<close>, no timer is
  scheduled and no socket is created.
\<close>

theorem C6_duplicate_close:
  assumes "i < length (sockets c)" and "ws_state (sockets c ! i) \<noteq> CLOSED"
    and "hasOnclose (sockets c ! i)" and "CallConnect \<notin> set es"
  shows "\<not> shouldReconnect (run (step c (SocketClosed i CLOSE_CODE_DUPLICATE_BROWSER)) es)
     \<and> currentState (run (step c (SocketClosed i CLOSE_CODE_DUPLICATE_BROWSER)) es) = Disconnected
     \<and> stateLog (run (step c (SocketClosed i CLOSE_CODE_DUPLICATE_BROWSER)) es)
         = stateLog c @ (if currentState c = Disconnected then [] else [Disconnected])
     \<and> scheduled (run (step c (SocketClosed i CLOSE_CODE_DUPLICATE_BROWSER)) es) = scheduled c
     \<and> length (sockets (run (step c (SocketClosed i CLOSE_CODE_DUPLICATE_BROWSER)) es))
         = length (sockets c)"
  using duplicate_close [OF assms(1,2,3)]
    stopped_run [of "socketClosed i CLOSE_CODE_DUPLICATE_BROWSER c" es] assms(4)
  by (simp add: stopped_def)

lemma connected_inv_step: "connected_inv c \<Longrightarrow> connected_inv (step c e)"
  by (cases e)
     (auto simp: connected_inv_def conn_defs socketIsOpen_def Let_def nth_list_update nth_append
        split: list.splits sum.splits option.splits if_splits)

lemma connected_inv_run: "connected_inv c \<Longrightarrow> connected_inv (run c es)"
  unfolding run_def by (induction es arbitrary: c) (auto simp: connected_inv_step)

lemma hasConnectedOnce_step:
  "hasConnectedOnce c \<Longrightarrow> e \<noteq> CallDisconnect \<Longrightarrow> hasConnectedOnce (step c e)"
  by (cases e) (auto simp: conn_defs Let_def split: list.splits sum.splits option.splits)

lemma transport_failure:
  assumes "waitingFor i c"
  shows "results (step c (SocketError i))
        = results c @ [if shouldReconnect c \<and> hasConnectedOnce c then Resolved
                       else Rejected (''Error: WebSocket connection failed to '' @ serverUrl c)]"
    and "scheduled (step c (SocketError i))
        = scheduled c @ (if shouldReconnect c \<and> hasConnectedOnce c then [reconnectDelay c] else [])"
    and "results (step c (OpenTimeout i))
        = results c @ [if shouldReconnect c \<and> hasConnectedOnce c then Resolved
                       else Rejected (''Error: Connection timeout after 10 seconds to '' @ serverUrl c)]"
    and "scheduled (step c (OpenTimeout i))
        = scheduled c @ (if shouldReconnect c \<and> hasConnectedOnce c then [reconnectDelay c] else [])"
  using assms
  by (auto simp: waitingFor_def conn_defs Let_def split: option.splits)

lemma after_disconnect:
  assumes "\<not> isConnecting c"
  shows "results (run c [CallDisconnect, CallConnect, SocketError (length (sockets c))])
        = results c @ [Rejected (''Error: WebSocket connection failed to '' @ serverUrl c)]"
    and "scheduled (run c [CallDisconnect, CallConnect, SocketError (length (sockets c))])
        = scheduled c"
    and "results (run c [CallDisconnect, CallConnect, OpenTimeout (length (sockets c))])
        = results c @ [Rejected (''Error: Connection timeout after 10 seconds to '' @ serverUrl c)]"
    and "scheduled (run c [CallDisconnect, CallConnect, OpenTimeout (length (sockets c))])
        = scheduled c"
proof -
  let ?d = "disconnect c"
  let ?e = "connect ?d"
  have d: "\<not> isConnecting ?d" "socket ?d = None" "results ?d = results c"
    "scheduled ?d = scheduled c" "length (sockets ?d) = length (sockets c)"
    "serverUrl ?d = serverUrl c"
    using assms
    by (auto simp: disconnect_def closeSocket_def setState_def split: option.splits)
  have o: "\<not> socketIsOpen ?d"
    using d(2) by (simp add: socketIsOpen_def)
  have e: "waitingFor (length (sockets c)) ?e" "\<not> hasConnectedOnce ?e" "results ?e = results c"
    "scheduled ?e = scheduled c" "serverUrl ?e = serverUrl c"
  proof -
    have h: "\<not> hasConnectedOnce ?d"
      by (auto simp: disconnect_def closeSocket_def setState_def split: option.splits)
    show "waitingFor (length (sockets c)) ?e"
      using d(1,5) o by (simp add: connect_def setState_def waitingFor_def nth_append)
    show "\<not> hasConnectedOnce ?e"
      using d(1) o h by (simp add: connect_def setState_def)
    show "results ?e = results c" "scheduled ?e = scheduled c" "serverUrl ?e = serverUrl c"
      using d o by (simp_all add: connect_def setState_def)
  qed
  have r: "run c [CallDisconnect, CallConnect, ev] = step ?e ev" for ev
    by (simp add: run_def)
  show "results (run c [CallDisconnect, CallConnect, SocketError (length (sockets c))])
        = results c @ [Rejected (''Error: WebSocket connection failed to '' @ serverUrl c)]"
    and "scheduled (run c [CallDisconnect, CallConnect, SocketError (length (sockets c))])
        = scheduled c"
    and "results (run c [CallDisconnect, CallConnect, OpenTimeout (length (sockets c))])
        = results c @ [Rejected (''Error: Connection timeout after 10 seconds to '' @ serverUrl c)]"
    and "scheduled (run c [CallDisconnect, CallConnect, OpenTimeout (length (sockets c))])
        = scheduled c"
    unfolding r using transport_failure [OF e(1)] e(2-5) by simp_all
qed

text \<open>
  C7, amended: a call of \<^verbatim>\<open>connect\<close> that fails on a transport error or on the open
  timeout rejects and schedules nothing unless \<^verbatim>\<open>shouldReconnect\<close> and
  \<^verbatim>\<open>hasConnectedOnce\<close> are both set, in which case it schedules a retry with the
  current delay and resolves. On a fresh connection both transport failures reject, and
  so they do in a call of \<^verbatim>\<open>connect\<close> that follows \<^verbatim>\<open>disconnect\<close>, which clears
  the flag. In every run of a fresh connection the flag is set while the instance is
  connected, and once set it stays set until \<^verbatim>\<open>disconnect\<close> is called.
\<close>

theorem C7_connect_failure:
  "(waitingFor i c \<longrightarrow>
      results (step c (SocketError i))
        = results c @ [if shouldReconnect c \<and> hasConnectedOnce c then Resolved
                       else Rejected (''Error: WebSocket connection failed to '' @ serverUrl c)]
      \<and> scheduled (step c (SocketError i))
        = scheduled c @ (if shouldReconnect c \<and> hasConnectedOnce c then [reconnectDelay c] else [])
      \<and> results (step c (OpenTimeout i))
        = results c @ [if shouldReconnect c \<and> hasConnectedOnce c then Resolved
                       else Rejected (''Error: Connection timeout after 10 seconds to '' @ serverUrl c)]
      \<and> scheduled (step c (OpenTimeout i))
        = scheduled c @ (if shouldReconnect c \<and> hasConnectedOnce c then [reconnectDelay c] else []))
   \<and> results (run (initConnection u b url tok hb) [CallConnect, SocketError 0])
        = [Rejected (''Error: WebSocket connection failed to '' @ convertToWebSocketUrl url)]
   \<and> scheduled (run (initConnection u b url tok hb) [CallConnect, SocketError 0]) = []
   \<and> results (run (initConnection u b url tok hb) [CallConnect, OpenTimeout 0])
        = [Rejected (''Error: Connection timeout after 10 seconds to '' @ convertToWebSocketUrl url)]
   \<and> scheduled (run (initConnection u b url tok hb) [CallConnect, OpenTimeout 0]) = []
   \<and> (\<not> isConnecting c \<longrightarrow>
        results (run c [CallDisconnect, CallConnect, SocketError (length (sockets c))])
          = results c @ [Rejected (''Error: WebSocket connection failed to '' @ serverUrl c)]
        \<and> scheduled (run c [CallDisconnect, CallConnect, SocketError (length (sockets c))])
          = scheduled c
        \<and> results (run c [CallDisconnect, CallConnect, OpenTimeout (length (sockets c))])
          = results c @ [Rejected (''Error: Connection timeout after 10 seconds to '' @ serverUrl c)]
        \<and> scheduled (run c [CallDisconnect, CallConnect, OpenTimeout (length (sockets c))])
          = scheduled c)
   \<and> (currentState (run (initConnection u b url tok hb) es) = Connected \<longrightarrow>
        hasConnectedOnce (run (initConnection u b url tok hb) es))
   \<and> (hasConnectedOnce c \<and> e \<noteq> CallDisconnect \<longrightarrow> hasConnectedOnce (step c e))"
proof -
  have fresh: "results (run (initConnection u b url tok hb) [CallConnect, SocketError 0])
        = [Rejected (''Error: WebSocket connection failed to '' @ convertToWebSocketUrl url)]
   \<and> scheduled (run (initConnection u b url tok hb) [CallConnect, SocketError 0]) = []
   \<and> results (run (initConnection u b url tok hb) [CallConnect, OpenTimeout 0])
        = [Rejected (''Error: Connection timeout after 10 seconds to '' @ convertToWebSocketUrl url)]
   \<and> scheduled (run (initConnection u b url tok hb) [CallConnect, OpenTimeout 0]) = []"
    by (simp add: run_def initConnection_def conn_defs socketIsOpen_def Let_def)
  have "connected_inv (initConnection u b url tok hb)"
    by (simp add: connected_inv_def initConnection_def socketIsOpen_def)
  then have "connected_inv (run (initConnection u b url tok hb) es)"
    by (rule connected_inv_run)
  then have connected: "currentState (run (initConnection u b url tok hb) es) = Connected \<longrightarrow>
        hasConnectedOnce (run (initConnection u b url tok hb) es)"
    by (simp add: connected_inv_def)
  show ?thesis
    using transport_failure [of i c] after_disconnect [of c] fresh connected
      hasConnectedOnce_step [of c e]
    by (simp del: step.simps)
qed

lemmas eval_defs = run_def initConnection_def testConnection_def testHost_def noMemoryHost_def
  conn_defs socketIsOpen_def detectResources_def estimateMemoryGB_def heapMemoryGB_def truthy_def
  deviceTier_def CLOSE_CODE_DUPLICATE_BROWSER_def cpuError_def memoryError_def
  convertToWebSocketUrl_def startsWith_def replacePrefix_def Let_def

theorem C5_backoff_witness:
  "scheduled (run testConnection
      [CallConnect, SocketOpened 0 testHost, GpuDetected, SocketClosed 0 1006, TimerFired,
       SocketOpened 1 testHost, GpuDetected, SocketClosed 1 1006]) = [200, 400]
   \<and> sorted (scheduled (run testConnection
      [CallConnect, SocketOpened 0 testHost, GpuDetected, SocketClosed 0 1006, TimerFired,
       SocketOpened 1 testHost, GpuDetected, SocketClosed 1 1006]))
   \<and> reconnectDelay (step (run testConnection
      [CallConnect, SocketOpened 0 testHost, GpuDetected, SocketClosed 0 1006, TimerFired,
       SocketOpened 1 testHost, GpuDetected, SocketClosed 1 1006]) TimerFired) = 800"
  using C5_backoff [of "''3a18f6d4-b290-47e5-83a1-8f6d4b2907e5''"
      "''5c3a18f6-d4b2-4907-a5c3-a18f6d4b2907''" "''http://localhost:8080/''" "''test-token''" 15000
      "[CallConnect, SocketOpened 0 testHost, GpuDetected, SocketClosed 0 1006, TimerFired,
        SocketOpened 1 testHost, GpuDetected, SocketClosed 1 1006]" TimerFired]
  by (simp add: eval_defs)

text \<open>
  C6, as stated, fails: after the close with code 4001 an explicit call of
  \<^verbatim>\<open>connect\<close> sets \<^verbatim>\<open>shouldReconnect\<close> again, and the next unexpected close
  reports \<^verbatim>\<open>reconnecting\<close> and schedules a retry.
\<close>

theorem C6_counterexample:
  "stateLog (run testConnection
      [CallConnect, SocketOpened 0 testHost, GpuDetected, SocketClosed 0 4001,
       CallConnect, SocketOpened 1 testHost, GpuDetected, SocketClosed 1 1006])
     = [Connecting, Connected, Disconnected, Connecting, Connected, Reconnecting]
   \<and> scheduled (run testConnection
      [CallConnect, SocketOpened 0 testHost, GpuDetected, SocketClosed 0 4001,
       CallConnect, SocketOpened 1 testHost, GpuDetected, SocketClosed 1 1006]) = [200]
   \<and> shouldReconnect (run testConnection
      [CallConnect, SocketOpened 0 testHost, GpuDetected, SocketClosed 0 4001,
       CallConnect, SocketOpened 1 testHost, GpuDetected, SocketClosed 1 1006])"
  by (simp add: eval_defs)

theorem C6_duplicate_close_witness:
  "0 < length (sockets (run testConnection [CallConnect, SocketOpened 0 testHost, GpuDetected]))
   \<and> ws_state (sockets (run testConnection [CallConnect, SocketOpened 0 testHost, GpuDetected]) ! 0)
       \<noteq> CLOSED
   \<and> hasOnclose (sockets (run testConnection [CallConnect, SocketOpened 0 testHost, GpuDetected]) ! 0)
   \<and> CallConnect \<notin> set [TimerFired, SocketClosed 0 1006, GpuDetected, CallDisconnect]
   \<and> stateLog (run (step (run testConnection [CallConnect, SocketOpened 0 testHost, GpuDetected])
                      (SocketClosed 0 CLOSE_CODE_DUPLICATE_BROWSER))
                [TimerFired, SocketClosed 0 1006, GpuDetected, CallDisconnect])
       = [Connecting, Connected, Disconnected]
   \<and> scheduled (run (step (run testConnection [CallConnect, SocketOpened 0 testHost, GpuDetected])
                      (SocketClosed 0 CLOSE_CODE_DUPLICATE_BROWSER))
                [TimerFired, SocketClosed 0 1006, GpuDetected, CallDisconnect]) = []"
proof -
  let ?c = "run testConnection [CallConnect, SocketOpened 0 testHost, GpuDetected]"
  have h: "0 < length (sockets ?c)" "ws_state (sockets ?c ! 0) \<noteq> CLOSED" "hasOnclose (sockets ?c ! 0)"
    by (simp_all add: eval_defs)
  have n: "CallConnect \<notin> set [TimerFired, SocketClosed 0 1006, GpuDetected, CallDisconnect]"
    by simp
  have s: "stateLog ?c = [Connecting, Connected] \<and> currentState ?c = Connected \<and> scheduled ?c = []"
    by (simp add: eval_defs)
  show ?thesis
    using C6_duplicate_close [OF h n] h n s by simp
qed

text \<open>
  C7, as stated, fails: after a successful connection followed by \<^verbatim>\<open>disconnect\<close>, a
  transport error makes the next \<^verbatim>\<open>connect\<close> reject with no retry, because
  \<^verbatim>\<open>disconnect\<close> has cleared \<^verbatim>\<open>hasConnectedOnce\<close>.
\<close>

theorem C7_counterexample:
  "results (run testConnection
        [CallConnect, SocketOpened 0 testHost, GpuDetected, CallDisconnect, SocketClosed 0 1000,
         CallConnect, SocketError 1])
       = [Resolved, Rejected ''Error: WebSocket connection failed to ws://localhost:8080'']
   \<and> stateLog (run testConnection
        [CallConnect, SocketOpened 0 testHost, GpuDetected, CallDisconnect, SocketClosed 0 1000,
         CallConnect, SocketError 1])
       = [Connecting, Connected, Disconnected, Connecting]
   \<and> scheduled (run testConnection
        [CallConnect, SocketOpened 0 testHost, GpuDetected, CallDisconnect, SocketClosed 0 1000,
         CallConnect, SocketError 1])
       = []"
  by (simp add: eval_defs)

theorem C7_connect_failure_witness:
  "waitingFor 1 (run testConnection
         [CallConnect, SocketOpened 0 testHost, GpuDetected, SocketClosed 0 1006, TimerFired])
   \<and> results (step (run testConnection
         [CallConnect, SocketOpened 0 testHost, GpuDetected, SocketClosed 0 1006, TimerFired])
         (SocketError 1))
       = [Resolved, Resolved]
   \<and> scheduled (step (run testConnection
         [CallConnect, SocketOpened 0 testHost, GpuDetected, SocketClosed 0 1006, TimerFired])
         (OpenTimeout 1))
       = [200, 400]
   \<and> \<not> isConnecting (run testConnection [CallConnect, SocketOpened 0 testHost, GpuDetected])
   \<and> results (run (run testConnection [CallConnect, SocketOpened 0 testHost, GpuDetected])
        [CallDisconnect, CallConnect, SocketError 1])
       = [Resolved, Rejected ''Error: WebSocket connection failed to ws://localhost:8080'']
   \<and> currentState (run testConnection [CallConnect, SocketOpened 0 testHost, GpuDetected]) = Connected
   \<and> hasConnectedOnce (run testConnection [CallConnect, SocketOpened 0 testHost, GpuDetected])
   \<and> SocketClosed 0 1006 \<noteq> CallDisconnect
   \<and> hasConnectedOnce (step (run testConnection [CallConnect, SocketOpened 0 testHost, GpuDetected])
        (SocketClosed 0 1006))"
proof -
  let ?c = "run testConnection
         [CallConnect, SocketOpened 0 testHost, GpuDetected, SocketClosed 0 1006, TimerFired]"
  let ?d = "run testConnection [CallConnect, SocketOpened 0 testHost, GpuDetected]"
  have c: "waitingFor 1 ?c \<and> shouldReconnect ?c \<and> hasConnectedOnce ?c
      \<and> results ?c = [Resolved] \<and> scheduled ?c = [200] \<and> reconnectDelay ?c = 400"
    by (simp add: eval_defs waitingFor_def)
  have d: "\<not> isConnecting ?d \<and> length (sockets ?d) = 1 \<and> results ?d = [Resolved]
      \<and> scheduled ?d = [] \<and> currentState ?d = Connected
      \<and> serverUrl ?d = ''ws://localhost:8080''"
    by (simp add: eval_defs)
  have t: "?d = run (initConnection ''3a18f6d4-b290-47e5-83a1-8f6d4b2907e5''
                      ''5c3a18f6-d4b2-4907-a5c3-a18f6d4b2907'' ''http://localhost:8080/''
                      ''test-token'' 15000) [CallConnect, SocketOpened 0 testHost, GpuDetected]"
    by (simp add: testConnection_def)
  have f: "hasConnectedOnce ?d"
    using C7_connect_failure [where u = "''3a18f6d4-b290-47e5-83a1-8f6d4b2907e5''"
        and b = "''5c3a18f6-d4b2-4907-a5c3-a18f6d4b2907''" and url = "''http://localhost:8080/''"
        and tok = "''test-token''" and hb = 15000
        and es = "[CallConnect, SocketOpened 0 testHost, GpuDetected]"] d t
    by simp
  show ?thesis
    using C7_connect_failure [of 1 ?c] C7_connect_failure [where c = ?d and e = "SocketClosed 0 1006"]
      c d f
    by (simp del: step.simps)
qed

subsection \<open>C1, C3, C4: executing a pod\<close>

lemma statuses_append [simp]: "statuses (a @ b) = statuses a @ statuses b"
  by (simp add: statuses_def)

lemma statuses_simps [simp]:
  "statuses [] = []"
  "statuses (Status s # tr) = s # statuses tr"
  "statuses (Log l # tr) = statuses tr"
  "statuses (Console l # tr) = statuses tr"
  "statuses (Fetch l # tr) = statuses tr"
  by (simp_all add: statuses_def)

lemma io_bind_Inl: "snd m = Inl e \<Longrightarrow> io_bind m f = (fst m, Inl e)"
  by (simp add: io_bind_def)

lemma io_bind_Inr: "snd m = Inr a \<Longrightarrow> io_bind m f = (fst m @ fst (f a), snd (f a))"
  by (simp add: io_bind_def)

lemma io_catch_Inl: "snd m = Inl e \<Longrightarrow> io_catch m h = (fst m @ fst (h e), snd (h e))"
  by (simp add: io_catch_def)

lemma io_catch_Inr: "snd m = Inr a \<Longrightarrow> io_catch m h = m"
  by (simp add: io_catch_def)

lemma emit_simps [simp]: "fst (emit ef) = [ef]" "snd (emit ef) = Inr ()"
  by (simp_all add: emit_def)

lemma call_onStatus_fst [simp]:
  "fst (call_onStatus onStatus p m) = [Status \<lparr>phase = p, message = m\<rparr>]"
  by (simp add: call_onStatus_def)

lemma call_onStatus_quiet:
  "\<forall>st. onStatus st = None \<Longrightarrow> snd (call_onStatus onStatus p m) = Inr ()"
  by (simp add: call_onStatus_def)

lemma executePod_skeleton:
  "executePod rt pf sb podSpec onStatus onLog =
   pod_skeleton (podKeyOf (metadata_namespace podSpec) (metadata_name podSpec)) onStatus
     (executePod_try rt pf sb podSpec onStatus onLog)"
  by (simp add: executePod_def pod_skeleton_def)

lemma executePod_discovery_skeleton:
  "executePod_discovery rt pf sb podSpec onStatus onLog =
   pod_skeleton (podKeyOf (metadata_namespace podSpec) (metadata_name podSpec)) onStatus
     (executePod_discovery_try rt pf sb podSpec onStatus onLog)"
  by (simp add: executePod_discovery_def pod_skeleton_def)

lemma pod_skeleton_throw:
  assumes q: "\<forall>st. onStatus st = None" and b: "snd body = Inl e"
  shows "snd (pod_skeleton k onStatus body) = Inr ()
    \<and> statuses (fst (pod_skeleton k onStatus body))
        = \<lparr>phase = Pending, message = ''Downloading WASM module''\<rparr> # statuses (fst body)
          @ [\<lparr>phase = Failed, message = ''Execution error: '' @ e\<rparr>]"
  using call_onStatus_quiet [OF q] b
  by (simp add: pod_skeleton_def io_bind_Inr io_catch_Inl executePod_catch_def)

lemma pod_skeleton_return:
  assumes q: "\<forall>st. onStatus st = None" and b: "snd body = Inr ()"
  shows "snd (pod_skeleton k onStatus body) = Inr ()
    \<and> statuses (fst (pod_skeleton k onStatus body))
        = \<lparr>phase = Pending, message = ''Downloading WASM module''\<rparr> # statuses (fst body)"
  using call_onStatus_quiet [OF q] b
  by (simp add: pod_skeleton_def io_bind_Inr io_catch_Inr)

lemma io_bind_returns:
  "snd (io_bind m f) = Inr b \<Longrightarrow>
   \<exists>a. snd m = Inr a \<and> snd (f a) = Inr b \<and> fst (io_bind m f) = fst m @ fst (f a)"
  by (auto simp: io_bind_def split: sum.splits)

lemma all_bind:
  "list_all R (fst m) \<Longrightarrow> (\<And>a. list_all R (fst (f a))) \<Longrightarrow> list_all R (fst (io_bind m f))"
  by (simp add: io_bind_def split: sum.splits)

lemma all_catch:
  "list_all R (fst m) \<Longrightarrow> (\<And>e. list_all R (fst (h e))) \<Longrightarrow> list_all R (fst (io_catch m h))"
  by (simp add: io_catch_def split: sum.splits)

lemma all_each:
  "(\<And>x. list_all R (fst (f x))) \<Longrightarrow> list_all R (fst (io_each f xs))"
  by (induction xs) (simp_all add: io_return_def all_bind)

lemma all_nil [simp]:
  "list_all R (fst (io_return x))" "list_all R (fst (io_throw e))"
  by (simp_all add: io_return_def io_throw_def)

lemma all_if:
  "(c \<Longrightarrow> list_all R (fst a)) \<Longrightarrow> (\<not> c \<Longrightarrow> list_all R (fst b)) \<Longrightarrow> list_all R (fst (if c then a else b))"
  by simp

lemmas wasi_simps = wasiRunEffect_def isGlueLine_def startsWith_def

lemma buildRegistryUrl_silent: "fst (buildRegistryUrl rt pf) = []"
  by (simp add: buildRegistryUrl_def io_return_def io_throw_def split: option.splits)

lemma wasi_downloadWASM: "list_all wasiRunEffect (fst (downloadWASM rt pf container))"
  unfolding downloadWASM_def downloadWASM_with_def Let_def
  by (intro all_bind all_if) (simp_all add: buildRegistryUrl_silent do_fetch_def wasi_simps split: sum.splits)

lemma wasi_call_onLog: "list_all wasiRunEffect (fst (call_onLog onLog l))"
  by (simp add: call_onLog_def wasi_simps)

lemma wasi_executeWASI:
  "list_all wasiRunEffect (fst (executeWASI sb wasmBytes cmd arguments environ onLog signal))"
  unfolding executeWASI_def Let_def io_of_option_def
  by (intro all_bind all_catch all_if all_each wasi_call_onLog)
     (simp_all add: wasi_simps split: sum.splits option.splits)

lemma wasi_try:
  assumes "containers podSpec = container # rest" "truthyStr (pathOf container)" "wasiMode container"
  shows "executePod_try rt pf sb podSpec onStatus onLog =
    io_bind (emit (Console (''[Runtime] Configuration: Type=wasi, Path='' @ the (pathOf container)))) (\<lambda>_.
    io_bind (downloadWASM rt pf container) (\<lambda>wasmBytes.
    io_bind (io_return ([] :: string)) (\<lambda>jsCode.
    io_bind (call_onStatus onStatus Running ''Executing WASI module'') (\<lambda>_.
    io_bind (executeWASI sb wasmBytes (orEmpty (command container)) (orEmpty (args container))
               (orEmpty (env container)) onLog (freshSignal sb)) (\<lambda>_.
    call_onStatus onStatus Succeeded ''WASM execution completed'')))))"
proof (cases "truthyStr (typeOf container)")
  case True
  with assms have "the (typeOf container) = ''wasi''" by (simp add: wasiMode_def)
  with assms True show ?thesis by (simp add: executePod_try_def Let_def)
next
  case False
  with assms show ?thesis by (simp add: executePod_try_def Let_def)
qed

lemma wasi_call_onStatus:
  "p = Running \<longrightarrow> m = ''Executing WASI module'' \<Longrightarrow>
   list_all wasiRunEffect (fst (call_onStatus onStatus p m))"
  by (simp add: wasi_simps)

lemma wasi_executePod_try:
  assumes "containers podSpec = container # rest" "truthyStr (pathOf container)" "wasiMode container"
  shows "list_all wasiRunEffect (fst (executePod_try rt pf sb podSpec onStatus onLog))"
  unfolding wasi_try [OF assms]
  by (intro all_bind wasi_downloadWASM wasi_executeWASI wasi_call_onStatus)
     (simp_all add: wasi_simps)

lemma wasi_executePod_try_early:
  assumes "containers podSpec = [] \<or> (\<exists>c rest. containers podSpec = c # rest \<and> \<not> truthyStr (pathOf c))"
  shows "fst (executePod_try rt pf sb podSpec onStatus onLog) = []"
  using assms by (auto simp: executePod_try_def io_throw_def)

lemma wasi_executePod:
  assumes "\<not> bindgenPod podSpec"
  shows "list_all wasiRunEffect (fst (executePod rt pf sb podSpec onStatus onLog))"
proof -
  have t: "list_all wasiRunEffect (fst (executePod_try rt pf sb podSpec onStatus onLog))"
  proof (cases "containers podSpec")
    case Nil
    then show ?thesis by (simp add: wasi_executePod_try_early)
  next
    case (Cons c rest)
    show ?thesis
    proof (cases "truthyStr (pathOf c)")
      case True
      with assms Cons have "wasiMode c" by (simp add: bindgenPod_def)
      with Cons True show ?thesis by (simp add: wasi_executePod_try)
    next
      case False
      with Cons show ?thesis by (simp add: wasi_executePod_try_early)
    qed
  qed
  show ?thesis
    unfolding executePod_def Let_def executePod_catch_def
    by (intro all_bind all_catch t wasi_call_onStatus) (simp_all add: wasi_simps)
qed

lemma fetches_append [simp]: "fetches (a @ b) = fetches a @ fetches b"
  by (simp add: fetches_def)

lemma fetches_simps [simp]:
  "fetches [] = []"
  "fetches (Status s # tr) = fetches tr"
  "fetches (Log l # tr) = fetches tr"
  "fetches (Console l # tr) = fetches tr"
  "fetches (Fetch l # tr) = l # fetches tr"
  by (simp_all add: fetches_def)

lemma fetches_notFetch: "list_all notFetch tr \<Longrightarrow> fetches tr = []"
  by (induction tr) (auto simp: notFetch_def split: effect.splits)

lemma fetches_bind:
  "fetches (fst (io_bind m f)) =
     fetches (fst m) @ (case snd m of Inl e \<Rightarrow> [] | Inr a \<Rightarrow> fetches (fst (f a)))"
  by (simp add: io_bind_def split: sum.splits)

lemma fetches_catch:
  "fetches (fst (io_catch m h)) =
     fetches (fst m) @ (case snd m of Inl e \<Rightarrow> fetches (fst (h e)) | Inr a \<Rightarrow> [])"
  by (simp add: io_catch_def split: sum.splits)

lemma notFetch_call_onLog: "list_all notFetch (fst (call_onLog onLog l))"
  by (simp add: call_onLog_def notFetch_def)

lemma notFetch_executeWASI:
  "list_all notFetch (fst (executeWASI sb wasmBytes cmd arguments environ onLog signal))"
  unfolding executeWASI_def Let_def io_of_option_def
  by (intro all_bind all_catch all_if all_each notFetch_call_onLog)
     (simp_all add: notFetch_def split: sum.splits option.splits)

lemma fetches_downloadWASM: "length (fetches (fst (downloadWASM rt pf container))) \<le> 1"
  by (simp add: downloadWASM_def downloadWASM_with_def Let_def fetches_bind buildRegistryUrl_silent
      do_fetch_def io_throw_def io_return_def split: sum.splits)

lemma fetches_wasi_try:
  assumes "containers podSpec = container # rest" "truthyStr (pathOf container)" "wasiMode container"
  shows "length (fetches (fst (executePod_try rt pf sb podSpec onStatus onLog))) \<le> 1"
  using fetches_downloadWASM [of rt pf container]
  by (simp add: wasi_try [OF assms] fetches_bind fetches_notFetch [OF notFetch_executeWASI]
      io_return_def split: sum.splits)

lemma fetches_executePod:
  "fetches (fst (executePod rt pf sb podSpec onStatus onLog))
     = (case onStatus \<lparr>phase = Pending, message = ''Downloading WASM module''\<rparr> of
          None \<Rightarrow> fetches (fst (executePod_try rt pf sb podSpec onStatus onLog))
        | Some e \<Rightarrow> [])"
  by (simp add: executePod_def fetches_bind fetches_catch call_onStatus_def executePod_catch_def
      split: sum.splits option.splits)

lemma logs_append [simp]: "logs (a @ b) = logs a @ logs b"
  by (simp add: logs_def)

lemma logs_simps [simp]:
  "logs [] = []"
  "logs (Status s # tr) = logs tr"
  "logs (Log l # tr) = l # logs tr"
  "logs (Console l # tr) = logs tr"
  "logs (Fetch l # tr) = logs tr"
  by (simp_all add: logs_def)

lemma logs_map_Log [simp]: "logs (map Log ws) = ws"
  by (induction ws) simp_all

lemma statuses_map_Log [simp]: "statuses (map Log ws) = []"
  by (induction ws) simp_all

lemma each_quiet:
  "\<forall>l. onLog l = None \<Longrightarrow> io_each (call_onLog onLog) ws = (map Log ws, Inr ())"
  by (induction ws) (simp_all add: io_return_def io_bind_def call_onLog_def)

lemma executeWASI_exit:
  assumes q: "\<forall>l. onLog l = None" and a: "\<not> aborted_later signal"
    and i: "instantiate_error (wasi_of sb wasmBytes (cmd @ arguments)
                                 (map (\<lambda>(n, v). n @ ''='' @ v) environ)) = None"
    and r: "start_result (wasi_of sb wasmBytes (cmd @ arguments)
                            (map (\<lambda>(n, v). n @ ''='' @ v) environ)) = Inr N"
  shows "executeWASI sb wasmBytes cmd arguments environ onLog signal =
     (Console ''[Runtime] Initializing WASI...'' # Console ''[Runtime] Running WASI module...''
        # map Log (start_writes (wasi_of sb wasmBytes (cmd @ arguments)
                                   (map (\<lambda>(n, v). n @ ''='' @ v) environ)))
        @ [Log (''WASI execution completed with exit code: '' @ showInt N)],
      if N = 0 then Inr () else Inl (''Error: Process exited with code '' @ showInt N))"
proof -
  have s: "\<not> abortedAtStart signal" using a by (simp add: aborted_later_def)
  show ?thesis
    using q a s i r
    by (simp add: executeWASI_def Let_def each_quiet io_of_option_def
        io_bind_def io_catch_def io_return_def io_throw_def emit_def call_onLog_def)
qed

text \<open>
  C4: when \<^verbatim>\<open>wasi.start\<close> returns \<open>N\<close> (the module instantiated, no abort was
  signalled) and the log callback returns normally, \<^verbatim>\<open>executeWASI\<close> logs what the
  module wrote and then the exit-code line, and returns for \<open>N = 0\<close> and throws
  \<^verbatim>\<open>Process exited with code N\<close> otherwise. Run through \<^verbatim>\<open>executePod\<close> in WASI mode
  (module downloaded, callbacks returning normally, pod not deleted meanwhile) the statuses
  are \<^verbatim>\<open>Pending\<close>, \<^verbatim>\<open>Running\<close> and then \<^verbatim>\<open>Succeeded\<close> for \<open>N = 0\<close>,
  \<^verbatim>\<open>Failed\<close> with that error otherwise; \<^verbatim>\<open>executePod\<close> itself resolves.
\<close>

theorem C4_exit_code:
  "((\<forall>l. onLog l = None) \<and> \<not> aborted_later signal
      \<and> instantiate_error (wasi_of sb wasmBytes (cmd @ arguments)
                              (map (\<lambda>(n, v). n @ ''='' @ v) environ)) = None
      \<and> start_result (wasi_of sb wasmBytes (cmd @ arguments)
                         (map (\<lambda>(n, v). n @ ''='' @ v) environ)) = Inr N \<longrightarrow>
      snd (executeWASI sb wasmBytes cmd arguments environ onLog signal)
        = (if N = 0 then Inr () else Inl (''Error: Process exited with code '' @ showInt N))
      \<and> logs (fst (executeWASI sb wasmBytes cmd arguments environ onLog signal))
        = start_writes (wasi_of sb wasmBytes (cmd @ arguments)
                          (map (\<lambda>(n, v). n @ ''='' @ v) environ))
          @ [''WASI execution completed with exit code: '' @ showInt N])
   \<and> ((\<forall>l. onLog l = None) \<and> (\<forall>st. onStatus st = None)
      \<and> containers podSpec = container # others \<and> truthyStr (pathOf container)
      \<and> wasiMode container \<and> snd (downloadWASM rt pf container) = Inr bytes \<and> \<not> deleted sb
      \<and> instantiate_error (wasi_of sb bytes (orEmpty (command container) @ orEmpty (args container))
                              (map (\<lambda>(n, v). n @ ''='' @ v) (orEmpty (env container)))) = None
      \<and> start_result (wasi_of sb bytes (orEmpty (command container) @ orEmpty (args container))
                              (map (\<lambda>(n, v). n @ ''='' @ v) (orEmpty (env container)))) = Inr N \<longrightarrow>
      snd (executePod rt pf sb podSpec onStatus onLog) = Inr ()
      \<and> last (logs (fst (executePod rt pf sb podSpec onStatus onLog)))
          = ''WASI execution completed with exit code: '' @ showInt N
      \<and> statuses (fst (executePod rt pf sb podSpec onStatus onLog))
          = [\<lparr>phase = Pending, message = ''Downloading WASM module''\<rparr>,
             \<lparr>phase = Running, message = ''Executing WASI module''\<rparr>,
             if N = 0 then \<lparr>phase = Succeeded, message = ''WASM execution completed''\<rparr>
             else \<lparr>phase = Failed, message = ''Execution error: Error: Process exited with code ''
                                              @ showInt N\<rparr>])"
proof -
  have one: "(\<forall>l. onLog l = None) \<and> \<not> aborted_later signal
      \<and> instantiate_error (wasi_of sb wasmBytes (cmd @ arguments)
                              (map (\<lambda>(n, v). n @ ''='' @ v) environ)) = None
      \<and> start_result (wasi_of sb wasmBytes (cmd @ arguments)
                         (map (\<lambda>(n, v). n @ ''='' @ v) environ)) = Inr N \<longrightarrow>
      snd (executeWASI sb wasmBytes cmd arguments environ onLog signal)
        = (if N = 0 then Inr () else Inl (''Error: Process exited with code '' @ showInt N))
      \<and> logs (fst (executeWASI sb wasmBytes cmd arguments environ onLog signal))
        = start_writes (wasi_of sb wasmBytes (cmd @ arguments)
                          (map (\<lambda>(n, v). n @ ''='' @ v) environ))
          @ [''WASI execution completed with exit code: '' @ showInt N]"
  proof
    assume h: "(\<forall>l. onLog l = None) \<and> \<not> aborted_later signal
      \<and> instantiate_error (wasi_of sb wasmBytes (cmd @ arguments)
                              (map (\<lambda>(n, v). n @ ''='' @ v) environ)) = None
      \<and> start_result (wasi_of sb wasmBytes (cmd @ arguments)
                         (map (\<lambda>(n, v). n @ ''='' @ v) environ)) = Inr N"
    show "snd (executeWASI sb wasmBytes cmd arguments environ onLog signal)
        = (if N = 0 then Inr () else Inl (''Error: Process exited with code '' @ showInt N))
      \<and> logs (fst (executeWASI sb wasmBytes cmd arguments environ onLog signal))
        = start_writes (wasi_of sb wasmBytes (cmd @ arguments)
                          (map (\<lambda>(n, v). n @ ''='' @ v) environ))
          @ [''WASI execution completed with exit code: '' @ showInt N]"
      using executeWASI_exit [of onLog signal sb wasmBytes cmd arguments environ N] h by simp
  qed
  have two: "(\<forall>l. onLog l = None) \<and> (\<forall>st. onStatus st = None)
      \<and> containers podSpec = container # others \<and> truthyStr (pathOf container)
      \<and> wasiMode container \<and> snd (downloadWASM rt pf container) = Inr bytes \<and> \<not> deleted sb
      \<and> instantiate_error (wasi_of sb bytes (orEmpty (command container) @ orEmpty (args container))
                              (map (\<lambda>(n, v). n @ ''='' @ v) (orEmpty (env container)))) = None
      \<and> start_result (wasi_of sb bytes (orEmpty (command container) @ orEmpty (args container))
                              (map (\<lambda>(n, v). n @ ''='' @ v) (orEmpty (env container)))) = Inr N \<longrightarrow>
      snd (executePod rt pf sb podSpec onStatus onLog) = Inr ()
      \<and> last (logs (fst (executePod rt pf sb podSpec onStatus onLog)))
          = ''WASI execution completed with exit code: '' @ showInt N
      \<and> statuses (fst (executePod rt pf sb podSpec onStatus onLog))
          = [\<lparr>phase = Pending, message = ''Downloading WASM module''\<rparr>,
             \<lparr>phase = Running, message = ''Executing WASI module''\<rparr>,
             if N = 0 then \<lparr>phase = Succeeded, message = ''WASM execution completed''\<rparr>
             else \<lparr>phase = Failed, message = ''Execution error: Error: Process exited with code ''
                                              @ showInt N\<rparr>]"
  proof
    assume h: "(\<forall>l. onLog l = None) \<and> (\<forall>st. onStatus st = None)
      \<and> containers podSpec = container # others \<and> truthyStr (pathOf container)
      \<and> wasiMode container \<and> snd (downloadWASM rt pf container) = Inr bytes \<and> \<not> deleted sb
      \<and> instantiate_error (wasi_of sb bytes (orEmpty (command container) @ orEmpty (args container))
                              (map (\<lambda>(n, v). n @ ''='' @ v) (orEmpty (env container)))) = None
      \<and> start_result (wasi_of sb bytes (orEmpty (command container) @ orEmpty (args container))
                              (map (\<lambda>(n, v). n @ ''='' @ v) (orEmpty (env container)))) = Inr N"
    let ?m = "wasi_of sb bytes (orEmpty (command container) @ orEmpty (args container))
                (map (\<lambda>(n, v). n @ ''='' @ v) (orEmpty (env container)))"
    have sig: "\<not> aborted_later (freshSignal sb)"
      using h by (simp add: aborted_later_def freshSignal_def)
    have ex: "executeWASI sb bytes (orEmpty (command container)) (orEmpty (args container))
               (orEmpty (env container)) onLog (freshSignal sb) =
     (Console ''[Runtime] Initializing WASI...'' # Console ''[Runtime] Running WASI module...''
        # map Log (start_writes ?m) @ [Log (''WASI execution completed with exit code: '' @ showInt N)],
      if N = 0 then Inr () else Inl (''Error: Process exited with code '' @ showInt N))"
      using h by (intro executeWASI_exit [OF _ sig]) simp_all
    have dl: "logs (fst (downloadWASM rt pf container)) = [] \<and> statuses (fst (downloadWASM rt pf container)) = []"
      by (simp add: downloadWASM_def downloadWASM_with_def Let_def io_bind_def buildRegistryUrl_silent
          do_fetch_def io_throw_def io_return_def split: sum.splits)
    have q: "snd (call_onStatus onStatus p msg) = Inr ()" for p msg
      using h by (simp add: call_onStatus_def)
    show "snd (executePod rt pf sb podSpec onStatus onLog) = Inr ()
      \<and> last (logs (fst (executePod rt pf sb podSpec onStatus onLog)))
          = ''WASI execution completed with exit code: '' @ showInt N
      \<and> statuses (fst (executePod rt pf sb podSpec onStatus onLog))
          = [\<lparr>phase = Pending, message = ''Downloading WASM module''\<rparr>,
             \<lparr>phase = Running, message = ''Executing WASI module''\<rparr>,
             if N = 0 then \<lparr>phase = Succeeded, message = ''WASM execution completed''\<rparr>
             else \<lparr>phase = Failed, message = ''Execution error: Error: Process exited with code ''
                                              @ showInt N\<rparr>]"
      using h dl q
      by (simp add: executePod_def wasi_try [of podSpec container others] ex executePod_catch_def
          io_bind_def io_catch_def io_return_def)
  qed
  show ?thesis using one two by blast
qed

lemma try_no_containers:
  "containers podSpec = [] \<Longrightarrow>
   executePod_try rt pf sb podSpec onStatus onLog = ([], Inl ''Error: No containers specified'')"
  by (simp add: executePod_try_def io_throw_def)

lemma discovery_try_no_containers:
  "containers podSpec = [] \<Longrightarrow>
   executePod_discovery_try rt pf sb podSpec onStatus onLog = ([], Inl ''Error: No containers specified'')"
  by (simp add: executePod_discovery_try_def io_throw_def)

lemma pod_skeleton_facts:
  assumes q: "\<forall>st. onStatus st = None"
  shows "snd (pod_skeleton k onStatus body) = Inr ()
    \<and> statuses (fst (pod_skeleton k onStatus body)) \<noteq> []
    \<and> hd (statuses (fst (pod_skeleton k onStatus body)))
        = \<lparr>phase = Pending, message = ''Downloading WASM module''\<rparr>
    \<and> (snd body = Inl e \<longrightarrow> last (statuses (fst (pod_skeleton k onStatus body)))
        = \<lparr>phase = Failed, message = ''Execution error: '' @ e\<rparr>)
    \<and> (body = ([], Inl e) \<longrightarrow> statuses (fst (pod_skeleton k onStatus body))
        = [\<lparr>phase = Pending, message = ''Downloading WASM module''\<rparr>,
           \<lparr>phase = Failed, message = ''Execution error: '' @ e\<rparr>])"
proof (cases "snd body")
  case (Inl e')
  from pod_skeleton_throw [OF q Inl, of k] Inl show ?thesis by auto
next
  case (Inr u)
  then have "snd body = Inr ()" by simp
  from pod_skeleton_return [OF q this, of k] Inr show ?thesis by auto
qed

text \<open>
  C1, amended: if the status callback returns normally, then \<^verbatim>\<open>executePod\<close> (in both
  revisions) resolves, whatever the log callback, the registry and the module do; the first
  status is \<^verbatim>\<open>Pending\<close>; whenever the body of the \<^verbatim>\<open>try\<close> block throws \<open>e\<close>, the
  last status is \<^verbatim>\<open>Failed\<close> with the message \<^verbatim>\<open>Execution error: e\<close>; and a pod
  without containers gets exactly \<^verbatim>\<open>Pending\<close> and \<^verbatim>\<open>Failed\<close>.
\<close>

theorem C1_never_throws:
  assumes "\<forall>st. onStatus st = None"
  shows "snd (executePod rt pf sb podSpec onStatus onLog) = Inr ()
    \<and> statuses (fst (executePod rt pf sb podSpec onStatus onLog)) \<noteq> []
    \<and> hd (statuses (fst (executePod rt pf sb podSpec onStatus onLog)))
        = \<lparr>phase = Pending, message = ''Downloading WASM module''\<rparr>
    \<and> (snd (executePod_try rt pf sb podSpec onStatus onLog) = Inl e \<longrightarrow>
        last (statuses (fst (executePod rt pf sb podSpec onStatus onLog)))
          = \<lparr>phase = Failed, message = ''Execution error: '' @ e\<rparr>)
    \<and> (containers podSpec = [] \<longrightarrow>
        statuses (fst (executePod rt pf sb podSpec onStatus onLog))
          = [\<lparr>phase = Pending, message = ''Downloading WASM module''\<rparr>,
             \<lparr>phase = Failed, message = ''Execution error: Error: No containers specified''\<rparr>])
    \<and> snd (executePod_discovery rt pf sb podSpec onStatus onLog) = Inr ()
    \<and> statuses (fst (executePod_discovery rt pf sb podSpec onStatus onLog)) \<noteq> []
    \<and> hd (statuses (fst (executePod_discovery rt pf sb podSpec onStatus onLog)))
        = \<lparr>phase = Pending, message = ''Downloading WASM module''\<rparr>
    \<and> (snd (executePod_discovery_try rt pf sb podSpec onStatus onLog) = Inl e \<longrightarrow>
        last (statuses (fst (executePod_discovery rt pf sb podSpec onStatus onLog)))
          = \<lparr>phase = Failed, message = ''Execution error: '' @ e\<rparr>)
    \<and> (containers podSpec = [] \<longrightarrow>
        statuses (fst (executePod_discovery rt pf sb podSpec onStatus onLog))
          = [\<lparr>phase = Pending, message = ''Downloading WASM module''\<rparr>,
             \<lparr>phase = Failed, message = ''Execution error: Error: No containers specified''\<rparr>])"
proof -
  let ?k = "podKeyOf (metadata_namespace podSpec) (metadata_name podSpec)"
  note a = pod_skeleton_facts [OF assms, of ?k "executePod_try rt pf sb podSpec onStatus onLog" e]
  note a0 = pod_skeleton_facts [OF assms, of ?k "executePod_try rt pf sb podSpec onStatus onLog"
      "''Error: No containers specified''"]
  note b = pod_skeleton_facts [OF assms, of ?k "executePod_discovery_try rt pf sb podSpec onStatus onLog" e]
  note b0 = pod_skeleton_facts [OF assms, of ?k "executePod_discovery_try rt pf sb podSpec onStatus onLog"
      "''Error: No containers specified''"]
  have 1: "containers podSpec = [] \<longrightarrow>
        statuses (fst (executePod rt pf sb podSpec onStatus onLog))
          = [\<lparr>phase = Pending, message = ''Downloading WASM module''\<rparr>,
             \<lparr>phase = Failed, message = ''Execution error: Error: No containers specified''\<rparr>]"
    using a0 try_no_containers [of podSpec rt pf sb onStatus onLog]
    by (simp add: executePod_skeleton)
  have 2: "containers podSpec = [] \<longrightarrow>
        statuses (fst (executePod_discovery rt pf sb podSpec onStatus onLog))
          = [\<lparr>phase = Pending, message = ''Downloading WASM module''\<rparr>,
             \<lparr>phase = Failed, message = ''Execution error: Error: No containers specified''\<rparr>]"
    using b0 discovery_try_no_containers [of podSpec rt pf sb onStatus onLog]
    by (simp add: executePod_discovery_skeleton)
  show ?thesis
    using a b 1 2 by (simp add: executePod_skeleton executePod_discovery_skeleton)
qed

subsection \<open>C9: the token in logged URLs\<close>

lemma fst_maskParam [simp]: "fst (maskParam k p) = fst p"
  by (simp add: maskParam_def)

lemma mask_filter: "map (maskParam k) (filter (\<lambda>q. fst q \<noteq> k') ps)
    = filter (\<lambda>q. fst q \<noteq> k') (map (maskParam k) ps)"
  by (induction ps) simp_all

lemma mask_set_other:
  "k' \<noteq> k \<Longrightarrow> map (maskParam k) (params_set k' v ps) = params_set k' v (map (maskParam k) ps)"
  by (induction ps) (auto simp: mask_filter, simp_all add: maskParam_def)

lemma mask_set_same:
  "map (maskParam k) (params_set k v ps) = params_set k [] (map (maskParam k) ps)"
  by (induction ps) (auto simp: mask_filter, simp_all add: maskParam_def)

lemma filter_mask: "filter (\<lambda>q. fst q \<noteq> k) (map (maskParam k) ps) = filter (\<lambda>q. fst q \<noteq> k) ps"
  by (induction ps) (simp_all add: maskParam_def)

lemma set_mask: "params_set k m (map (maskParam k) ps) = params_set k m ps"
  by (induction ps) (auto simp: filter_mask, simp_all add: maskParam_def)

lemma has_mask: "params_has k (map (maskParam k) ps) = params_has k ps"
  by (induction ps) (auto simp: params_has_def maskParam_def)

lemma mask_absent: "\<not> params_has k ps \<Longrightarrow> map (maskParam k) ps = ps"
  by (induction ps) (auto simp: params_has_def maskParam_def split: if_splits)

lemma sanitizedParams_mask: "sanitizedParams (map (maskParam ''token'') ps) = sanitizedParams ps"
  by (cases "params_has ''token'' ps")
     (simp_all add: sanitizedParams_def has_mask set_mask mask_absent)

lemma sanitize_form:
  "sanitizeUrlForLogging u = URL_toString (u\<lparr>searchParams := sanitizedParams (searchParams u)\<rparr>)"
  by (simp add: sanitizeUrlForLogging_def sanitizedParams_def searchParams_set_def Let_def)

lemma sanitize_cong:
  assumes "url_base u = url_base u'"
    and "map (maskParam ''token'') (searchParams u) = map (maskParam ''token'') (searchParams u')"
  shows "sanitizeUrlForLogging u = sanitizeUrlForLogging u'"
proof -
  have "sanitizedParams (searchParams u) = sanitizedParams (searchParams u')"
    using assms(2) sanitizedParams_mask [of "searchParams u"] sanitizedParams_mask [of "searchParams u'"]
    by simp
  then show ?thesis using assms(1) by (simp add: sanitize_form URL_toString_def)
qed

lemma mask_requestUrl:
  "t \<noteq> [] \<Longrightarrow>
   map (maskParam ''token'') (searchParams (requestUrl (rt\<lparr>rt_token := t\<rparr>) u0 i p v))
     = (let ps1 = params_set ''token'' []
                    (map (maskParam ''token'')
                       (searchParams ((case p of None \<Rightarrow> id | Some q \<Rightarrow> searchParams_set ''path'' q)
                                        (searchParams_set ''image'' i u0))))
        in if truthyStr v then params_set ''variant'' (the v) ps1 else ps1)"
  by (simp add: requestUrl_def withVariant_def withToken_def searchParams_set_def Let_def
      mask_set_other mask_set_same)

lemma base_requestUrl: "url_base (requestUrl rt u0 i p v) = url_base u0"
  by (simp add: requestUrl_def withVariant_def withToken_def searchParams_set_def split: option.splits)

lemma sanitize_requestUrl:
  assumes "t1 \<noteq> []" "t2 \<noteq> []"
  shows "sanitizeUrlForLogging (requestUrl (rt\<lparr>rt_token := t1\<rparr>) u0 i p v)
       = sanitizeUrlForLogging (requestUrl (rt\<lparr>rt_token := t2\<rparr>) u0 i p v)"
  by (rule sanitize_cong) (simp_all add: base_requestUrl mask_requestUrl assms)

lemma get_set_same: "params_get k (params_set k v ps) = Some v"
  by (induction ps) (simp_all add: params_get_def)

lemma get_set_other: "k' \<noteq> k \<Longrightarrow> params_get k (params_set k' v ps) = params_get k ps"
proof (induction ps)
  case Nil
  then show ?case by (simp add: params_get_def)
next
  case (Cons p ps)
  have f: "map_of (filter (\<lambda>q. fst q \<noteq> k') qs) k = map_of qs k" for qs :: "(string \<times> string) list"
    using Cons.prems by (induction qs) auto
  show ?case using Cons by (auto simp: params_get_def f)
qed

lemma token_requestUrl:
  "rt_token rt \<noteq> [] \<Longrightarrow>
   params_get ''token'' (searchParams (requestUrl rt u0 i p v)) = Some (rt_token rt)"
  by (simp add: requestUrl_def withVariant_def withToken_def searchParams_set_def
      get_set_same get_set_other)

lemma has_token_requestUrl:
  "rt_token rt \<noteq> [] \<Longrightarrow> params_has ''token'' (searchParams (requestUrl rt u0 i p v))"
  using token_requestUrl [of rt u0 i p v] by (simp add: params_has_def params_get_def)

lemma buildRegistryUrl_token: "buildRegistryUrl (rt\<lparr>rt_token := t\<rparr>) pf = buildRegistryUrl rt pf"
  by (simp add: buildRegistryUrl_def split: option.splits)

lemma fst_bind: "fst (io_bind m f) = fst m @ (case snd m of Inl e \<Rightarrow> [] | Inr a \<Rightarrow> fst (f a))"
  by (simp add: io_bind_def split: sum.splits)

lemma fst_catch: "fst (io_catch m h) = fst m @ (case snd m of Inl e \<Rightarrow> fst (h e) | Inr a \<Rightarrow> [])"
  by (simp add: io_catch_def split: sum.splits)

lemma fst_simps [simp]:
  "fst (io_throw e) = []" "fst (io_return x) = []"
  "fst (do_fetch pf u) = [Fetch (URL_toString u)]"
  by (simp_all add: io_throw_def io_return_def do_fetch_def)

lemma downloadFile_trace:
  "fst (downloadFile rt pf imageRef path variant) =
     (case snd (buildRegistryUrl rt pf) of
        Inl e \<Rightarrow> []
      | Inr u0 \<Rightarrow>
          [Console (''[Runtime] Downloading file '' @ path @ '' from ''
                      @ sanitizeUrlForLogging (requestUrl rt u0 imageRef (Some path) variant)),
           Fetch (URL_toString (requestUrl rt u0 imageRef (Some path) variant))])"
  unfolding downloadFile_def downloadFile_with_def Let_def
  by (simp add: fst_bind buildRegistryUrl_silent requestUrl_def split: sum.splits)

lemma downloadWASM_trace:
  "fst (downloadWASM rt pf container) =
     (case snd (buildRegistryUrl rt pf) of
        Inl e \<Rightarrow> []
      | Inr u0 \<Rightarrow>
          [Console (''[Runtime] Downloading WASM from ''
                      @ sanitizeUrlForLogging (requestUrl rt u0 (imageRefOf container)
                          (if truthyStr (pathOf container) then pathOf container else None)
                          (variantOf container))),
           Fetch (URL_toString (requestUrl rt u0 (imageRefOf container)
                          (if truthyStr (pathOf container) then pathOf container else None)
                          (variantOf container)))])"
proof (cases "truthyStr (pathOf container)")
  case True
  then obtain p where p: "pathOf container = Some p" by (auto simp: truthyStr_def split: option.splits)
  show ?thesis
    unfolding downloadWASM_def downloadWASM_with_def Let_def
    using True by (simp add: fst_bind buildRegistryUrl_silent requestUrl_def p split: sum.splits)
next
  case False
  show ?thesis
    unfolding downloadWASM_def downloadWASM_with_def Let_def
    using False by (simp add: fst_bind buildRegistryUrl_silent requestUrl_def split: sum.splits)
qed

lemma downloadJS_trace:
  "fst (downloadJS rt pf wasmPath imageRef variant) =
     (case snd (buildRegistryUrl rt pf) of
        Inl e \<Rightarrow> []
      | Inr u0 \<Rightarrow>
          [Console (''[Runtime] Downloading JS glue code from ''
                      @ sanitizeUrlForLogging (requestUrl rt u0 imageRef
                          (Some (replaceSuffix ''_bg.wasm'' ''.js'' wasmPath)) variant)),
           Fetch (URL_toString (requestUrl rt u0 imageRef
                          (Some (replaceSuffix ''_bg.wasm'' ''.js'' wasmPath)) variant))])"
  unfolding downloadJS_def downloadJS_with_def Let_def
  by (simp add: fst_bind buildRegistryUrl_silent requestUrl_def split: sum.splits)

lemma consoleLines_simps [simp]:
  "consoleLines [] = []"
  "consoleLines (Status s # tr) = consoleLines tr"
  "consoleLines (Log l # tr) = consoleLines tr"
  "consoleLines (Console l # tr) = l # consoleLines tr"
  "consoleLines (Fetch l # tr) = consoleLines tr"
  by (simp_all add: consoleLines_def)

lemma get_sanitized:
  "params_has ''token'' ps \<Longrightarrow> params_get ''token'' (sanitizedParams ps) = Some ''***''"
  by (simp add: sanitizedParams_def get_set_same)

lemma hide_bind:
  assumes "hideFetches m = hideFetches m'" and "\<And>a. hideFetches (f a) = hideFetches (f' a)"
  shows "hideFetches (io_bind m f) = hideFetches (io_bind m' f')"
  using assms by (auto simp: hideFetches_def io_bind_def split: sum.splits)

lemma hide_catch:
  assumes "hideFetches m = hideFetches m'" and "\<And>e. hideFetches (h e) = hideFetches (h' e)"
  shows "hideFetches (io_catch m h) = hideFetches (io_catch m' h')"
  using assms by (auto simp: hideFetches_def io_catch_def split: sum.splits)

lemma hide_fetch:
  assumes "fetch pf (URL_toString u) = fetch pf (URL_toString u')"
  shows "hideFetches (do_fetch pf u) = hideFetches (do_fetch pf u')"
  using assms by (simp add: hideFetches_def do_fetch_def notFetch_def)

lemma hide_downloadWASM:
  assumes t: "t1 \<noteq> []" "t2 \<noteq> []"
    and H: "\<And>u i p v. fetch pf (URL_toString (requestUrl (rt\<lparr>rt_token := t1\<rparr>) u i p v))
                     = fetch pf (URL_toString (requestUrl (rt\<lparr>rt_token := t2\<rparr>) u i p v))"
  shows "hideFetches (downloadWASM (rt\<lparr>rt_token := t1\<rparr>) pf container)
       = hideFetches (downloadWASM (rt\<lparr>rt_token := t2\<rparr>) pf container)"
proof -
  have s: "sanitizeUrlForLogging (requestUrl (rt\<lparr>rt_token := t1\<rparr>) u i p v)
       = sanitizeUrlForLogging (requestUrl (rt\<lparr>rt_token := t2\<rparr>) u i p v)" for u i p v
    by (rule sanitize_requestUrl [OF t])
  show ?thesis
    unfolding downloadWASM_def downloadWASM_with_def Let_def buildRegistryUrl_token
    apply (rule hide_bind [OF refl])
    apply (rule hide_bind)
    subgoal for u0
      using s [of u0 "imageRefOf container" "if truthyStr (pathOf container) then pathOf container else None" "variantOf container"]
      by (auto simp: requestUrl_def truthyStr_def split: option.splits)
    apply (rule hide_bind)
    subgoal for u0
      apply (rule hide_fetch)
      using H [of u0 "imageRefOf container" "if truthyStr (pathOf container) then pathOf container else None" "variantOf container"]
      by (auto simp: requestUrl_def truthyStr_def split: option.splits)
    apply (rule refl)
    done
qed

lemma hide_downloadJS:
  assumes t: "t1 \<noteq> []" "t2 \<noteq> []"
    and H: "\<And>u i p v. fetch pf (URL_toString (requestUrl (rt\<lparr>rt_token := t1\<rparr>) u i p v))
                     = fetch pf (URL_toString (requestUrl (rt\<lparr>rt_token := t2\<rparr>) u i p v))"
  shows "hideFetches (downloadJS (rt\<lparr>rt_token := t1\<rparr>) pf wasmPath imageRef variant)
       = hideFetches (downloadJS (rt\<lparr>rt_token := t2\<rparr>) pf wasmPath imageRef variant)"
proof -
  have s: "sanitizeUrlForLogging (requestUrl (rt\<lparr>rt_token := t1\<rparr>) u i p v)
       = sanitizeUrlForLogging (requestUrl (rt\<lparr>rt_token := t2\<rparr>) u i p v)" for u i p v
    by (rule sanitize_requestUrl [OF t])
  show ?thesis
    unfolding downloadJS_def downloadJS_with_def Let_def buildRegistryUrl_token
    apply (rule hide_bind [OF refl])
    apply (rule hide_bind)
    subgoal for u0
      using s [of u0 imageRef "Some (replaceSuffix ''_bg.wasm'' ''.js'' wasmPath)" variant]
      by (simp add: requestUrl_def)
    apply (rule hide_bind)
    subgoal for u0
      apply (rule hide_fetch)
      using H [of u0 imageRef "Some (replaceSuffix ''_bg.wasm'' ''.js'' wasmPath)" variant]
      by (simp add: requestUrl_def)
    apply (rule refl)
    done
qed

lemma hide_executePod:
  assumes t: "t1 \<noteq> []" "t2 \<noteq> []"
    and H: "\<And>u i p v. fetch pf (URL_toString (requestUrl (rt\<lparr>rt_token := t1\<rparr>) u i p v))
                     = fetch pf (URL_toString (requestUrl (rt\<lparr>rt_token := t2\<rparr>) u i p v))"
  shows "hideFetches (executePod (rt\<lparr>rt_token := t1\<rparr>) pf sb podSpec onStatus onLog)
       = hideFetches (executePod (rt\<lparr>rt_token := t2\<rparr>) pf sb podSpec onStatus onLog)"
proof -
  note w = hide_downloadWASM [OF t H]
  note j = hide_downloadJS [OF t H]
  have body: "hideFetches (executePod_try (rt\<lparr>rt_token := t1\<rparr>) pf sb podSpec onStatus onLog)
       = hideFetches (executePod_try (rt\<lparr>rt_token := t2\<rparr>) pf sb podSpec onStatus onLog)"
  proof (cases "containers podSpec")
    case Nil
    then show ?thesis by (simp add: executePod_try_def)
  next
    case (Cons c rest)
    show ?thesis
    proof (cases "truthyStr (pathOf c)")
      case False
      with Cons show ?thesis by (simp add: executePod_try_def)
    next
      case True
      show ?thesis
        unfolding executePod_try_def Let_def Cons list.case
        using True
        apply (simp only: not_True_eq_False if_False not_not)
        apply (rule hide_bind [OF refl])
        apply (rule hide_bind [OF w])
        apply (rule hide_bind)
         apply (cases "wasiMode c")
          apply (simp add: wasiMode_def)
         apply (simp add: wasiMode_def)
         apply (rule hide_catch [OF j refl])
        apply (rule refl)
        done
    qed
  qed
  show ?thesis
    unfolding executePod_def Let_def
    by (intro hide_bind hide_catch body refl)
qed

lemma consoleLines_hide: "consoleLines (fst (hideFetches m)) = consoleLines (fst m)"
proof -
  have "consoleLines (filter notFetch tr) = consoleLines tr" for tr
    by (induction tr) (auto simp: notFetch_def split: effect.splits)
  then show ?thesis by (simp add: hideFetches_def)
qed

lemma logs_hide: "logs (fst (hideFetches m)) = logs (fst m)"
proof -
  have "logs (filter notFetch tr) = logs tr" for tr
    by (induction tr) (auto simp: notFetch_def split: effect.splits)
  then show ?thesis by (simp add: hideFetches_def)
qed

text \<open>
  C9, amended: each of the three downloads, once the registry URL is built, writes exactly one
  console line, which carries the URL with its parameters sanitised, and then calls
  \<^verbatim>\<open>fetch\<close> with the URL as built. In the sanitised parameters a present
  \<^verbatim>\<open>token\<close> is \<^verbatim>\<open>***\<close>; in the fetched URL the \<^verbatim>\<open>token\<close> is the runtime's
  token when it has one. And the console output of a download does not depend on the
  token: for any two non-empty tokens it is the same. The same holds for everything
  \<^verbatim>\<open>executePod\<close> writes to the console and passes to the log callback, provided the
  registry answers the requests made with the two tokens alike.
\<close>

theorem C9_token_redaction:
  "(snd (buildRegistryUrl rt pf) = Inr u0 \<longrightarrow>
      fst (downloadFile rt pf imageRef path variant)
        = [Console (''[Runtime] Downloading file '' @ path @ '' from '' @
             URL_toString ((requestUrl rt u0 imageRef (Some path) variant)
               \<lparr>searchParams := sanitizedParams
                   (searchParams (requestUrl rt u0 imageRef (Some path) variant))\<rparr>)),
           Fetch (URL_toString (requestUrl rt u0 imageRef (Some path) variant))]
      \<and> fst (downloadWASM rt pf container)
        = [Console (''[Runtime] Downloading WASM from '' @
             URL_toString ((requestUrl rt u0 (imageRefOf container)
                 (if truthyStr (pathOf container) then pathOf container else None)
                 (variantOf container))
               \<lparr>searchParams := sanitizedParams
                   (searchParams (requestUrl rt u0 (imageRefOf container)
                      (if truthyStr (pathOf container) then pathOf container else None)
                      (variantOf container)))\<rparr>)),
           Fetch (URL_toString (requestUrl rt u0 (imageRefOf container)
                 (if truthyStr (pathOf container) then pathOf container else None)
                 (variantOf container)))]
      \<and> fst (downloadJS rt pf wasmPath imageRef variant)
        = [Console (''[Runtime] Downloading JS glue code from '' @
             URL_toString ((requestUrl rt u0 imageRef
                 (Some (replaceSuffix ''_bg.wasm'' ''.js'' wasmPath)) variant)
               \<lparr>searchParams := sanitizedParams
                   (searchParams (requestUrl rt u0 imageRef
                      (Some (replaceSuffix ''_bg.wasm'' ''.js'' wasmPath)) variant))\<rparr>)),
           Fetch (URL_toString (requestUrl rt u0 imageRef
                 (Some (replaceSuffix ''_bg.wasm'' ''.js'' wasmPath)) variant))])
   \<and> (params_has ''token'' ps \<longrightarrow> params_get ''token'' (sanitizedParams ps) = Some ''***'')
   \<and> (rt_token rt \<noteq> [] \<longrightarrow>
        params_get ''token'' (searchParams (requestUrl rt u0 imageRef pathParam variant))
          = Some (rt_token rt)
        \<and> params_has ''token'' (searchParams (requestUrl rt u0 imageRef pathParam variant)))
   \<and> (t1 \<noteq> [] \<and> t2 \<noteq> [] \<longrightarrow>
        consoleLines (fst (downloadFile (rt\<lparr>rt_token := t1\<rparr>) pf imageRef path variant))
          = consoleLines (fst (downloadFile (rt\<lparr>rt_token := t2\<rparr>) pf imageRef path variant))
        \<and> consoleLines (fst (downloadWASM (rt\<lparr>rt_token := t1\<rparr>) pf container))
          = consoleLines (fst (downloadWASM (rt\<lparr>rt_token := t2\<rparr>) pf container))
        \<and> consoleLines (fst (downloadJS (rt\<lparr>rt_token := t1\<rparr>) pf wasmPath imageRef variant))
          = consoleLines (fst (downloadJS (rt\<lparr>rt_token := t2\<rparr>) pf wasmPath imageRef variant)))
   \<and> (t1 \<noteq> [] \<and> t2 \<noteq> []
        \<and> (\<forall>u i p v. fetch pf (URL_toString (requestUrl (rt\<lparr>rt_token := t1\<rparr>) u i p v))
                       = fetch pf (URL_toString (requestUrl (rt\<lparr>rt_token := t2\<rparr>) u i p v))) \<longrightarrow>
        consoleLines (fst (executePod (rt\<lparr>rt_token := t1\<rparr>) pf sb podSpec onStatus onLog))
          = consoleLines (fst (executePod (rt\<lparr>rt_token := t2\<rparr>) pf sb podSpec onStatus onLog))
        \<and> logs (fst (executePod (rt\<lparr>rt_token := t1\<rparr>) pf sb podSpec onStatus onLog))
          = logs (fst (executePod (rt\<lparr>rt_token := t2\<rparr>) pf sb podSpec onStatus onLog)))"
proof -
  have traces: "snd (buildRegistryUrl rt pf) = Inr u0 \<longrightarrow>
      fst (downloadFile rt pf imageRef path variant)
        = [Console (''[Runtime] Downloading file '' @ path @ '' from '' @
             URL_toString ((requestUrl rt u0 imageRef (Some path) variant)
               \<lparr>searchParams := sanitizedParams
                   (searchParams (requestUrl rt u0 imageRef (Some path) variant))\<rparr>)),
           Fetch (URL_toString (requestUrl rt u0 imageRef (Some path) variant))]
      \<and> fst (downloadWASM rt pf container)
        = [Console (''[Runtime] Downloading WASM from '' @
             URL_toString ((requestUrl rt u0 (imageRefOf container)
                 (if truthyStr (pathOf container) then pathOf container else None)
                 (variantOf container))
               \<lparr>searchParams := sanitizedParams
                   (searchParams (requestUrl rt u0 (imageRefOf container)
                      (if truthyStr (pathOf container) then pathOf container else None)
                      (variantOf container)))\<rparr>)),
           Fetch (URL_toString (requestUrl rt u0 (imageRefOf container)
                 (if truthyStr (pathOf container) then pathOf container else None)
                 (variantOf container)))]
      \<and> fst (downloadJS rt pf wasmPath imageRef variant)
        = [Console (''[Runtime] Downloading JS glue code from '' @
             URL_toString ((requestUrl rt u0 imageRef
                 (Some (replaceSuffix ''_bg.wasm'' ''.js'' wasmPath)) variant)
               \<lparr>searchParams := sanitizedParams
                   (searchParams (requestUrl rt u0 imageRef
                      (Some (replaceSuffix ''_bg.wasm'' ''.js'' wasmPath)) variant))\<rparr>)),
           Fetch (URL_toString (requestUrl rt u0 imageRef
                 (Some (replaceSuffix ''_bg.wasm'' ''.js'' wasmPath)) variant))]"
    by (simp add: downloadFile_trace downloadWASM_trace downloadJS_trace sanitize_form)
  have masked: "params_has ''token'' ps \<longrightarrow> params_get ''token'' (sanitizedParams ps) = Some ''***''"
    by (simp add: get_sanitized)
  have real: "rt_token rt \<noteq> [] \<longrightarrow>
        params_get ''token'' (searchParams (requestUrl rt u0 imageRef pathParam variant))
          = Some (rt_token rt)
        \<and> params_has ''token'' (searchParams (requestUrl rt u0 imageRef pathParam variant))"
    by (simp add: token_requestUrl has_token_requestUrl)
  have indep: "t1 \<noteq> [] \<and> t2 \<noteq> [] \<longrightarrow>
        consoleLines (fst (downloadFile (rt\<lparr>rt_token := t1\<rparr>) pf imageRef path variant))
          = consoleLines (fst (downloadFile (rt\<lparr>rt_token := t2\<rparr>) pf imageRef path variant))
        \<and> consoleLines (fst (downloadWASM (rt\<lparr>rt_token := t1\<rparr>) pf container))
          = consoleLines (fst (downloadWASM (rt\<lparr>rt_token := t2\<rparr>) pf container))
        \<and> consoleLines (fst (downloadJS (rt\<lparr>rt_token := t1\<rparr>) pf wasmPath imageRef variant))
          = consoleLines (fst (downloadJS (rt\<lparr>rt_token := t2\<rparr>) pf wasmPath imageRef variant))"
  proof
    assume t: "t1 \<noteq> [] \<and> t2 \<noteq> []"
    then have s: "sanitizeUrlForLogging (requestUrl (rt\<lparr>rt_token := t1\<rparr>) u i p v)
       = sanitizeUrlForLogging (requestUrl (rt\<lparr>rt_token := t2\<rparr>) u i p v)" for u i p v
      by (simp add: sanitize_requestUrl)
    show "consoleLines (fst (downloadFile (rt\<lparr>rt_token := t1\<rparr>) pf imageRef path variant))
          = consoleLines (fst (downloadFile (rt\<lparr>rt_token := t2\<rparr>) pf imageRef path variant))
        \<and> consoleLines (fst (downloadWASM (rt\<lparr>rt_token := t1\<rparr>) pf container))
          = consoleLines (fst (downloadWASM (rt\<lparr>rt_token := t2\<rparr>) pf container))
        \<and> consoleLines (fst (downloadJS (rt\<lparr>rt_token := t1\<rparr>) pf wasmPath imageRef variant))
          = consoleLines (fst (downloadJS (rt\<lparr>rt_token := t2\<rparr>) pf wasmPath imageRef variant))"
      by (simp add: downloadFile_trace downloadWASM_trace downloadJS_trace buildRegistryUrl_token s
          split: sum.splits)
  qed
  have whole: "t1 \<noteq> [] \<and> t2 \<noteq> []
        \<and> (\<forall>u i p v. fetch pf (URL_toString (requestUrl (rt\<lparr>rt_token := t1\<rparr>) u i p v))
                       = fetch pf (URL_toString (requestUrl (rt\<lparr>rt_token := t2\<rparr>) u i p v))) \<longrightarrow>
        consoleLines (fst (executePod (rt\<lparr>rt_token := t1\<rparr>) pf sb podSpec onStatus onLog))
          = consoleLines (fst (executePod (rt\<lparr>rt_token := t2\<rparr>) pf sb podSpec onStatus onLog))
        \<and> logs (fst (executePod (rt\<lparr>rt_token := t1\<rparr>) pf sb podSpec onStatus onLog))
          = logs (fst (executePod (rt\<lparr>rt_token := t2\<rparr>) pf sb podSpec onStatus onLog))"
  proof
    assume a: "t1 \<noteq> [] \<and> t2 \<noteq> []
        \<and> (\<forall>u i p v. fetch pf (URL_toString (requestUrl (rt\<lparr>rt_token := t1\<rparr>) u i p v))
                       = fetch pf (URL_toString (requestUrl (rt\<lparr>rt_token := t2\<rparr>) u i p v)))"
    have "hideFetches (executePod (rt\<lparr>rt_token := t1\<rparr>) pf sb podSpec onStatus onLog)
        = hideFetches (executePod (rt\<lparr>rt_token := t2\<rparr>) pf sb podSpec onStatus onLog)"
      using a by (intro hide_executePod) simp_all
    then show "consoleLines (fst (executePod (rt\<lparr>rt_token := t1\<rparr>) pf sb podSpec onStatus onLog))
          = consoleLines (fst (executePod (rt\<lparr>rt_token := t2\<rparr>) pf sb podSpec onStatus onLog))
        \<and> logs (fst (executePod (rt\<lparr>rt_token := t1\<rparr>) pf sb podSpec onStatus onLog))
          = logs (fst (executePod (rt\<lparr>rt_token := t2\<rparr>) pf sb podSpec onStatus onLog))"
      using consoleLines_hide [of "executePod (rt\<lparr>rt_token := t1\<rparr>) pf sb podSpec onStatus onLog"]
        consoleLines_hide [of "executePod (rt\<lparr>rt_token := t2\<rparr>) pf sb podSpec onStatus onLog"]
        logs_hide [of "executePod (rt\<lparr>rt_token := t1\<rparr>) pf sb podSpec onStatus onLog"]
        logs_hide [of "executePod (rt\<lparr>rt_token := t2\<rparr>) pf sb podSpec onStatus onLog"]
      by simp
  qed
  show ?thesis using traces masked real indep whole by blast
qed

lemma downloadWASM_built:
  "snd (downloadWASM rt pf container) = Inr bytes \<Longrightarrow> \<exists>u0. snd (buildRegistryUrl rt pf) = Inr u0"
  by (cases "snd (buildRegistryUrl rt pf)")
     (auto simp: downloadWASM_def downloadWASM_with_def io_bind_def)

lemma wasi_selected:
  assumes c: "containers podSpec = container # others" and p: "truthyStr (pathOf container)"
    and w: "wasiMode container"
    and q: "onStatus \<lparr>phase = Pending, message = ''Downloading WASM module''\<rparr> = None"
    and d: "snd (downloadWASM rt pf container) = Inr bytes"
    and r: "onStatus \<lparr>phase = Running, message = ''Executing WASI module''\<rparr> = None"
  shows "fst (executePod rt pf sb podSpec onStatus onLog) =
     Console (''[Runtime] Executing pod: ''
               @ podKeyOf (metadata_namespace podSpec) (metadata_name podSpec))
     # Status \<lparr>phase = Pending, message = ''Downloading WASM module''\<rparr>
     # Console (''[Runtime] Configuration: Type=wasi, Path='' @ the (pathOf container))
     # fst (downloadWASM rt pf container)
     @ Status \<lparr>phase = Running, message = ''Executing WASI module''\<rparr>
     # fst (executeWASI sb bytes (orEmpty (command container)) (orEmpty (args container))
              (orEmpty (env container)) onLog (freshSignal sb))
     @ (case snd (executeWASI sb bytes (orEmpty (command container)) (orEmpty (args container))
                    (orEmpty (env container)) onLog (freshSignal sb)) of
          Inl e \<Rightarrow> [Console (''[Runtime] Pod execution failed: '' @ e),
                    Status \<lparr>phase = Failed, message = ''Execution error: '' @ e\<rparr>]
        | Inr u \<Rightarrow>
            Status \<lparr>phase = Succeeded, message = ''WASM execution completed''\<rparr>
            # (case onStatus \<lparr>phase = Succeeded, message = ''WASM execution completed''\<rparr> of
                 None \<Rightarrow> []
               | Some e \<Rightarrow> [Console (''[Runtime] Pod execution failed: '' @ e),
                            Status \<lparr>phase = Failed, message = ''Execution error: '' @ e\<rparr>]))"
  using q d r
  by (simp add: executePod_def wasi_try [OF c p w] executePod_catch_def
      io_bind_def io_catch_def io_return_def emit_def call_onStatus_def
      split: sum.splits option.splits)

lemma bindgen_selected:
  assumes c: "containers podSpec = container # others" and p: "truthyStr (pathOf container)"
    and t: "typeOf container = Some t" "t \<noteq> []" "t \<noteq> ''wasi''"
    and q: "onStatus \<lparr>phase = Pending, message = ''Downloading WASM module''\<rparr> = None"
    and d: "snd (downloadWASM rt pf container) = Inr bytes"
  shows "glueAttempted (fst (executePod rt pf sb podSpec onStatus onLog))"
proof -
  obtain u0 where b: "snd (buildRegistryUrl rt pf) = Inr u0"
    using downloadWASM_built [OF d] by blast
  have g: "glueAttempted (fst (downloadJS rt pf wp (imageRefOf container) (variantOf container)))" for wp
    by (simp add: downloadJS_trace b glueAttempted_def isGlueLine_def startsWith_def)
  have a: "glueAttempted (x @ y) = (glueAttempted x \<or> glueAttempted y)" for x y
    by (simp add: glueAttempted_def)
  have n: "glueAttempted (z # y) = (isGlueLine z \<or> glueAttempted y)" for z y
    by (simp add: glueAttempted_def)
  have "glueAttempted (fst (executePod_try rt pf sb podSpec onStatus onLog))"
    using p t d g [of "the (pathOf container)"]
    by (simp add: executePod_try_def c Let_def truthyStr_def fst_bind fst_catch a n
        split: sum.splits)
  then show ?thesis
    using q
    by (simp add: executePod_def Let_def fst_bind fst_catch a n call_onStatus_def
        split: sum.splits)
qed

text \<open>
  C3: in the later revision, a glue download is attempted only for a pod whose first
  container has a \<^verbatim>\<open>wasm.type\<close> that is set, not empty and not \<^verbatim>\<open>wasi\<close>, and for
  such a container with a path it is attempted once the module is downloaded. With the
  type unset (or empty) and an explicit path, whatever the callbacks do, no glue download is
  attempted, a \<^verbatim>\<open>Running\<close> status can only be the WASI one, and at most one request
  (for the module) goes to the registry; and once the module is downloaded the WASI
  executor is what runs: \<^verbatim>\<open>executePod\<close> logs the configuration with type
  \<^verbatim>\<open>wasi\<close>, reports \<^verbatim>\<open>Running\<close> with the WASI message, does what
  \<^verbatim>\<open>executeWASI\<close> does on the downloaded bytes, and ends with \<^verbatim>\<open>Succeeded\<close> or
  with the failure of the executor.
\<close>

theorem C3_default_mode:
  "(glueAttempted (fst (executePod rt pf sb podSpec onStatus onLog)) \<longrightarrow>
      (\<exists>c rest t. containers podSpec = c # rest \<and> typeOf c = Some t \<and> t \<noteq> [] \<and> t \<noteq> ''wasi''))
   \<and> (containers podSpec = container # others \<and> truthyStr (pathOf container)
        \<and> \<not> truthyStr (typeOf container) \<longrightarrow>
        \<not> glueAttempted (fst (executePod rt pf sb podSpec onStatus onLog))
        \<and> list_all (\<lambda>s. phase s = Running \<longrightarrow> message s = ''Executing WASI module'')
             (statuses (fst (executePod rt pf sb podSpec onStatus onLog)))
        \<and> length (fetches (fst (executePod rt pf sb podSpec onStatus onLog))) \<le> 1)
   \<and> (containers podSpec = container # others \<and> truthyStr (pathOf container)
        \<and> \<not> truthyStr (typeOf container)
        \<and> onStatus \<lparr>phase = Pending, message = ''Downloading WASM module''\<rparr> = None
        \<and> snd (downloadWASM rt pf container) = Inr bytes
        \<and> onStatus \<lparr>phase = Running, message = ''Executing WASI module''\<rparr> = None \<longrightarrow>
        fst (executePod rt pf sb podSpec onStatus onLog) =
          Console (''[Runtime] Executing pod: ''
                    @ podKeyOf (metadata_namespace podSpec) (metadata_name podSpec))
          # Status \<lparr>phase = Pending, message = ''Downloading WASM module''\<rparr>
          # Console (''[Runtime] Configuration: Type=wasi, Path='' @ the (pathOf container))
          # fst (downloadWASM rt pf container)
          @ Status \<lparr>phase = Running, message = ''Executing WASI module''\<rparr>
          # fst (executeWASI sb bytes (orEmpty (command container)) (orEmpty (args container))
                   (orEmpty (env container)) onLog (freshSignal sb))
          @ (case snd (executeWASI sb bytes (orEmpty (command container)) (orEmpty (args container))
                         (orEmpty (env container)) onLog (freshSignal sb)) of
               Inl e \<Rightarrow> [Console (''[Runtime] Pod execution failed: '' @ e),
                         Status \<lparr>phase = Failed, message = ''Execution error: '' @ e\<rparr>]
             | Inr u \<Rightarrow>
                 Status \<lparr>phase = Succeeded, message = ''WASM execution completed''\<rparr>
                 # (case onStatus \<lparr>phase = Succeeded, message = ''WASM execution completed''\<rparr> of
                      None \<Rightarrow> []
                    | Some e \<Rightarrow> [Console (''[Runtime] Pod execution failed: '' @ e),
                                 Status \<lparr>phase = Failed, message = ''Execution error: '' @ e\<rparr>])))
   \<and> (containers podSpec = container # others \<and> truthyStr (pathOf container)
        \<and> typeOf container = Some t \<and> t \<noteq> [] \<and> t \<noteq> ''wasi''
        \<and> onStatus \<lparr>phase = Pending, message = ''Downloading WASM module''\<rparr> = None
        \<and> snd (downloadWASM rt pf container) = Inr bytes \<longrightarrow>
        glueAttempted (fst (executePod rt pf sb podSpec onStatus onLog)))"
proof -
  let ?tr = "fst (executePod rt pf sb podSpec onStatus onLog)"
  have quiet: "list_all wasiRunEffect tr \<Longrightarrow>
      \<not> glueAttempted tr
      \<and> list_all (\<lambda>s. phase s = Running \<longrightarrow> message s = ''Executing WASI module'') (statuses tr)"
    for tr
    by (induction tr)
       (auto simp: glueAttempted_def wasiRunEffect_def statuses_def split: effect.splits)
  have only: "glueAttempted ?tr \<longrightarrow>
      (\<exists>c rest t. containers podSpec = c # rest \<and> typeOf c = Some t \<and> t \<noteq> [] \<and> t \<noteq> ''wasi'')"
  proof
    assume "glueAttempted ?tr"
    then have "bindgenPod podSpec"
      using quiet [OF wasi_executePod] by blast
    then show "\<exists>c rest t. containers podSpec = c # rest \<and> typeOf c = Some t \<and> t \<noteq> [] \<and> t \<noteq> ''wasi''"
      by (auto simp: bindgenPod_def wasiMode_def truthyStr_def split: list.splits option.splits if_splits)
  qed
  have unset: "containers podSpec = container # others \<and> truthyStr (pathOf container)
        \<and> \<not> truthyStr (typeOf container) \<longrightarrow>
        \<not> glueAttempted ?tr
        \<and> list_all (\<lambda>s. phase s = Running \<longrightarrow> message s = ''Executing WASI module'') (statuses ?tr)
        \<and> length (fetches ?tr) \<le> 1"
  proof
    assume a: "containers podSpec = container # others \<and> truthyStr (pathOf container)
        \<and> \<not> truthyStr (typeOf container)"
    then have w: "wasiMode container" by (simp add: wasiMode_def)
    with a have nb: "\<not> bindgenPod podSpec" by (simp add: bindgenPod_def)
    have "length (fetches ?tr) \<le> 1"
      using fetches_wasi_try [of podSpec container others rt pf sb onStatus onLog] a w
      by (simp add: fetches_executePod split: option.splits)
    then show "\<not> glueAttempted ?tr
        \<and> list_all (\<lambda>s. phase s = Running \<longrightarrow> message s = ''Executing WASI module'') (statuses ?tr)
        \<and> length (fetches ?tr) \<le> 1"
      using quiet [OF wasi_executePod [OF nb]] by simp
  qed
  have selected: "(containers podSpec = container # others \<and> truthyStr (pathOf container)
          \<and> \<not> truthyStr (typeOf container)
          \<and> onStatus \<lparr>phase = Pending, message = ''Downloading WASM module''\<rparr> = None
          \<and> snd (downloadWASM rt pf container) = Inr bytes
          \<and> onStatus \<lparr>phase = Running, message = ''Executing WASI module''\<rparr> = None \<longrightarrow>
          fst (executePod rt pf sb podSpec onStatus onLog) =
            Console (''[Runtime] Executing pod: ''
                      @ podKeyOf (metadata_namespace podSpec) (metadata_name podSpec))
            # Status \<lparr>phase = Pending, message = ''Downloading WASM module''\<rparr>
            # Console (''[Runtime] Configuration: Type=wasi, Path='' @ the (pathOf container))
            # fst (downloadWASM rt pf container)
            @ Status \<lparr>phase = Running, message = ''Executing WASI module''\<rparr>
            # fst (executeWASI sb bytes (orEmpty (command container)) (orEmpty (args container))
                     (orEmpty (env container)) onLog (freshSignal sb))
            @ (case snd (executeWASI sb bytes (orEmpty (command container)) (orEmpty (args container))
                           (orEmpty (env container)) onLog (freshSignal sb)) of
                 Inl e \<Rightarrow> [Console (''[Runtime] Pod execution failed: '' @ e),
                           Status \<lparr>phase = Failed, message = ''Execution error: '' @ e\<rparr>]
               | Inr u \<Rightarrow>
                   Status \<lparr>phase = Succeeded, message = ''WASM execution completed''\<rparr>
                   # (case onStatus \<lparr>phase = Succeeded, message = ''WASM execution completed''\<rparr> of
                        None \<Rightarrow> []
                      | Some e \<Rightarrow> [Console (''[Runtime] Pod execution failed: '' @ e),
                                   Status \<lparr>phase = Failed, message = ''Execution error: '' @ e\<rparr>])))"
  proof
    assume a: "containers podSpec = container # others \<and> truthyStr (pathOf container)
        \<and> \<not> truthyStr (typeOf container)
        \<and> onStatus \<lparr>phase = Pending, message = ''Downloading WASM module''\<rparr> = None
        \<and> snd (downloadWASM rt pf container) = Inr bytes
        \<and> onStatus \<lparr>phase = Running, message = ''Executing WASI module''\<rparr> = None"
    then have w: "wasiMode container" by (simp add: wasiMode_def)
    show "fst (executePod rt pf sb podSpec onStatus onLog) =
          Console (''[Runtime] Executing pod: ''
                    @ podKeyOf (metadata_namespace podSpec) (metadata_name podSpec))
          # Status \<lparr>phase = Pending, message = ''Downloading WASM module''\<rparr>
          # Console (''[Runtime] Configuration: Type=wasi, Path='' @ the (pathOf container))
          # fst (downloadWASM rt pf container)
          @ Status \<lparr>phase = Running, message = ''Executing WASI module''\<rparr>
          # fst (executeWASI sb bytes (orEmpty (command container)) (orEmpty (args container))
                   (orEmpty (env container)) onLog (freshSignal sb))
          @ (case snd (executeWASI sb bytes (orEmpty (command container)) (orEmpty (args container))
                         (orEmpty (env container)) onLog (freshSignal sb)) of
               Inl e \<Rightarrow> [Console (''[Runtime] Pod execution failed: '' @ e),
                         Status \<lparr>phase = Failed, message = ''Execution error: '' @ e\<rparr>]
             | Inr u \<Rightarrow>
                 Status \<lparr>phase = Succeeded, message = ''WASM execution completed''\<rparr>
                 # (case onStatus \<lparr>phase = Succeeded, message = ''WASM execution completed''\<rparr> of
                      None \<Rightarrow> []
                    | Some e \<Rightarrow> [Console (''[Runtime] Pod execution failed: '' @ e),
                                 Status \<lparr>phase = Failed, message = ''Execution error: '' @ e\<rparr>]))"
      using a w by (intro wasi_selected) simp_all
  qed
  have bindgen: "(containers podSpec = container # others \<and> truthyStr (pathOf container)
          \<and> typeOf container = Some t \<and> t \<noteq> [] \<and> t \<noteq> ''wasi''
          \<and> onStatus \<lparr>phase = Pending, message = ''Downloading WASM module''\<rparr> = None
          \<and> snd (downloadWASM rt pf container) = Inr bytes \<longrightarrow>
          glueAttempted (fst (executePod rt pf sb podSpec onStatus onLog)))"
    using bindgen_selected [of podSpec container others t onStatus rt pf bytes sb onLog] by blast
  show ?thesis using only unset selected bindgen by blast
qed

lemmas io_defs = io_bind_def io_catch_def io_return_def io_throw_def emit_def call_onStatus_def
  call_onLog_def io_of_option_def

lemmas fixture_defs = testRuntime_def testPlatform_def testSandbox_def testPod_def
  wasiContainer_def hintedContainer_def moduleResponse_def registryUrl_def new_Runtime_def
  returns_def failingStatus_def

lemmas url_defs = URL_toString_def urlencode_def encodeByte_def isUnreserved_def hexUpper_def
  requestUrl_def withToken_def withVariant_def searchParams_set_def sanitizedParams_def
  params_has_def params_get_def truthyStr_def

lemmas pod_defs = executePod_def executePod_try_def executePod_catch_def executeWASI_def
  downloadWASM_def downloadWASM_with_def downloadJS_def downloadJS_with_def
  downloadFile_def downloadFile_with_def buildRegistryUrl_def do_fetch_def
  sanitizeUrlForLogging_def pathOf_def typeOf_def variantOf_def imageRefOf_def orEmpty_def
  freshSignal_def aborted_later_def podKeyOf_def executionAborted_def showInt_def digitChar_def
  Let_def

text \<open>
  C1, as stated, fails: the first status is reported before the \<^verbatim>\<open>try\<close> block, so
  a status callback that throws makes \<^verbatim>\<open>executePod\<close> reject with that error.
\<close>

theorem C1_counterexample:
  "snd (executePod testRuntime testPlatform (testSandbox 0) (testPod [wasiContainer])
          failingStatus returns) = Inl ''Error: status sink failed''"
  by (simp add: executePod_def io_defs failingStatus_def)

text \<open>
  C9, as stated, fails in its last clause: the error of a refused download carries the
  body of the registry's answer, and \<^verbatim>\<open>executePod\<close> writes that error to the
  console. When the registry repeats the requested URL there, the token is in the log.
\<close>

theorem C9_counterexample:
  "rt_token testRuntime = ''test-token''
   \<and> consoleLines (fst (executePod testRuntime echoPlatform (testSandbox 0)
                           (testPod [wasiContainer]) returns returns))
     = [''[Runtime] Executing pod: default/test-pod'',
        ''[Runtime] Configuration: Type=wasi, Path=app.wasm'',
        ''[Runtime] Downloading WASM from https://registry.example.com/proxy?image=test-image%3Alatest&path=app.wasm&token=***'',
        ''[Runtime] Pod execution failed: Error: Failed to download WASM: 403 Forbidden: access denied for https://registry.example.com/proxy?image=test-image%3Alatest&path=app.wasm&token=test-token'']
   \<and> str_includes
        (last (consoleLines (fst (executePod testRuntime echoPlatform (testSandbox 0)
                                    (testPod [wasiContainer]) returns returns))))
        ''token=test-token''"
proof -
  have c: "consoleLines (fst (executePod testRuntime echoPlatform (testSandbox 0)
                           (testPod [wasiContainer]) returns returns))
     = [''[Runtime] Executing pod: default/test-pod'',
        ''[Runtime] Configuration: Type=wasi, Path=app.wasm'',
        ''[Runtime] Downloading WASM from https://registry.example.com/proxy?image=test-image%3Alatest&path=app.wasm&token=***'',
        ''[Runtime] Pod execution failed: Error: Failed to download WASM: 403 Forbidden: access denied for https://registry.example.com/proxy?image=test-image%3Alatest&path=app.wasm&token=test-token'']"
    by (simp add: pod_defs io_defs fixture_defs url_defs echoPlatform_def errorTextOf_def)
  have i: "str_includes
        ''[Runtime] Pod execution failed: Error: Failed to download WASM: 403 Forbidden: access denied for https://registry.example.com/proxy?image=test-image%3Alatest&path=app.wasm&token=test-token''
        ''token=test-token''"
    by (simp add: str_includes_def)
  show ?thesis
    unfolding c using i by (simp add: fixture_defs)
qed

lemma buildRegistryUrl_example: "snd (buildRegistryUrl testRuntime testPlatform) = Inr registryUrl"
  by (simp add: buildRegistryUrl_def fixture_defs io_defs)

theorem C9_token_redaction_witness:
  "snd (buildRegistryUrl testRuntime testPlatform) = Inr registryUrl
   \<and> rt_token testRuntime \<noteq> [] \<and> ''test-token'' \<noteq> [] \<and> ''other-token'' \<noteq> []
   \<and> fst (downloadFile testRuntime testPlatform ''ghcr.io/kuack/app'' ''pkg/package.json''
            (Some ''arm64''))
      = [Console ''[Runtime] Downloading file pkg/package.json from https://registry.example.com/proxy?image=ghcr.io%2Fkuack%2Fapp&path=pkg%2Fpackage.json&token=***&variant=arm64'',
         Fetch ''https://registry.example.com/proxy?image=ghcr.io%2Fkuack%2Fapp&path=pkg%2Fpackage.json&token=test-token&variant=arm64'']
   \<and> consoleLines (fst (downloadFile (testRuntime\<lparr>rt_token := ''test-token''\<rparr>) testPlatform
                         ''ghcr.io/kuack/app'' ''pkg/package.json'' (Some ''arm64'')))
      = consoleLines (fst (downloadFile (testRuntime\<lparr>rt_token := ''other-token''\<rparr>) testPlatform
                         ''ghcr.io/kuack/app'' ''pkg/package.json'' (Some ''arm64'')))
   \<and> consoleLines (fst (executePod (testRuntime\<lparr>rt_token := ''test-token''\<rparr>) testPlatform
                         (testSandbox 3) (testPod [wasiContainer]) returns returns))
      = consoleLines (fst (executePod (testRuntime\<lparr>rt_token := ''other-token''\<rparr>) testPlatform
                         (testSandbox 3) (testPod [wasiContainer]) returns returns))"
proof -
  have f: "\<forall>u i p v. fetch testPlatform
               (URL_toString (requestUrl (testRuntime\<lparr>rt_token := ''test-token''\<rparr>) u i p v))
             = fetch testPlatform
               (URL_toString (requestUrl (testRuntime\<lparr>rt_token := ''other-token''\<rparr>) u i p v))"
    by (simp add: testPlatform_def)
  have b: "snd (buildRegistryUrl testRuntime testPlatform) = Inr registryUrl"
    by (rule buildRegistryUrl_example)
  have t: "rt_token testRuntime \<noteq> [] \<and> ''test-token'' \<noteq> [] \<and> ''other-token'' \<noteq> []"
    by (simp add: fixture_defs)
  have u: "URL_toString ((requestUrl testRuntime registryUrl ''ghcr.io/kuack/app''
                 (Some ''pkg/package.json'') (Some ''arm64''))
               \<lparr>searchParams := sanitizedParams
                   (searchParams (requestUrl testRuntime registryUrl ''ghcr.io/kuack/app''
                 (Some ''pkg/package.json'') (Some ''arm64'')))\<rparr>)
      = ''https://registry.example.com/proxy?image=ghcr.io%2Fkuack%2Fapp&path=pkg%2Fpackage.json&token=***&variant=arm64''
      \<and> URL_toString (requestUrl testRuntime registryUrl ''ghcr.io/kuack/app''
                 (Some ''pkg/package.json'') (Some ''arm64''))
      = ''https://registry.example.com/proxy?image=ghcr.io%2Fkuack%2Fapp&path=pkg%2Fpackage.json&token=test-token&variant=arm64''"
    by (simp add: url_defs fixture_defs)
  show ?thesis
    using C9_token_redaction [of testRuntime testPlatform registryUrl "''ghcr.io/kuack/app''" "''pkg/package.json''"
        "Some ''arm64''" wasiContainer "''app.wasm''" "[]" "None" "''test-token''" "''other-token''"
        "testSandbox 3" "testPod [wasiContainer]" returns returns]
      b t u f
    by simp
qed

lemma executePod_exit_3_trace:
  "executePod testRuntime testPlatform (testSandbox 3) (testPod [wasiContainer]) returns returns
   = ([Console ''[Runtime] Executing pod: default/test-pod'',
       Status \<lparr>phase = Pending, message = ''Downloading WASM module''\<rparr>,
       Console ''[Runtime] Configuration: Type=wasi, Path=app.wasm'',
       Console ''[Runtime] Downloading WASM from https://registry.example.com/proxy?image=test-image%3Alatest&path=app.wasm&token=***'',
       Fetch ''https://registry.example.com/proxy?image=test-image%3Alatest&path=app.wasm&token=test-token'',
       Status \<lparr>phase = Running, message = ''Executing WASI module''\<rparr>,
       Console ''[Runtime] Initializing WASI...'',
       Console ''[Runtime] Running WASI module...'',
       Log ''hello'',
       Log ''WASI execution completed with exit code: 3'',
       Console ''[Runtime] Pod execution failed: Error: Process exited with code 3'',
       Status \<lparr>phase = Failed, message = ''Execution error: Error: Process exited with code 3''\<rparr>],
      Inr ())"
  by (simp add: pod_defs io_defs fixture_defs url_defs)

theorem C1_never_throws_witness:
  "snd (executePod testRuntime testPlatform (testSandbox 3) (testPod []) returns returns) = Inr ()
   \<and> statuses (fst (executePod testRuntime testPlatform (testSandbox 3) (testPod []) returns returns))
       = [\<lparr>phase = Pending, message = ''Downloading WASM module''\<rparr>,
          \<lparr>phase = Failed, message = ''Execution error: Error: No containers specified''\<rparr>]
   \<and> snd (executePod_try testRuntime testPlatform (testSandbox 3) (testPod [wasiContainer])
            returns returns) = Inl ''Error: Process exited with code 3''
   \<and> last (statuses (fst (executePod testRuntime testPlatform (testSandbox 3)
                            (testPod [wasiContainer]) returns returns)))
       = \<lparr>phase = Failed, message = ''Execution error: Error: Process exited with code 3''\<rparr>"
proof -
  have q: "\<forall>st. (returns :: status_callback) st = None"
    by (simp add: returns_def)
  have c: "containers (testPod []) = []"
    by (simp add: testPod_def)
  have t: "snd (executePod_try testRuntime testPlatform (testSandbox 3) (testPod [wasiContainer])
            returns returns) = Inl ''Error: Process exited with code 3''"
    by (simp add: pod_defs io_defs fixture_defs truthyStr_def)
  show ?thesis
    using C1_never_throws [OF q, of testRuntime testPlatform "testSandbox 3" "testPod []" returns]
      C1_never_throws [OF q, of testRuntime testPlatform "testSandbox 3" "testPod [wasiContainer]"
        returns "''Error: Process exited with code 3''"] c t
    by simp
qed

theorem C3_default_mode_witness:
  "containers (testPod [wasiContainer]) = wasiContainer # []
   \<and> truthyStr (pathOf wasiContainer) \<and> \<not> truthyStr (typeOf wasiContainer)
   \<and> snd (downloadWASM testRuntime testPlatform wasiContainer) = Inr [0, 97, 115, 109]
   \<and> \<not> glueAttempted (fst (executePod testRuntime testPlatform (testSandbox 3)
                              (testPod [wasiContainer]) returns returns))
   \<and> fetches (fst (executePod testRuntime testPlatform (testSandbox 3)
                      (testPod [wasiContainer]) returns returns))
       = [''https://registry.example.com/proxy?image=test-image%3Alatest&path=app.wasm&token=test-token'']
   \<and> Status \<lparr>phase = Running, message = ''Executing WASI module''\<rparr>
       \<in> set (fst (executePod testRuntime testPlatform (testSandbox 3)
                      (testPod [wasiContainer]) returns returns))
   \<and> typeOf bindgenContainer = Some ''wasm-bindgen''
   \<and> glueAttempted (fst (executePod testRuntime testPlatform (testSandbox 3)
                            (testPod [bindgenContainer]) returns returns))"
proof -
  have h: "containers (testPod [wasiContainer]) = wasiContainer # []
      \<and> truthyStr (pathOf wasiContainer) \<and> \<not> truthyStr (typeOf wasiContainer)"
    by (simp add: fixture_defs truthyStr_def pathOf_def typeOf_def)
  have q: "(returns :: status_callback) st = None" for st
    by (simp add: returns_def)
  have d: "snd (downloadWASM testRuntime testPlatform wasiContainer) = Inr [0, 97, 115, 109]"
    by (simp add: pod_defs io_defs fixture_defs truthyStr_def)
  have f: "fetches (fst (executePod testRuntime testPlatform (testSandbox 3)
                      (testPod [wasiContainer]) returns returns))
       = [''https://registry.example.com/proxy?image=test-image%3Alatest&path=app.wasm&token=test-token'']"
    by (simp add: pod_defs io_defs fixture_defs url_defs)
  have g: "containers (testPod [bindgenContainer]) = bindgenContainer # []
      \<and> truthyStr (pathOf bindgenContainer) \<and> typeOf bindgenContainer = Some ''wasm-bindgen''
      \<and> snd (downloadWASM testRuntime testPlatform bindgenContainer) = Inr [0, 97, 115, 109]"
    by (simp add: pod_defs io_defs fixture_defs bindgenContainer_def truthyStr_def)
  note wasi = C3_default_mode [where podSpec = "testPod [wasiContainer]" and container = wasiContainer
        and others = "[]" and rt = testRuntime and pf = testPlatform and sb = "testSandbox 3"
        and onStatus = returns and onLog = returns and bytes = "[0, 97, 115, 109]"]
  have n: "\<not> glueAttempted (fst (executePod testRuntime testPlatform (testSandbox 3)
                              (testPod [wasiContainer]) returns returns))"
    using wasi h by simp
  have r: "Status \<lparr>phase = Running, message = ''Executing WASI module''\<rparr>
       \<in> set (fst (executePod testRuntime testPlatform (testSandbox 3)
                      (testPod [wasiContainer]) returns returns))"
    using wasi h q d by simp
  have b: "glueAttempted (fst (executePod testRuntime testPlatform (testSandbox 3)
                            (testPod [bindgenContainer]) returns returns))"
    using C3_default_mode [where podSpec = "testPod [bindgenContainer]" and container = bindgenContainer
        and others = "[]" and rt = testRuntime and pf = testPlatform and sb = "testSandbox 3"
        and onStatus = returns and onLog = returns and bytes = "[0, 97, 115, 109]"
        and t = "''wasm-bindgen''"] g q
    by simp
  show ?thesis
    using h d n f r b g by simp
qed

theorem C4_exit_code_witness:
  "snd (executeWASI (testSandbox 0) [0, 97, 115, 109] [] [] [] returns
          \<lparr>abortedAtStart = False, abortedAfterAwait = False\<rparr>) = Inr ()
   \<and> logs (fst (executeWASI (testSandbox 0) [0, 97, 115, 109] [] [] [] returns
          \<lparr>abortedAtStart = False, abortedAfterAwait = False\<rparr>))
       = [''hello'', ''WASI execution completed with exit code: 0'']
   \<and> snd (downloadWASM testRuntime testPlatform wasiContainer) = Inr [0, 97, 115, 109]
   \<and> statuses (fst (executePod testRuntime testPlatform (testSandbox 3)
                      (testPod [wasiContainer]) returns returns))
       = [\<lparr>phase = Pending, message = ''Downloading WASM module''\<rparr>,
          \<lparr>phase = Running, message = ''Executing WASI module''\<rparr>,
          \<lparr>phase = Failed, message = ''Execution error: Error: Process exited with code 3''\<rparr>]"
proof -
  have a: "(\<forall>l. (returns :: log_callback) l = None)
      \<and> \<not> aborted_later \<lparr>abortedAtStart = False, abortedAfterAwait = False\<rparr>
      \<and> instantiate_error (wasi_of (testSandbox 0) [0, 97, 115, 109] ([] @ [])
                              (map (\<lambda>(n, v). n @ ''='' @ v) [])) = None
      \<and> start_result (wasi_of (testSandbox 0) [0, 97, 115, 109] ([] @ [])
                         (map (\<lambda>(n, v). n @ ''='' @ v) [])) = Inr 0
      \<and> start_writes (wasi_of (testSandbox 0) [0, 97, 115, 109] ([] @ [])
                         (map (\<lambda>(n, v). n @ ''='' @ v) [])) = [''hello'']"
    by (simp add: returns_def aborted_later_def testSandbox_def)
  have b: "(\<forall>st. (returns :: status_callback) st = None)
      \<and> containers (testPod [wasiContainer]) = wasiContainer # []
      \<and> truthyStr (pathOf wasiContainer) \<and> wasiMode wasiContainer
      \<and> snd (downloadWASM testRuntime testPlatform wasiContainer) = Inr [0, 97, 115, 109]
      \<and> \<not> deleted (testSandbox 3)
      \<and> instantiate_error (wasi_of (testSandbox 3) [0, 97, 115, 109]
            (orEmpty (command wasiContainer) @ orEmpty (args wasiContainer))
            (map (\<lambda>(n, v). n @ ''='' @ v) (orEmpty (env wasiContainer)))) = None
      \<and> start_result (wasi_of (testSandbox 3) [0, 97, 115, 109]
            (orEmpty (command wasiContainer) @ orEmpty (args wasiContainer))
            (map (\<lambda>(n, v). n @ ''='' @ v) (orEmpty (env wasiContainer)))) = Inr 3"
    by (simp add: pod_defs io_defs fixture_defs truthyStr_def wasiMode_def)
  have s: "showInt 0 = ''0'' \<and> showInt 3 = ''3''"
    by (simp add: showInt_def digitChar_def)
  show ?thesis
    using C4_exit_code [where onLog = returns and onStatus = returns
        and signal = "\<lparr>abortedAtStart = False, abortedAfterAwait = False\<rparr>"
        and sb = "testSandbox 0" and wasmBytes = "[0, 97, 115, 109]" and cmd = "[]"
        and arguments = "[]" and environ = "[]" and N = 0]
      C4_exit_code [where onLog = returns and onStatus = returns and sb = "testSandbox 3"
        and podSpec = "testPod [wasiContainer]" and container = wasiContainer and others = "[]"
        and rt = testRuntime and pf = testPlatform and bytes = "[0, 97, 115, 109]" and N = 3]
      a b s
    by simp
qed

subsection \<open>C2: module path discovery\<close>

lemma snd_bind: "snd (io_bind m f) = (case snd m of Inl e \<Rightarrow> Inl e | Inr a \<Rightarrow> snd (f a))"
  by (simp add: io_bind_def split: sum.splits)

lemma snd_catch: "snd (io_catch m h) = (case snd m of Inl e \<Rightarrow> snd (h e) | Inr a \<Rightarrow> Inr a)"
  by (simp add: io_catch_def split: sum.splits)

lemma snd_simps [simp]: "snd (io_return x) = Inr x" "snd (io_throw e) = Inl e"
  by (simp_all add: io_return_def io_throw_def)

lemma discoverPath_result:
  "snd (discoverPath rt pf container) =
     Inr (case manifestMain rt pf container of
            Some mainJs \<Rightarrow> setPath (''pkg/'' @ replaceSuffix ''.js'' ''_bg.wasm'' mainJs) container
          | None \<Rightarrow>
              if discoveryThrows rt pf container \<and> \<not> truthyStr (pathOf container)
              then (case imageNameMatch (imageRefOf container) of
                      Some n \<Rightarrow> setPath (fallbackPath n) container
                    | None \<Rightarrow> container)
              else container)"
  unfolding discoverPath_def Let_def
  by (simp add: snd_catch snd_bind manifestMain_def discoveryThrows_def fallbackPath_def truthyStr_def
      split: sum.splits option.splits)

lemma downloadFile_unsanitized_trace:
  "fst (downloadFile_unsanitized rt pf imageRef path variant) =
     (case snd (buildRegistryUrl rt pf) of
        Inl e \<Rightarrow> []
      | Inr u0 \<Rightarrow>
          [Console (''[Runtime] Downloading file '' @ path @ '' from ''
                      @ URL_toString (requestUrl rt u0 imageRef (Some path) variant)),
           Fetch (URL_toString (requestUrl rt u0 imageRef (Some path) variant))])"
  unfolding downloadFile_unsanitized_def downloadFile_with_def Let_def
  by (simp add: fst_bind buildRegistryUrl_silent requestUrl_def split: sum.splits)

lemma discoverPath_trace:
  "\<exists>rest. fst (discoverPath rt pf container) =
     Console (''[Runtime] Discovering WASM path from pkg/package.json for '' @ imageRefOf container)
     # fst (downloadFile_unsanitized rt pf (imageRefOf container) ''pkg/package.json''
              (variantOf container)) @ rest
     \<and> list_all notFetch rest"
  unfolding discoverPath_def Let_def
  by (simp add: fst_catch fst_bind snd_bind notFetch_def split: sum.splits option.splits)

lemma discovery_try_trace:
  "containers podSpec = container # others \<Longrightarrow>
   \<exists>rest. fst (executePod_discovery_try rt pf sb podSpec onStatus onLog)
            = fst (discoverPath rt pf container) @ rest"
  by (simp add: executePod_discovery_try_def fst_bind)

lemma executePod_discovery_trace:
  "onStatus \<lparr>phase = Pending, message = ''Downloading WASM module''\<rparr> = None \<Longrightarrow>
   \<exists>rest. fst (executePod_discovery rt pf sb podSpec onStatus onLog)
     = Console (''[Runtime] Executing pod: ''
                 @ podKeyOf (metadata_namespace podSpec) (metadata_name podSpec))
       # Status \<lparr>phase = Pending, message = ''Downloading WASM module''\<rparr>
       # fst (executePod_discovery_try rt pf sb podSpec onStatus onLog) @ rest"
  by (simp add: executePod_discovery_def fst_bind fst_catch call_onStatus_def)

lemma discovery_attempted:
  assumes c: "containers podSpec = container # others"
    and q: "onStatus \<lparr>phase = Pending, message = ''Downloading WASM module''\<rparr> = None"
  shows "Console (''[Runtime] Discovering WASM path from pkg/package.json for '' @ imageRefOf container)
           \<in> set (fst (executePod_discovery rt pf sb podSpec onStatus onLog))
     \<and> (snd (buildRegistryUrl rt pf) = Inr u0 \<longrightarrow>
          (\<exists>more. fetches (fst (executePod_discovery rt pf sb podSpec onStatus onLog))
             = URL_toString (requestUrl rt u0 (imageRefOf container) (Some ''pkg/package.json'')
                               (variantOf container)) # more))"
proof -
  obtain r1 where 1: "fst (executePod_discovery rt pf sb podSpec onStatus onLog)
     = Console (''[Runtime] Executing pod: ''
                 @ podKeyOf (metadata_namespace podSpec) (metadata_name podSpec))
       # Status \<lparr>phase = Pending, message = ''Downloading WASM module''\<rparr>
       # fst (executePod_discovery_try rt pf sb podSpec onStatus onLog) @ r1"
    using executePod_discovery_trace [of onStatus rt pf sb podSpec onLog] q by blast
  obtain r2 where 2: "fst (executePod_discovery_try rt pf sb podSpec onStatus onLog)
            = fst (discoverPath rt pf container) @ r2"
    using discovery_try_trace [OF c] by blast
  obtain r3 where 3: "fst (discoverPath rt pf container) =
     Console (''[Runtime] Discovering WASM path from pkg/package.json for '' @ imageRefOf container)
     # fst (downloadFile_unsanitized rt pf (imageRefOf container) ''pkg/package.json''
              (variantOf container)) @ r3"
    using discoverPath_trace by blast
  show ?thesis
    unfolding 1 2 3 by (simp add: downloadFile_unsanitized_trace)
qed

lemma all_case_list:
  "(xs = [] \<Longrightarrow> list_all R (fst a)) \<Longrightarrow>
   (\<And>y ys. xs = y # ys \<Longrightarrow> list_all R (fst (f y ys))) \<Longrightarrow>
   list_all R (fst (case xs of [] \<Rightarrow> a | y # ys \<Rightarrow> f y ys))"
  by (cases xs) simp_all

lemma fetchesOnly_notFetch: "list_all notFetch tr \<Longrightarrow> list_all (fetchesOnly a b) tr"
  by (induction tr) (auto simp: notFetch_def fetchesOnly_def split: effect.splits)

lemma notFetch_interceptLog: "list_all notFetch (fst (interceptLog onLog l))"
  unfolding interceptLog_def
  by (intro all_bind all_catch all_if) (simp_all add: notFetch_def call_onLog_def)

lemma notFetch_executeWASM:
  "list_all notFetch (fst (executeWASM sb wasmBytes jsCode cmd arguments environ onLog signal))"
  unfolding executeWASM_def Let_def io_of_option_def
  by (intro all_bind all_catch all_if all_each notFetch_interceptLog notFetch_call_onLog)
     (simp_all add: notFetch_def notFetch_call_onLog split: sum.splits option.splits)

lemma fetchesOnly_try:
  assumes c: "containers podSpec = container # others" and p: "truthyStr (pathOf container)"
    and b: "snd (buildRegistryUrl rt pf) = Inr u0"
  shows "list_all
     (fetchesOnly
        (URL_toString (requestUrl rt u0 (imageRefOf container) (pathOf container) (variantOf container)))
        (URL_toString (requestUrl rt u0 (imageRefOf container)
           (Some (replaceSuffix ''_bg.wasm'' ''.js'' (the (pathOf container)))) (variantOf container))))
     (fst (executePod_try rt pf sb podSpec onStatus onLog))"
proof -
  let ?R = "fetchesOnly
        (URL_toString (requestUrl rt u0 (imageRefOf container) (pathOf container) (variantOf container)))
        (URL_toString (requestUrl rt u0 (imageRefOf container)
           (Some (replaceSuffix ''_bg.wasm'' ''.js'' (the (pathOf container)))) (variantOf container)))"
  have w: "list_all ?R (fst (downloadWASM rt pf container))"
    using p b by (simp add: downloadWASM_trace fetchesOnly_def)
  have j: "list_all ?R (fst (downloadJS rt pf (the (pathOf container)) (imageRefOf container)
                               (variantOf container)))"
    using b by (simp add: downloadJS_trace fetchesOnly_def)
  have e1: "list_all ?R (fst (executeWASI sb x1 x2 x3 x4 onLog x5))" for x1 x2 x3 x4 x5
    by (rule fetchesOnly_notFetch [OF notFetch_executeWASI])
  have e2: "list_all ?R (fst (executeWASM sb x1 x2 x3 x4 x5 onLog x6))" for x1 x2 x3 x4 x5 x6
    by (rule fetchesOnly_notFetch [OF notFetch_executeWASM])
  have s: "list_all ?R (fst (call_onStatus onStatus x y))" for x y
    by (simp add: fetchesOnly_def)
  show ?thesis
    unfolding executePod_try_def Let_def c list.case
    by (intro all_if all_bind all_catch w j e1 e2 s) (simp_all add: fetchesOnly_def)
qed

lemma fetchesOnly_executePod:
  assumes c: "containers podSpec = container # others" and p: "truthyStr (pathOf container)"
    and b: "snd (buildRegistryUrl rt pf) = Inr u0"
  shows "list_all
     (fetchesOnly
        (URL_toString (requestUrl rt u0 (imageRefOf container) (pathOf container) (variantOf container)))
        (URL_toString (requestUrl rt u0 (imageRefOf container)
           (Some (replaceSuffix ''_bg.wasm'' ''.js'' (the (pathOf container)))) (variantOf container))))
     (fst (executePod rt pf sb podSpec onStatus onLog))"
  unfolding executePod_def Let_def executePod_catch_def
  by (intro all_bind all_catch fetchesOnly_try [OF c p b]) (simp_all add: fetchesOnly_def)

lemma fetchesOnly_set:
  "list_all (fetchesOnly a b) tr \<Longrightarrow> set (fetches tr) \<subseteq> {a, b}"
  by (induction tr) (auto simp: fetchesOnly_def split: effect.splits)

lemma pathOf_setPath [simp]: "pathOf (setPath p container) = Some p"
  by (simp add: pathOf_def setPath_def split: option.splits)

text \<open>
  C2, amended. In the revision that has the discovery block, the manifest is looked
  for whenever the pod has a container, explicit path or not: the console line of the
  discovery is written and, if the registry URL can be built, the first request is for
  \<^verbatim>\<open>pkg/package.json\<close>. The block never throws. If the manifest declares a
  non-empty \<^verbatim>\<open>main\<close>, the module path becomes \<^verbatim>\<open>pkg/\<close> followed by that name with
  \<^verbatim>\<open>.js\<close> replaced by \<^verbatim>\<open>_bg.wasm\<close>, whatever path was given. Otherwise an
  explicit path is kept, and only without one, and only when the discovery threw, is the
  path derived from the image name. In the later revision, which has no discovery, every
  request of a pod with an explicit path is for that path or for the glue path derived
  from it.
\<close>

theorem C2_discovery:
  "(containers podSpec = container # others
      \<and> onStatus \<lparr>phase = Pending, message = ''Downloading WASM module''\<rparr> = None \<longrightarrow>
      Console (''[Runtime] Discovering WASM path from pkg/package.json for '' @ imageRefOf container)
        \<in> set (fst (executePod_discovery rt pf sb podSpec onStatus onLog))
      \<and> (snd (buildRegistryUrl rt pf) = Inr base \<longrightarrow>
           (\<exists>more. fetches (fst (executePod_discovery rt pf sb podSpec onStatus onLog))
              = URL_toString (requestUrl rt base (imageRefOf container) (Some ''pkg/package.json'')
                                (variantOf container)) # more)))
   \<and> snd (discoverPath rt pf container) =
       Inr (case manifestMain rt pf container of
              Some mainJs \<Rightarrow> setPath (''pkg/'' @ replaceSuffix ''.js'' ''_bg.wasm'' mainJs) container
            | None \<Rightarrow>
                if discoveryThrows rt pf container \<and> \<not> truthyStr (pathOf container)
                then (case imageNameMatch (imageRefOf container) of
                        Some n \<Rightarrow> setPath (fallbackPath n) container
                      | None \<Rightarrow> container)
                else container)
   \<and> (manifestMain rt pf container = Some mainJs \<longrightarrow>
        map_sum id pathOf (snd (discoverPath rt pf container))
          = Inr (Some (''pkg/'' @ replaceSuffix ''.js'' ''_bg.wasm'' mainJs)))
   \<and> (manifestMain rt pf container = None \<and> truthyStr (pathOf container) \<longrightarrow>
        snd (discoverPath rt pf container) = Inr container)
   \<and> (containers podSpec = container # others \<and> truthyStr (pathOf container)
        \<and> snd (buildRegistryUrl rt pf) = Inr base \<longrightarrow>
        set (fetches (fst (executePod rt pf sb podSpec onStatus onLog)))
          \<subseteq> {URL_toString (requestUrl rt base (imageRefOf container) (pathOf container)
                              (variantOf container)),
              URL_toString (requestUrl rt base (imageRefOf container)
                              (Some (replaceSuffix ''_bg.wasm'' ''.js'' (the (pathOf container))))
                              (variantOf container))})"
proof -
  have attempted: "containers podSpec = container # others
      \<and> onStatus \<lparr>phase = Pending, message = ''Downloading WASM module''\<rparr> = None \<longrightarrow>
      Console (''[Runtime] Discovering WASM path from pkg/package.json for '' @ imageRefOf container)
        \<in> set (fst (executePod_discovery rt pf sb podSpec onStatus onLog))
      \<and> (snd (buildRegistryUrl rt pf) = Inr base \<longrightarrow>
           (\<exists>more. fetches (fst (executePod_discovery rt pf sb podSpec onStatus onLog))
              = URL_toString (requestUrl rt base (imageRefOf container) (Some ''pkg/package.json'')
                                (variantOf container)) # more))"
    using discovery_attempted [of podSpec container others onStatus rt pf sb onLog base] by blast
  note result = discoverPath_result [of rt pf container]
  have overwritten: "manifestMain rt pf container = Some mainJs \<longrightarrow>
        map_sum id pathOf (snd (discoverPath rt pf container))
          = Inr (Some (''pkg/'' @ replaceSuffix ''.js'' ''_bg.wasm'' mainJs))"
    by (simp add: result)
  have kept: "manifestMain rt pf container = None \<and> truthyStr (pathOf container) \<longrightarrow>
        snd (discoverPath rt pf container) = Inr container"
    by (simp add: result)
  have later: "containers podSpec = container # others \<and> truthyStr (pathOf container)
        \<and> snd (buildRegistryUrl rt pf) = Inr base \<longrightarrow>
        set (fetches (fst (executePod rt pf sb podSpec onStatus onLog)))
          \<subseteq> {URL_toString (requestUrl rt base (imageRefOf container) (pathOf container)
                              (variantOf container)),
              URL_toString (requestUrl rt base (imageRefOf container)
                              (Some (replaceSuffix ''_bg.wasm'' ''.js'' (the (pathOf container))))
                              (variantOf container))}"
    using fetchesOnly_set [OF fetchesOnly_executePod [of podSpec container others rt pf base sb onStatus onLog]]
    by blast
  show ?thesis using attempted result overwritten kept later by blast
qed

lemmas discovery_defs = executePod_discovery_def executePod_discovery_try_def discoverPath_def
  downloadFile_unsanitized_def downloadWASM_unsanitized_def downloadJS_unsanitized_def
  downloadFile_with_def downloadWASM_with_def downloadJS_with_def buildRegistryUrl_def
  do_fetch_def executeWASM_def interceptLog_def str_includes_def executePod_catch_def
  pathOf_def typeOf_def variantOf_def imageRefOf_def orEmpty_def setPath_def replaceSuffix_def
  endsWith_def freshSignal_def aborted_later_def podKeyOf_def Let_def

text \<open>
  C2, as stated, fails on the revision with the discovery block: for a container with
  the explicit path \<^verbatim>\<open>/custom/module.wasm\<close> the manifest is fetched, and the module
  and the glue are then requested under the discovered path.
\<close>

theorem C2_counterexample:
  "pathOf hintedContainer = Some ''/custom/module.wasm''
   \<and> fetches (fst (executePod_discovery testRuntime testPlatform (testSandbox 0)
                      (testPod [hintedContainer]) returns returns))
     = [''https://registry.example.com/proxy?image=test-image%3Alatest&path=pkg%2Fpackage.json&token=test-token&variant=browser'',
        ''https://registry.example.com/proxy?image=test-image%3Alatest&path=pkg%2Ftest_bg.wasm&token=test-token&variant=browser'',
        ''https://registry.example.com/proxy?image=test-image%3Alatest&path=pkg%2Ftest.js&token=test-token&variant=browser'']"
  by (simp add: discovery_defs io_defs fixture_defs url_defs)

theorem C2_discovery_witness:
  "containers (testPod [hintedContainer]) = hintedContainer # []
   \<and> (returns :: status_callback) \<lparr>phase = Pending, message = ''Downloading WASM module''\<rparr> = None
   \<and> snd (buildRegistryUrl testRuntime testPlatform) = Inr registryUrl
   \<and> truthyStr (pathOf hintedContainer)
   \<and> manifestMain testRuntime testPlatform hintedContainer = Some ''test.js''
   \<and> map_sum id pathOf (snd (discoverPath testRuntime testPlatform hintedContainer))
       = Inr (Some ''pkg/test_bg.wasm'')
   \<and> manifestMain testRuntime offlinePlatform hintedContainer = None
   \<and> snd (discoverPath testRuntime offlinePlatform hintedContainer) = Inr hintedContainer
   \<and> Console ''[Runtime] Discovering WASM path from pkg/package.json for test-image:latest''
       \<in> set (fst (executePod_discovery testRuntime testPlatform (testSandbox 0)
                      (testPod [hintedContainer]) returns returns))
   \<and> set (fetches (fst (executePod testRuntime testPlatform (testSandbox 0)
                           (testPod [hintedContainer]) returns returns)))
       \<subseteq> {''https://registry.example.com/proxy?image=test-image%3Alatest&path=%2Fcustom%2Fmodule.wasm&token=test-token&variant=browser''}"
proof -
  have c: "containers (testPod [hintedContainer]) = hintedContainer # []"
    by (simp add: testPod_def)
  have q: "(returns :: status_callback) \<lparr>phase = Pending, message = ''Downloading WASM module''\<rparr> = None"
    by (simp add: returns_def)
  have b: "snd (buildRegistryUrl testRuntime testPlatform) = Inr registryUrl"
    by (simp add: buildRegistryUrl_def fixture_defs io_defs)
  have p: "truthyStr (pathOf hintedContainer) \<and> pathOf hintedContainer = Some ''/custom/module.wasm''
      \<and> imageRefOf hintedContainer = ''test-image:latest''
      \<and> variantOf hintedContainer = Some ''browser''"
    by (simp add: hintedContainer_def pathOf_def imageRefOf_def variantOf_def truthyStr_def)
  have m1: "manifestMain testRuntime testPlatform hintedContainer = Some ''test.js''"
    by (simp add: manifestMain_def discovery_defs io_defs fixture_defs truthyStr_def)
  have m2: "manifestMain testRuntime offlinePlatform hintedContainer = None"
    by (simp add: manifestMain_def offlinePlatform_def discovery_defs io_defs fixture_defs truthyStr_def)
  have r: "replaceSuffix ''.js'' ''_bg.wasm'' ''test.js'' = ''test_bg.wasm''
      \<and> replaceSuffix ''_bg.wasm'' ''.js'' ''/custom/module.wasm'' = ''/custom/module.wasm''"
    by (simp add: replaceSuffix_def endsWith_def)
  have u: "URL_toString (requestUrl testRuntime registryUrl ''test-image:latest''
                           (Some ''/custom/module.wasm'') (Some ''browser''))
      = ''https://registry.example.com/proxy?image=test-image%3Alatest&path=%2Fcustom%2Fmodule.wasm&token=test-token&variant=browser''"
    by (simp add: url_defs fixture_defs)
  show ?thesis
    using C2_discovery [where podSpec = "testPod [hintedContainer]" and container = hintedContainer
        and others = "[]" and onStatus = returns and onLog = returns and rt = testRuntime
        and pf = testPlatform and sb = "testSandbox 0" and base = registryUrl and mainJs = "''test.js''"]
      C2_discovery [where podSpec = "testPod [hintedContainer]" and container = hintedContainer
        and others = "[]" and onStatus = returns and onLog = returns and rt = testRuntime
        and pf = offlinePlatform and sb = "testSandbox 0" and base = registryUrl and mainJs = "''test.js''"]
      c q b p m1 m2 r u
    by (simp add: truthyStr_def)
qed

end
